theory Spec2Isabelle
  imports Main "HOL-Library.Multiset"
begin

section \<open>JavaScript values, the driver and the store's input functions\<close>

text \<open>
  The repository holds three CRUD services over PostgreSQL, written with Express:
  \<^item> the task list of \<^verbatim>\<open>index.js\<close> (one table \<^verbatim>\<open>tasks\<close>), prefixed \<open>tl_\<close> below;
  \<^item> the project manager of \<^verbatim>\<open>src/db/index.js\<close>, \<^verbatim>\<open>src/modules/*\<close> and the second
    \<^verbatim>\<open>index.js\<close> (tables \<^verbatim>\<open>assignees\<close>, \<^verbatim>\<open>projects\<close>, \<^verbatim>\<open>tasks\<close>,
    \<^verbatim>\<open>project_assignees\<close>), prefixed \<open>pm_\<close>;
  \<^item> the project manager of \<^verbatim>\<open>project-manager-solution.md\<close> (same four tables, other
    columns, PATCH instead of PUT), prefixed \<open>sol_\<close>.

  A handler is a function from the store, the value of \<^verbatim>\<open>CURRENT_TIMESTAMP\<close> and the
  request to the response and the store afterwards. The store is PostgreSQL behind the
  \<^verbatim>\<open>pg\<close> client: each \<^verbatim>\<open>client.query\<close> of the source is one function below, which
  either throws or returns \<^verbatim>\<open>result.rows\<close>. A table is the list of its rows in the order
  the store scans them; an insert appends.

  A field of a JSON body is one of the scalars below; \<open>Undefined\<close> stands for an absent
  key. Numbers are the integers that \<^verbatim>\<open>toString()\<close> prints in full; a string is the list
  of the bytes of its UTF-8 encoding.
\<close>

datatype jsval = Undefined | Null | JBool bool | JNum int | JStr string

type_synonym body = "string \<Rightarrow> jsval"

definition no_body :: body where
  "no_body = (\<lambda>k. Undefined)"

text \<open>\<^verbatim>\<open>!v\<close> is \<open>\<not> truthy v\<close>.\<close>

fun truthy :: "jsval \<Rightarrow> bool" where
  "truthy Undefined = False"
| "truthy Null = False"
| "truthy (JBool b) = b"
| "truthy (JNum n) = (n \<noteq> 0)"
| "truthy (JStr s) = (s \<noteq> [])"

text \<open>A destructuring default \<^verbatim>\<open>{ role = "member" }\<close> replaces \<^verbatim>\<open>undefined\<close> only.\<close>

definition dflt :: "jsval \<Rightarrow> jsval \<Rightarrow> jsval" where
  "dflt d v = (if v = Undefined then d else v)"

text \<open>\<^verbatim>\<open>v || null\<close>\<close>

definition or_null :: "jsval \<Rightarrow> jsval" where
  "or_null v = (if truthy v then v else Null)"

text \<open>
  What a handler's \<^verbatim>\<open>try\<close> block can throw: a \<^verbatim>\<open>TypeError\<close> of JavaScript (a method
  called on a value that has none), a \<^verbatim>\<open>ReferenceError\<close> (a name that no scope binds),
  or an error of the store. \<open>sqlstate\<close> is \<^verbatim>\<open>error.code\<close> where the handlers compare it.
\<close>

datatype pg_error =
    ConnectionFailure
  | CharacterNotInRepertoire
  | InvalidTextRepresentation
  | NumericValueOutOfRange
  | StringDataRightTruncation
  | InvalidDatetimeFormat
  | DatetimeFieldOverflow
  | SequenceLimitExceeded
  | NotNullViolation
  | ForeignKeyViolation
  | UniqueViolation
  | UndefinedColumn

datatype thrown = TypeError | ReferenceError | Pg pg_error

fun sqlstate :: "thrown \<Rightarrow> string option" where
  "sqlstate TypeError = None"
| "sqlstate ReferenceError = None"
| "sqlstate (Pg ConnectionFailure) = None"
| "sqlstate (Pg CharacterNotInRepertoire) = Some ''22021''"
| "sqlstate (Pg InvalidTextRepresentation) = Some ''22P02''"
| "sqlstate (Pg NumericValueOutOfRange) = Some ''22003''"
| "sqlstate (Pg StringDataRightTruncation) = Some ''22001''"
| "sqlstate (Pg InvalidDatetimeFormat) = Some ''22007''"
| "sqlstate (Pg DatetimeFieldOverflow) = Some ''22008''"
| "sqlstate (Pg SequenceLimitExceeded) = Some ''2200H''"
| "sqlstate (Pg NotNullViolation) = Some ''23502''"
| "sqlstate (Pg ForeignKeyViolation) = Some ''23503''"
| "sqlstate (Pg UniqueViolation) = Some ''23505''"
| "sqlstate (Pg UndefinedColumn) = Some ''42703''"

definition and_then :: "'e + 'a \<Rightarrow> ('a \<Rightarrow> 'e + 'b) \<Rightarrow> 'e + 'b" where
  "and_then x f = (case x of Inl e \<Rightarrow> Inl e | Inr v \<Rightarrow> f v)"

fun each_or_error :: "('a \<Rightarrow> 'e + 'b) \<Rightarrow> 'a list \<Rightarrow> 'e + 'b list" where
  "each_or_error f [] = Inr []"
| "each_or_error f (x # xs) =
     and_then (f x) (\<lambda>y. and_then (each_or_error f xs) (\<lambda>ys. Inr (y # ys)))"

subsection \<open>Strings\<close>

text \<open>
  A character of a string is a byte that is no continuation byte (\<^verbatim>\<open>10xxxxxx\<close>), with
  the continuation bytes that follow it.
\<close>

definition is_continuation :: "char \<Rightarrow> bool" where
  "is_continuation c = (digit7 c \<and> \<not> digit6 c)"

function utf8_chars :: "string \<Rightarrow> string list" where
  "utf8_chars [] = []"
| "utf8_chars (c # cs) =
     (c # takeWhile is_continuation cs) # utf8_chars (dropWhile is_continuation cs)"
  by pat_completeness auto
termination
  by (relation "measure length") (auto simp add: length_dropWhile_le less_Suc_eq_le)

text \<open>
  \<^verbatim>\<open>s.length\<close> counts UTF-16 code units: two for a character of four bytes
  (\<^verbatim>\<open>11110xxx\<close>), one for any other.
\<close>

definition code_units :: "string \<Rightarrow> nat" where
  "code_units ch =
     (case ch of
        [] \<Rightarrow> 0
      | c # cs \<Rightarrow> if digit7 c \<and> digit6 c \<and> digit5 c \<and> digit4 c then 2 else 1)"

definition js_length :: "string \<Rightarrow> nat" where
  "js_length s = sum_list (map code_units (utf8_chars s))"

text \<open>
  \<^verbatim>\<open>s.trim()\<close> removes, at both ends, the white space and the line terminators of
  ECMAScript: U+0009 to U+000D, U+0020, U+00A0, U+1680, U+2000 to U+200A, U+2028, U+2029,
  U+202F, U+205F, U+3000 and U+FEFF.
\<close>

definition white_space :: "string list" where
  "white_space =
     [[CHR 0x09], [CHR 0x0A], [CHR 0x0B], [CHR 0x0C], [CHR 0x0D], [CHR 0x20],
      [CHR 0xC2, CHR 0xA0], [CHR 0xE1, CHR 0x9A, CHR 0x80],
      [CHR 0xE2, CHR 0x80, CHR 0x80], [CHR 0xE2, CHR 0x80, CHR 0x81],
      [CHR 0xE2, CHR 0x80, CHR 0x82], [CHR 0xE2, CHR 0x80, CHR 0x83],
      [CHR 0xE2, CHR 0x80, CHR 0x84], [CHR 0xE2, CHR 0x80, CHR 0x85],
      [CHR 0xE2, CHR 0x80, CHR 0x86], [CHR 0xE2, CHR 0x80, CHR 0x87],
      [CHR 0xE2, CHR 0x80, CHR 0x88], [CHR 0xE2, CHR 0x80, CHR 0x89],
      [CHR 0xE2, CHR 0x80, CHR 0x8A], [CHR 0xE2, CHR 0x80, CHR 0xA8],
      [CHR 0xE2, CHR 0x80, CHR 0xA9], [CHR 0xE2, CHR 0x80, CHR 0xAF],
      [CHR 0xE2, CHR 0x81, CHR 0x9F], [CHR 0xE3, CHR 0x80, CHR 0x80],
      [CHR 0xEF, CHR 0xBB, CHR 0xBF]]"

definition is_white_space :: "string \<Rightarrow> bool" where
  "is_white_space ch = (ch \<in> set white_space)"

definition string_trim :: "string \<Rightarrow> string" where
  "string_trim s =
     concat (rev (dropWhile is_white_space (rev (dropWhile is_white_space (utf8_chars s)))))"

text \<open>
  \<^verbatim>\<open>v.trim()\<close> and \<^verbatim>\<open>v.includes("@")\<close> exist on strings; on any other scalar the call
  throws a \<^verbatim>\<open>TypeError\<close>. \<^verbatim>\<open>@\<close> is one byte and part of no other character.
\<close>

definition js_trim :: "jsval \<Rightarrow> thrown + string" where
  "js_trim v = (case v of JStr s \<Rightarrow> Inr (string_trim s) | _ \<Rightarrow> Inl TypeError)"

definition js_includes :: "jsval \<Rightarrow> char \<Rightarrow> thrown + bool" where
  "js_includes v c = (case v of JStr s \<Rightarrow> Inr (c \<in> set s) | _ \<Rightarrow> Inl TypeError)"

subsection \<open>Decimal text\<close>

definition digit_char :: "nat \<Rightarrow> char" where
  "digit_char n = ''0123456789'' ! n"

function show_nat :: "nat \<Rightarrow> string" where
  "show_nat n = (if n < 10 then [digit_char n] else show_nat (n div 10) @ [digit_char (n mod 10)])"
  by pat_completeness auto
termination
  by (relation "measure id") auto

declare show_nat.simps [simp del]

definition show_int :: "int \<Rightarrow> string" where
  "show_int i = (if i < 0 then CHR ''-'' # show_nat (nat (- i)) else show_nat (nat i))"

text \<open>
  The driver sends every parameter as text: \<^verbatim>\<open>null\<close> and \<^verbatim>\<open>undefined\<close> as SQL NULL,
  a number and a boolean by their \<^verbatim>\<open>toString()\<close>.
\<close>

fun prepareValue :: "jsval \<Rightarrow> string option" where
  "prepareValue Undefined = None"
| "prepareValue Null = None"
| "prepareValue (JBool b) = Some (if b then ''true'' else ''false'')"
| "prepareValue (JNum n) = Some (show_int n)"
| "prepareValue (JStr s) = Some s"

subsection \<open>Input functions of the column types\<close>

text \<open>The blanks of C's \<^verbatim>\<open>isspace\<close>, which the input functions skip at both ends.\<close>

definition is_space :: "char \<Rightarrow> bool" where
  "is_space c = (c \<in> set [CHR '' '', CHR 0x09, CHR 0x0A, CHR 0x0B, CHR 0x0C, CHR 0x0D])"

definition strip :: "string \<Rightarrow> string" where
  "strip s = rev (dropWhile is_space (rev (dropWhile is_space s)))"

definition digit_val :: "char \<Rightarrow> nat option" where
  "digit_val c =
     map_of (zip ''0123456789abcdefABCDEF''
               [0, 1, 2, 3, 4, 5, 6, 7, 8, 9, 10, 11, 12, 13, 14, 15, 10, 11, 12, 13, 14, 15]) c"

definition is_digit_of :: "nat \<Rightarrow> char \<Rightarrow> bool" where
  "is_digit_of base c = (case digit_val c of None \<Rightarrow> False | Some d \<Rightarrow> d < base)"

definition is_digit :: "char \<Rightarrow> bool" where
  "is_digit c = is_digit_of 10 c"

fun digits_val :: "nat \<Rightarrow> string \<Rightarrow> nat" where
  "digits_val acc [] = acc"
| "digits_val acc (c # cs) = digits_val (10 * acc + (case digit_val c of Some d \<Rightarrow> d | None \<Rightarrow> 0)) cs"

text \<open>
  \<^verbatim>\<open>INTEGER\<close>, as \<^verbatim>\<open>pg_strtoint32_safe\<close> of PostgreSQL 16 reads it: blanks, an optional
  sign, then the digits in base 10, or in base 16, 8 or 2 after \<^verbatim>\<open>0x\<close>, \<^verbatim>\<open>0o\<close> or
  \<^verbatim>\<open>0b\<close>, blanks. An underscore may stand before a digit, in base 10 not as the first
  character. \<open>scan_digits\<close> is the loop over the digits: it stops with the error as soon
  as the value leaves 32 bits, and else gives the value and what it did not read;
  \<open>first\<close> holds until a character is read.
\<close>

fun scan_digits :: "nat \<Rightarrow> bool \<Rightarrow> nat \<Rightarrow> string \<Rightarrow> pg_error + nat \<times> string" where
  "scan_digits base first acc [] = Inr (acc, [])"
| "scan_digits base first acc (c # cs) =
     (if is_digit_of base c
      then if 2147483648 div base < acc then Inl NumericValueOutOfRange
           else scan_digits base False
                  (base * acc + (case digit_val c of Some d \<Rightarrow> d | None \<Rightarrow> 0)) cs
      else if c = CHR ''_''
      then if (first \<and> base = 10) \<or> cs = [] \<or> \<not> is_digit_of base (hd cs)
           then Inl InvalidTextRepresentation
           else scan_digits base False acc cs
      else Inr (acc, c # cs))"

definition int4in :: "string \<Rightarrow> pg_error + int" where
  "int4in s =
     (let t = dropWhile is_space s;
          neg = (t \<noteq> [] \<and> hd t = CHR ''-'');
          u = (if t \<noteq> [] \<and> (hd t = CHR ''-'' \<or> hd t = CHR ''+'') then tl t else t);
          base = (if take 2 u \<in> set [''0x'', ''0X''] then 16
                  else if take 2 u \<in> set [''0o'', ''0O''] then 8
                  else if take 2 u \<in> set [''0b'', ''0B''] then 2
                  else 10);
          ds = (if base = 10 then u else drop 2 u)
      in case scan_digits base True 0 ds of
           Inl e \<Rightarrow> Inl e
         | Inr (v, rest) \<Rightarrow>
             if rest = ds \<or> \<not> list_all is_space rest then Inl InvalidTextRepresentation
             else if (if neg then 2147483648 < v else 2147483647 < v)
             then Inl NumericValueOutOfRange
             else Inr (if neg then - int v else int v))"

definition to_lower :: "char \<Rightarrow> char" where
  "to_lower c =
     (case map_of (zip ''ABCDEFGHIJKLMNOPQRSTUVWXYZ'' ''abcdefghijklmnopqrstuvwxyz'') c of
        Some l \<Rightarrow> l
      | None \<Rightarrow> c)"

text \<open>\<^verbatim>\<open>BOOLEAN\<close>: a prefix of true, false, yes, no, or on, off, 1, 0, in any case.\<close>

definition boolin :: "string \<Rightarrow> pg_error + bool" where
  "boolin s =
     (let t = map to_lower (strip s)
      in if t \<in> set [''t'', ''tr'', ''tru'', ''true'', ''y'', ''ye'', ''yes'', ''on'', ''1''] then Inr True
         else if t \<in> set [''f'', ''fa'', ''fal'', ''fals'', ''false'', ''n'', ''no'', ''of'', ''off'', ''0'']
           then Inr False
         else Inl InvalidTextRepresentation)"

text \<open>\<^verbatim>\<open>TEXT\<close> and \<^verbatim>\<open>VARCHAR\<close> take every string.\<close>

definition textin :: "string \<Rightarrow> pg_error + string" where
  "textin s = Inr s"

text \<open>
  A parameter bound to a column of the type read by \<open>f\<close>. NULL is read by no function;
  a string with the byte 0 is refused before any function reads it.
\<close>

definition bind_param :: "(string \<Rightarrow> pg_error + 'a) \<Rightarrow> jsval \<Rightarrow> pg_error + 'a option" where
  "bind_param f v =
     (case prepareValue v of
        None \<Rightarrow> Inr None
      | Some s \<Rightarrow>
          if CHR 0x00 \<in> set s then Inl CharacterNotInRepertoire
          else (case f s of Inl e \<Rightarrow> Inl e | Inr x \<Rightarrow> Inr (Some x)))"

text \<open>
  A value assigned to a \<^verbatim>\<open>VARCHAR(n)\<close> column, after every parameter of the statement
  is read: more than \<open>n\<close> characters are an error unless all beyond the \<open>n\<close>-th are
  spaces, which are cut.
\<close>

definition varchar :: "nat \<Rightarrow> string option \<Rightarrow> pg_error + string option" where
  "varchar n v =
     (case v of
        None \<Rightarrow> Inr None
      | Some s \<Rightarrow>
          let cs = utf8_chars s
          in if length cs \<le> n then Inr (Some s)
             else if list_all (\<lambda>ch. ch = '' '') (drop n cs) then Inr (Some (concat (take n cs)))
             else Inl StringDataRightTruncation)"

subsection \<open>Rows and responses\<close>

text \<open>
  \<^verbatim>\<open>result.rows\<close> is a list of objects keyed by column name. \<open>STime\<close> is a
  \<^verbatim>\<open>TIMESTAMP\<close>, counted in the store's clock ticks.
\<close>

type_synonym date = "nat \<times> nat \<times> nat"

datatype sqlval = SNull | SInt int | SText string | SBool bool | SDate date | STime nat

type_synonym row = "(string \<times> sqlval) list"

definition sql_opt :: "('a \<Rightarrow> sqlval) \<Rightarrow> 'a option \<Rightarrow> sqlval" where
  "sql_opt f x = (case x of None \<Rightarrow> SNull | Some v \<Rightarrow> f v)"

datatype payload = One row | Many "row list"

text \<open>
  The JSON envelope with the HTTP status. \<open>leak\<close> is the key \<^verbatim>\<open>error: error.message\<close>,
  \<open>extra\<close> the keys a handler adds beside \<^verbatim>\<open>data\<close>, \<open>details\<close> the object under the key
  \<^verbatim>\<open>details\<close>.
\<close>

record response =
  http_status :: nat
  success :: bool
  message :: "string option"
  payload :: "payload option"
  leak :: "thrown option"
  extra :: row
  details :: row

definition ok_json :: "nat \<Rightarrow> string option \<Rightarrow> payload option \<Rightarrow> response" where
  "ok_json st m d =
     \<lparr>http_status = st, success = True, message = m, payload = d, leak = None, extra = [],
      details = []\<rparr>"

definition fail_json :: "nat \<Rightarrow> string \<Rightarrow> response" where
  "fail_json st m =
     \<lparr>http_status = st, success = False, message = Some m, payload = None, leak = None,
      extra = [], details = []\<rparr>"

text \<open>The \<^verbatim>\<open>catch\<close> block shared by the handlers of \<^verbatim>\<open>index.js\<close> and \<^verbatim>\<open>src/modules\<close>.\<close>

definition database_error :: "thrown \<Rightarrow> response" where
  "database_error e =
     \<lparr>http_status = 500, success = False, message = Some ''Database error'', payload = None,
      leak = Some e, extra = [], details = []\<rparr>"

subsection \<open>Joins and order\<close>

text \<open>
  \<open>sql_eq\<close> is \<^verbatim>\<open>=\<close> in a \<^verbatim>\<open>WHERE\<close> or \<^verbatim>\<open>ON\<close> clause: NULL equals nothing.
  \<open>left_join\<close> pairs a row with every row of the other table that \<open>on\<close> accepts, or
  with NULLs when there is none; \<open>inner_join\<close> gives the pairs that \<open>on\<close> accepts.
  \<open>order_desc\<close> is \<^verbatim>\<open>ORDER BY ... DESC\<close>.
\<close>

definition sql_eq :: "'a option \<Rightarrow> 'a option \<Rightarrow> bool" where
  "sql_eq x y = (x \<noteq> None \<and> x = y)"

definition join_row :: "('a \<Rightarrow> 'b \<Rightarrow> bool) \<Rightarrow> 'b list \<Rightarrow> 'a \<Rightarrow> ('a \<times> 'b option) list" where
  "join_row on ys x =
     (case filter (on x) ys of
        [] \<Rightarrow> [(x, None)]
      | ms \<Rightarrow> map (\<lambda>y. (x, Some y)) ms)"

definition left_join :: "('a \<Rightarrow> 'b \<Rightarrow> bool) \<Rightarrow> 'a list \<Rightarrow> 'b list \<Rightarrow> ('a \<times> 'b option) list" where
  "left_join on xs ys = concat (map (join_row on ys) xs)"

definition inner_join :: "('a \<Rightarrow> 'b \<Rightarrow> bool) \<Rightarrow> 'a list \<Rightarrow> 'b list \<Rightarrow> ('a \<times> 'b) list" where
  "inner_join on xs ys = concat (map (\<lambda>x. map (\<lambda>y. (x, y)) (filter (on x) ys)) xs)"

definition order_desc :: "('a \<Rightarrow> nat) \<Rightarrow> 'a list \<Rightarrow> 'a list" where
  "order_desc k xs = sort_key (\<lambda>x. - int (k x)) xs"

text \<open>A foreign key: NULL refers to nothing and is accepted; a value must be a key.\<close>

definition references :: "int list \<Rightarrow> int option \<Rightarrow> bool" where
  "references keys k = (case k of None \<Rightarrow> True | Some i \<Rightarrow> i \<in> set keys)"

definition refers_to :: "int list \<Rightarrow> int option \<Rightarrow> bool" where
  "refers_to keys k = (case k of None \<Rightarrow> False | Some i \<Rightarrow> i \<in> set keys)"

section \<open>The task list (index.js)\<close>

text \<open>
  \<^verbatim>\<open>createTasksTable\<close>: \<^verbatim>\<open>id SERIAL PRIMARY KEY, title VARCHAR(255) NOT NULL,
  description TEXT, completed BOOLEAN DEFAULT FALSE, created_at, updated_at TIMESTAMP DEFAULT
  CURRENT_TIMESTAMP\<close>. No statement of the service writes NULL to a timestamp.
\<close>

record tl_task =
  tl_id :: int
  tl_title :: string
  tl_description :: "string option"
  tl_completed :: "bool option"
  tl_created_at :: nat
  tl_updated_at :: nat

text \<open>
  The store: the table, the next value of the sequence behind \<^verbatim>\<open>SERIAL\<close>, and whether
  the connection is up.
\<close>

record tl_store =
  tl_tasks :: "tl_task list"
  tl_tasks_id_seq :: int
  tl_connected :: bool

definition tl_row :: "tl_task \<Rightarrow> row" where
  "tl_row t =
     [(''id'', SInt (tl_id t)), (''title'', SText (tl_title t)),
      (''description'', sql_opt SText (tl_description t)),
      (''completed'', sql_opt SBool (tl_completed t)),
      (''created_at'', STime (tl_created_at t)), (''updated_at'', STime (tl_updated_at t))]"

text \<open>\<^verbatim>\<open>SELECT * FROM tasks\<close>\<close>

definition tl_select_tasks :: "tl_store \<Rightarrow> thrown + row list" where
  "tl_select_tasks db =
     (if \<not> tl_connected db then Inl (Pg ConnectionFailure)
      else Inr (map tl_row (tl_tasks db)))"

text \<open>\<^verbatim>\<open>SELECT * FROM tasks WHERE id = $1\<close>\<close>

definition tl_select_task :: "tl_store \<Rightarrow> jsval \<Rightarrow> thrown + row list" where
  "tl_select_task db ident =
     (if \<not> tl_connected db then Inl (Pg ConnectionFailure)
      else case bind_param int4in ident of
        Inl e \<Rightarrow> Inl (Pg e)
      | Inr i \<Rightarrow> Inr (map tl_row (filter (\<lambda>t. Some (tl_id t) = i) (tl_tasks db))))"

text \<open>
  \<^verbatim>\<open>INSERT INTO tasks (title, description) VALUES ($1, $2) RETURNING *\<close>. The
  parameters are read, in their order, before the statement runs; the sequence keeps
  the value it handed out when a constraint then rejects the row.
\<close>

definition tl_insert_task :: "tl_store \<Rightarrow> nat \<Rightarrow> jsval \<Rightarrow> jsval \<Rightarrow> (thrown + row list) \<times> tl_store" where
  "tl_insert_task db now title description =
     (if \<not> tl_connected db then (Inl (Pg ConnectionFailure), db)
      else case and_then (bind_param textin title) (\<lambda>t.
                and_then (bind_param textin description) (\<lambda>d.
                and_then (varchar 255 t) (\<lambda>t'. Inr (t', d)))) of
        Inl e \<Rightarrow> (Inl (Pg e), db)
      | Inr (t, d) \<Rightarrow>
          if 2147483647 < tl_tasks_id_seq db then (Inl (Pg SequenceLimitExceeded), db)
          else
            let i = tl_tasks_id_seq db;
                db' = db\<lparr>tl_tasks_id_seq := i + 1\<rparr>
            in (case t of
                  None \<Rightarrow> (Inl (Pg NotNullViolation), db')
                | Some tt \<Rightarrow>
                    if filter (\<lambda>r. tl_id r = i) (tl_tasks db) \<noteq> [] then (Inl (Pg UniqueViolation), db')
                    else
                      let r = \<lparr>tl_id = i, tl_title = tt, tl_description = d,
                               tl_completed = Some False, tl_created_at = now, tl_updated_at = now\<rparr>
                      in (Inr [tl_row r], db'\<lparr>tl_tasks := tl_tasks db @ [r]\<rparr>)))"

text \<open>
  \<^verbatim>\<open>UPDATE tasks SET title = $1, description = $2, completed = $3,
  updated_at = CURRENT_TIMESTAMP WHERE id = $4 RETURNING *\<close>
\<close>

definition tl_update_task ::
  "tl_store \<Rightarrow> nat \<Rightarrow> jsval \<Rightarrow> jsval \<Rightarrow> jsval \<Rightarrow> jsval \<Rightarrow> (thrown + row list) \<times> tl_store" where
  "tl_update_task db now title description completed ident =
     (if \<not> tl_connected db then (Inl (Pg ConnectionFailure), db)
      else case and_then (bind_param textin title) (\<lambda>t.
                and_then (bind_param textin description) (\<lambda>d.
                and_then (bind_param boolin completed) (\<lambda>c.
                and_then (bind_param int4in ident) (\<lambda>i.
                and_then (varchar 255 t) (\<lambda>t'. Inr (t', d, c, i)))))) of
        Inl e \<Rightarrow> (Inl (Pg e), db)
      | Inr (t, d, c, i) \<Rightarrow>
          if filter (\<lambda>r. Some (tl_id r) = i) (tl_tasks db) = [] then (Inr [], db)
          else (case t of
            None \<Rightarrow> (Inl (Pg NotNullViolation), db)
          | Some tt \<Rightarrow>
              let set_row = (\<lambda>r. r\<lparr>tl_title := tt, tl_description := d,
                                 tl_completed := c, tl_updated_at := now\<rparr>);
                  ts = map (\<lambda>r. if Some (tl_id r) = i then set_row r else r) (tl_tasks db)
              in (Inr (map tl_row (filter (\<lambda>r. Some (tl_id r) = i) ts)), db\<lparr>tl_tasks := ts\<rparr>)))"

text \<open>\<^verbatim>\<open>DELETE FROM tasks WHERE id = $1 RETURNING *\<close>\<close>

definition tl_delete_from_tasks :: "tl_store \<Rightarrow> jsval \<Rightarrow> (thrown + row list) \<times> tl_store" where
  "tl_delete_from_tasks db ident =
     (if \<not> tl_connected db then (Inl (Pg ConnectionFailure), db)
      else case bind_param int4in ident of
        Inl e \<Rightarrow> (Inl (Pg e), db)
      | Inr i \<Rightarrow>
          (Inr (map tl_row (filter (\<lambda>r. Some (tl_id r) = i) (tl_tasks db))),
           db\<lparr>tl_tasks := filter (\<lambda>r. Some (tl_id r) \<noteq> i) (tl_tasks db)\<rparr>))"

text \<open>\<^verbatim>\<open>app.get("/api/tasks")\<close>\<close>

definition tl_get_tasks :: "tl_store \<Rightarrow> response" where
  "tl_get_tasks db =
     (case tl_select_tasks db of
        Inl e \<Rightarrow> database_error e
      | Inr rows \<Rightarrow> ok_json 200 None (Some (Many rows)))"

text \<open>\<^verbatim>\<open>app.get("/api/tasks/:id")\<close>; \<open>ident\<close> is \<^verbatim>\<open>req.params.id\<close>, a string.\<close>

definition tl_get_task :: "tl_store \<Rightarrow> string \<Rightarrow> response" where
  "tl_get_task db ident =
     (case tl_select_task db (JStr ident) of
        Inl e \<Rightarrow> database_error e
      | Inr rows \<Rightarrow>
          if length rows = 0 then fail_json 404 ''Task not found''
          else ok_json 200 None (Some (One (hd rows))))"

text \<open>\<^verbatim>\<open>app.post("/api/tasks")\<close>\<close>

definition tl_post_task :: "tl_store \<Rightarrow> nat \<Rightarrow> body \<Rightarrow> response \<times> tl_store" where
  "tl_post_task db now b =
     (let title = b ''title''; description = b ''description''
      in if \<not> truthy title then (fail_json 400 ''Title is required'', db)
         else case tl_insert_task db now title description of
           (Inl e, db') \<Rightarrow> (database_error e, db')
         | (Inr rows, db') \<Rightarrow>
             (ok_json 201 (Some ''Task created successfully'') (Some (One (hd rows))), db'))"

text \<open>\<^verbatim>\<open>app.put("/api/tasks/:id")\<close>\<close>

definition tl_put_task :: "tl_store \<Rightarrow> nat \<Rightarrow> string \<Rightarrow> body \<Rightarrow> response \<times> tl_store" where
  "tl_put_task db now ident b =
     (let title = b ''title''; description = b ''description''; completed = b ''completed''
      in case tl_update_task db now title description completed (JStr ident) of
           (Inl e, db') \<Rightarrow> (database_error e, db')
         | (Inr rows, db') \<Rightarrow>
             if length rows = 0 then (fail_json 404 ''Task not found'', db')
             else (ok_json 200 (Some ''Task updated successfully'') (Some (One (hd rows))), db'))"

text \<open>\<^verbatim>\<open>app.delete("/api/tasks/:id")\<close>\<close>

definition tl_delete_task :: "tl_store \<Rightarrow> string \<Rightarrow> response \<times> tl_store" where
  "tl_delete_task db ident =
     (case tl_delete_from_tasks db (JStr ident) of
        (Inl e, db') \<Rightarrow> (database_error e, db')
      | (Inr rows, db') \<Rightarrow>
          if length rows = 0 then (fail_json 404 ''Task not found'', db')
          else (ok_json 200 (Some ''Task deleted successfully'') None, db'))"

section \<open>The project manager (src/db/index.js, src/modules, index.js)\<close>

subsection \<open>Schema\<close>

text \<open>
  \<^verbatim>\<open>initializeDatabase\<close>. A nullable column is an \<open>option\<close>; \<^verbatim>\<open>id\<close> is the primary
  key; the timestamps are written by \<^verbatim>\<open>DEFAULT CURRENT_TIMESTAMP\<close> and
  \<^verbatim>\<open>updated_at = CURRENT_TIMESTAMP\<close> only.
\<close>

record assignee =
  a_id :: int
  a_name :: string
  a_email :: string
  a_role :: "string option"
  a_created_at :: nat
  a_updated_at :: nat

record pm_project =
  p_id :: int
  p_title :: string
  p_description :: "string option"
  p_status :: "string option"
  p_priority :: "string option"
  p_owner_id :: "int option"
  p_start_date :: "date option"
  p_end_date :: "date option"
  p_created_at :: nat
  p_updated_at :: nat

record pm_task =
  t_id :: int
  t_title :: string
  t_description :: "string option"
  t_status :: "string option"
  t_priority :: "string option"
  t_project_id :: "int option"
  t_assigned_to :: "int option"
  t_due_date :: "date option"
  t_completed :: "bool option"
  t_created_at :: nat
  t_updated_at :: nat

record membership =
  m_id :: int
  m_project_id :: "int option"
  m_assignee_id :: "int option"
  m_role_in_project :: "string option"
  m_assigned_at :: nat

record pm_store =
  pm_assignees :: "assignee list"
  pm_projects :: "pm_project list"
  pm_tasks :: "pm_task list"
  pm_project_assignees :: "membership list"
  pm_assignees_id_seq :: int
  pm_projects_id_seq :: int
  pm_tasks_id_seq :: int
  pm_project_assignees_id_seq :: int
  pm_connected :: bool

definition assignee_row :: "assignee \<Rightarrow> row" where
  "assignee_row a =
     [(''id'', SInt (a_id a)), (''name'', SText (a_name a)), (''email'', SText (a_email a)),
      (''role'', sql_opt SText (a_role a)),
      (''created_at'', STime (a_created_at a)), (''updated_at'', STime (a_updated_at a))]"

definition pm_task_row :: "pm_task \<Rightarrow> row" where
  "pm_task_row t =
     [(''id'', SInt (t_id t)), (''title'', SText (t_title t)),
      (''description'', sql_opt SText (t_description t)),
      (''status'', sql_opt SText (t_status t)), (''priority'', sql_opt SText (t_priority t)),
      (''project_id'', sql_opt SInt (t_project_id t)),
      (''assigned_to'', sql_opt SInt (t_assigned_to t)),
      (''due_date'', sql_opt SDate (t_due_date t)),
      (''completed'', sql_opt SBool (t_completed t)),
      (''created_at'', STime (t_created_at t)), (''updated_at'', STime (t_updated_at t))]"

subsection \<open>Statements of the modules that import the client\<close>

text \<open>\<^verbatim>\<open>SELECT * FROM assignees ORDER BY created_at DESC\<close>\<close>

definition pm_select_assignees :: "pm_store \<Rightarrow> thrown + row list" where
  "pm_select_assignees db =
     (if \<not> pm_connected db then Inl (Pg ConnectionFailure)
      else Inr (map assignee_row (order_desc a_created_at (pm_assignees db))))"

text \<open>
  \<^verbatim>\<open>INSERT INTO assignees (name, email, role) VALUES ($1, $2, $3) RETURNING *\<close>, with
  \<^verbatim>\<open>name VARCHAR(255) NOT NULL, email VARCHAR(255) UNIQUE NOT NULL, role VARCHAR(50)\<close>.
  The sequence keeps the value it handed out when a constraint rejects the row.
\<close>

definition pm_insert_assignee ::
  "pm_store \<Rightarrow> nat \<Rightarrow> jsval \<Rightarrow> jsval \<Rightarrow> jsval \<Rightarrow> (thrown + row list) \<times> pm_store" where
  "pm_insert_assignee db now name email role =
     (if \<not> pm_connected db then (Inl (Pg ConnectionFailure), db)
      else case and_then (bind_param textin name) (\<lambda>n.
                and_then (bind_param textin email) (\<lambda>e.
                and_then (bind_param textin role) (\<lambda>r.
                and_then (varchar 255 n) (\<lambda>n'.
                and_then (varchar 255 e) (\<lambda>e'.
                and_then (varchar 50 r) (\<lambda>r'. Inr (n', e', r'))))))) of
        Inl e \<Rightarrow> (Inl (Pg e), db)
      | Inr (n, e, r) \<Rightarrow>
          if 2147483647 < pm_assignees_id_seq db then (Inl (Pg SequenceLimitExceeded), db)
          else
            let i = pm_assignees_id_seq db;
                db' = db\<lparr>pm_assignees_id_seq := i + 1\<rparr>
            in (case (n, e) of
                  (Some nm, Some em) \<Rightarrow>
                    if filter (\<lambda>a. a_id a = i \<or> a_email a = em) (pm_assignees db) \<noteq> []
                    then (Inl (Pg UniqueViolation), db')
                    else
                      let a = \<lparr>a_id = i, a_name = nm, a_email = em, a_role = r,
                               a_created_at = now, a_updated_at = now\<rparr>
                      in (Inr [assignee_row a], db'\<lparr>pm_assignees := pm_assignees db @ [a]\<rparr>)
                | _ \<Rightarrow> (Inl (Pg NotNullViolation), db')))"

text \<open>
  \<^verbatim>\<open>SELECT t.*, a.name as assigned_to_name FROM tasks t LEFT JOIN assignees a
  ON t.assigned_to = a.id WHERE t.project_id = $1 ORDER BY t.created_at DESC\<close>
\<close>

definition pm_select_project_tasks :: "pm_store \<Rightarrow> jsval \<Rightarrow> thrown + row list" where
  "pm_select_project_tasks db ident =
     (if \<not> pm_connected db then Inl (Pg ConnectionFailure)
      else case bind_param int4in ident of
        Inl e \<Rightarrow> Inl (Pg e)
      | Inr i \<Rightarrow>
          Inr (map (\<lambda>(t, a). pm_task_row t @ [(''assigned_to_name'', sql_opt SText (map_option a_name a))])
                (order_desc (\<lambda>(t, a). t_created_at t)
                   (filter (\<lambda>(t, a). sql_eq (t_project_id t) i)
                      (left_join (\<lambda>t a. sql_eq (t_assigned_to t) (Some (a_id a)))
                         (pm_tasks db) (pm_assignees db))))))"

text \<open>
  \<^verbatim>\<open>SELECT t.*, p.title as project_title FROM tasks t LEFT JOIN projects p
  ON t.project_id = p.id WHERE t.assigned_to = $1 ORDER BY t.created_at DESC\<close>
\<close>

definition pm_select_assignee_tasks :: "pm_store \<Rightarrow> jsval \<Rightarrow> thrown + row list" where
  "pm_select_assignee_tasks db ident =
     (if \<not> pm_connected db then Inl (Pg ConnectionFailure)
      else case bind_param int4in ident of
        Inl e \<Rightarrow> Inl (Pg e)
      | Inr i \<Rightarrow>
          Inr (map (\<lambda>(t, p). pm_task_row t @ [(''project_title'', sql_opt SText (map_option p_title p))])
                (order_desc (\<lambda>(t, p). t_created_at t)
                   (filter (\<lambda>(t, p). sql_eq (t_assigned_to t) i)
                      (left_join (\<lambda>t p. sql_eq (t_project_id t) (Some (p_id p)))
                         (pm_tasks db) (pm_projects db))))))"

subsection \<open>Handlers\<close>

text \<open>\<^verbatim>\<open>getAllAssignees\<close> of the assignees controller, which imports the client.\<close>

definition getAllAssignees :: "pm_store \<Rightarrow> response" where
  "getAllAssignees db =
     (case pm_select_assignees db of
        Inl e \<Rightarrow> database_error e
      | Inr rows \<Rightarrow> ok_json 200 None (Some (Many rows)))"

text \<open>\<^verbatim>\<open>createAssignee\<close> of the assignees controller.\<close>

definition createAssignee :: "pm_store \<Rightarrow> nat \<Rightarrow> body \<Rightarrow> response \<times> pm_store" where
  "createAssignee db now b =
     (let name = b ''name''; email = b ''email''; role = dflt (JStr ''member'') (b ''role'')
      in if \<not> truthy name \<or> \<not> truthy email
         then (fail_json 400 ''Name and email are required'', db)
         else case pm_insert_assignee db now name email role of
           (Inl e, db') \<Rightarrow> (database_error e, db')
         | (Inr rows, db') \<Rightarrow>
             (ok_json 201 (Some ''Assignee created successfully'') (Some (One (hd rows))), db'))"

text \<open>
  \<^verbatim>\<open>app.get("/api/projects/:id/tasks")\<close> and \<^verbatim>\<open>app.get("/api/assignees/:id/tasks")\<close>
  of \<^verbatim>\<open>index.js\<close>, which imports the client. No router mounted before them has a
  route of two segments, so the requests reach them.
\<close>

definition app_get_project_tasks :: "pm_store \<Rightarrow> string \<Rightarrow> response" where
  "app_get_project_tasks db ident =
     (case pm_select_project_tasks db (JStr ident) of
        Inl e \<Rightarrow> database_error e
      | Inr rows \<Rightarrow> ok_json 200 None (Some (Many rows)))"

definition app_get_assignee_tasks :: "pm_store \<Rightarrow> string \<Rightarrow> response" where
  "app_get_assignee_tasks db ident =
     (case pm_select_assignee_tasks db (JStr ident) of
        Inl e \<Rightarrow> database_error e
      | Inr rows \<Rightarrow> ok_json 200 None (Some (Many rows)))"

text \<open>
  \<^verbatim>\<open>src/modules/tasks/route.js\<close> and the projects router import \<^verbatim>\<open>express\<close> and nothing
  else: no scope binds the name \<^verbatim>\<open>client\<close> on which each of their handlers calls
  \<^verbatim>\<open>query\<close>. Evaluating \<^verbatim>\<open>client.query(...)\<close> throws a \<^verbatim>\<open>ReferenceError\<close> inside
  the handler's \<^verbatim>\<open>try\<close> block, before a statement is built from the arguments, and the
  handler answers through its \<^verbatim>\<open>catch\<close> block. \<open>unbound_client_query\<close> is that call;
  the store of these handlers is never reached.
\<close>

definition unbound_client_query :: "jsval list \<Rightarrow> thrown + row list" where
  "unbound_client_query params = Inl ReferenceError"


text \<open>\<^verbatim>\<open>tasksRouter.get("/:id")\<close>\<close>

definition tasksRouter_get_id :: "pm_store \<Rightarrow> string \<Rightarrow> response" where
  "tasksRouter_get_id db ident =
     (case unbound_client_query [JStr ident] of
        Inl e \<Rightarrow> database_error e
      | Inr rows \<Rightarrow>
          if length rows = 0 then fail_json 404 ''Task not found''
          else ok_json 200 None (Some (One (hd rows))))"

text \<open>\<^verbatim>\<open>tasksRouter.post("/")\<close>\<close>

definition tasksRouter_post :: "pm_store \<Rightarrow> nat \<Rightarrow> body \<Rightarrow> response \<times> pm_store" where
  "tasksRouter_post db now b =
     (let title = b ''title'';
          description = b ''description'';
          status = dflt (JStr ''pending'') (b ''status'');
          priority = dflt (JStr ''medium'') (b ''priority'');
          project_id = b ''project_id'';
          assigned_to = b ''assigned_to'';
          due_date = b ''due_date'';
          completed = dflt (JBool False) (b ''completed'')
      in if \<not> truthy title then (fail_json 400 ''Title is required'', db)
         else case unbound_client_query
                     [title, description, status, priority, project_id, assigned_to, due_date,
                      completed] of
           Inl e \<Rightarrow> (database_error e, db)
         | Inr rows \<Rightarrow>
             (ok_json 201 (Some ''Task created successfully'') (Some (One (hd rows))), db))"

text \<open>\<^verbatim>\<open>tasksRouter.put("/:id")\<close>\<close>

definition tasksRouter_put :: "pm_store \<Rightarrow> nat \<Rightarrow> string \<Rightarrow> body \<Rightarrow> response \<times> pm_store" where
  "tasksRouter_put db now ident b =
     (case unbound_client_query
             [b ''title'', b ''description'', b ''status'', b ''priority'', b ''project_id'',
              b ''assigned_to'', b ''due_date'', b ''completed'', JStr ident] of
        Inl e \<Rightarrow> (database_error e, db)
      | Inr rows \<Rightarrow>
          if length rows = 0 then (fail_json 404 ''Task not found'', db)
          else (ok_json 200 (Some ''Task updated successfully'') (Some (One (hd rows))), db))"


section \<open>The project manager of project-manager-solution.md\<close>

text \<open>
  A step of a handler's \<^verbatim>\<open>try\<close> block throws, answers (\<^verbatim>\<open>return res.status(..)\<close>) or
  goes on with a value.
\<close>

datatype 'a step = Throw thrown | Reply response | Go 'a

fun then_do :: "'a step \<Rightarrow> ('a \<Rightarrow> 'b step) \<Rightarrow> 'b step" where
  "then_do (Throw e) f = Throw e"
| "then_do (Reply r) f = Reply r"
| "then_do (Go x) f = f x"

definition attempt :: "thrown + 'a \<Rightarrow> 'a step" where
  "attempt x = (case x of Inl e \<Rightarrow> Throw e | Inr v \<Rightarrow> Go v)"

subsection \<open>Schema\<close>

text \<open>
  \<^verbatim>\<open>initializeDatabase\<close> of the document: \<^verbatim>\<open>assignees\<close> and \<^verbatim>\<open>project_assignees\<close>
  have the columns of the records above (\<^verbatim>\<open>role VARCHAR(100)\<close>); \<^verbatim>\<open>projects\<close> has
  \<^verbatim>\<open>name\<close>, \<^verbatim>\<open>description\<close>, \<^verbatim>\<open>status\<close>; \<^verbatim>\<open>tasks\<close> has
  \<^verbatim>\<open>project_id ... ON DELETE CASCADE\<close> and \<^verbatim>\<open>assignee_id ... ON DELETE SET NULL\<close>;
  both columns of \<^verbatim>\<open>project_assignees\<close> are \<^verbatim>\<open>ON DELETE CASCADE\<close>.
\<close>

record sol_project =
  sp_id :: int
  sp_name :: string
  sp_description :: "string option"
  sp_status :: "string option"
  sp_created_at :: nat
  sp_updated_at :: nat

record sol_task =
  st_id :: int
  st_title :: string
  st_description :: "string option"
  st_status :: "string option"
  st_priority :: "string option"
  st_due_date :: "date option"
  st_project_id :: "int option"
  st_assignee_id :: "int option"
  st_created_at :: nat
  st_updated_at :: nat

text \<open>
  The store. How PostgreSQL reads a \<^verbatim>\<open>DATE\<close> from text depends on its version and its
  \<^verbatim>\<open>DateStyle\<close> setting, which the document does not fix: the store carries that input
  function, \<open>sol_date_in\<close>.
\<close>

record sol_store =
  sol_assignees :: "assignee list"
  sol_projects :: "sol_project list"
  sol_tasks :: "sol_task list"
  sol_project_assignees :: "membership list"
  sol_assignees_id_seq :: int
  sol_projects_id_seq :: int
  sol_tasks_id_seq :: int
  sol_project_assignees_id_seq :: int
  sol_connected :: bool
  sol_date_in :: "string \<Rightarrow> pg_error + date"

definition sol_project_row :: "sol_project \<Rightarrow> row" where
  "sol_project_row p =
     [(''id'', SInt (sp_id p)), (''name'', SText (sp_name p)),
      (''description'', sql_opt SText (sp_description p)),
      (''status'', sql_opt SText (sp_status p)),
      (''created_at'', STime (sp_created_at p)), (''updated_at'', STime (sp_updated_at p))]"

definition sol_task_row :: "sol_task \<Rightarrow> row" where
  "sol_task_row t =
     [(''id'', SInt (st_id t)), (''title'', SText (st_title t)),
      (''description'', sql_opt SText (st_description t)),
      (''status'', sql_opt SText (st_status t)), (''priority'', sql_opt SText (st_priority t)),
      (''due_date'', sql_opt SDate (st_due_date t)),
      (''project_id'', sql_opt SInt (st_project_id t)),
      (''assignee_id'', sql_opt SInt (st_assignee_id t)),
      (''created_at'', STime (st_created_at t)), (''updated_at'', STime (st_updated_at t))]"

definition membership_row :: "membership \<Rightarrow> row" where
  "membership_row m =
     [(''id'', SInt (m_id m)), (''project_id'', sql_opt SInt (m_project_id m)),
      (''assignee_id'', sql_opt SInt (m_assignee_id m)),
      (''role_in_project'', sql_opt SText (m_role_in_project m)),
      (''assigned_at'', STime (m_assigned_at m))]"

subsection \<open>The UPDATE that the PATCH handlers build\<close>

text \<open>
  \<^verbatim>\<open>UPDATE table SET c1 = $1, ..., updated_at = CURRENT_TIMESTAMP WHERE id = $n
  RETURNING *\<close>, given as the list of the columns with their parameters. \<open>read_sets\<close>
  reads the parameters in their order, each by \<open>input\<close> of its column, then cuts each
  value to the length of its column; \<open>assigns\<close> writes the values to a row;
  \<open>update_rows\<close> does so in the rows of the key \<open>i\<close> and passes each new row, with the
  old one, to the checks of the table's constraints.
\<close>

definition read_sets ::
  "(string \<Rightarrow> jsval \<Rightarrow> pg_error + 'v) \<Rightarrow> (string \<Rightarrow> 'v \<Rightarrow> pg_error + 'v) \<Rightarrow>
   (string \<times> jsval) list \<Rightarrow> jsval \<Rightarrow> pg_error + (string \<times> 'v) list \<times> int option" where
  "read_sets input len sets ident =
     and_then (each_or_error (\<lambda>(c, v). and_then (input c v) (\<lambda>w. Inr (c, w))) sets) (\<lambda>vs.
     and_then (bind_param int4in ident) (\<lambda>i.
     and_then (each_or_error (\<lambda>(c, w). and_then (len c w) (\<lambda>x. Inr (c, x))) vs) (\<lambda>ws.
       Inr (ws, i))))"

fun assigns :: "(string \<Rightarrow> 'v \<Rightarrow> 'r \<Rightarrow> pg_error + 'r) \<Rightarrow> (string \<times> 'v) list \<Rightarrow> 'r \<Rightarrow> pg_error + 'r" where
  "assigns f [] r = Inr r"
| "assigns f ((col, v) # cs) r = and_then (f col v r) (assigns f cs)"

definition update_rows ::
  "('r \<Rightarrow> int) \<Rightarrow> (string \<Rightarrow> 'v \<Rightarrow> 'r \<Rightarrow> pg_error + 'r) \<Rightarrow> ('r \<Rightarrow> 'r \<Rightarrow> pg_error + 'r) \<Rightarrow>
   (string \<times> 'v) list \<Rightarrow> int option \<Rightarrow> 'r list \<Rightarrow> pg_error + 'r list" where
  "update_rows key assign check ws i rows =
     each_or_error
       (\<lambda>r. if sql_eq (Some (key r)) i then and_then (assigns assign ws r) (check r) else Inr r)
       rows"

text \<open>The columns of \<^verbatim>\<open>assignees\<close> and of \<^verbatim>\<open>projects\<close> that a PATCH can set are text.\<close>

definition sol_assignee_input :: "string \<Rightarrow> jsval \<Rightarrow> pg_error + string option" where
  "sol_assignee_input col v =
     (if col = ''name'' \<or> col = ''email'' \<or> col = ''role'' then bind_param textin v
      else Inl UndefinedColumn)"

definition sol_assignee_length :: "string \<Rightarrow> string option \<Rightarrow> pg_error + string option" where
  "sol_assignee_length col v =
     (if col = ''name'' \<or> col = ''email'' then varchar 255 v
      else if col = ''role'' then varchar 100 v
      else Inr v)"

definition sol_assignee_assign :: "string \<Rightarrow> string option \<Rightarrow> assignee \<Rightarrow> pg_error + assignee" where
  "sol_assignee_assign col v a =
     (if col = ''name'' then (case v of
                                None \<Rightarrow> Inl NotNullViolation
                              | Some s \<Rightarrow> Inr (a\<lparr>a_name := s\<rparr>))
      else if col = ''email'' then (case v of
                                      None \<Rightarrow> Inl NotNullViolation
                                    | Some s \<Rightarrow> Inr (a\<lparr>a_email := s\<rparr>))
      else if col = ''role'' then Inr (a\<lparr>a_role := v\<rparr>)
      else Inl UndefinedColumn)"

definition sol_project_input :: "string \<Rightarrow> jsval \<Rightarrow> pg_error + string option" where
  "sol_project_input col v =
     (if col = ''name'' \<or> col = ''description'' \<or> col = ''status'' then bind_param textin v
      else Inl UndefinedColumn)"

definition sol_project_length :: "string \<Rightarrow> string option \<Rightarrow> pg_error + string option" where
  "sol_project_length col v =
     (if col = ''name'' then varchar 255 v
      else if col = ''status'' then varchar 50 v
      else Inr v)"

definition sol_project_assign :: "string \<Rightarrow> string option \<Rightarrow> sol_project \<Rightarrow> pg_error + sol_project" where
  "sol_project_assign col v p =
     (if col = ''name'' then (case v of
                                None \<Rightarrow> Inl NotNullViolation
                              | Some s \<Rightarrow> Inr (p\<lparr>sp_name := s\<rparr>))
      else if col = ''description'' then Inr (p\<lparr>sp_description := v\<rparr>)
      else if col = ''status'' then Inr (p\<lparr>sp_status := v\<rparr>)
      else Inl UndefinedColumn)"

text \<open>The columns of \<^verbatim>\<open>tasks\<close> are text, a date and two integers.\<close>

definition sol_task_input :: "(string \<Rightarrow> pg_error + date) \<Rightarrow> string \<Rightarrow> jsval \<Rightarrow> pg_error + sqlval" where
  "sol_task_input date_in col v =
     (if col = ''title'' \<or> col = ''description'' \<or> col = ''status'' \<or> col = ''priority''
      then and_then (bind_param textin v) (\<lambda>s. Inr (sql_opt SText s))
      else if col = ''due_date'' then and_then (bind_param date_in v) (\<lambda>d. Inr (sql_opt SDate d))
      else if col = ''project_id'' \<or> col = ''assignee_id''
      then and_then (bind_param int4in v) (\<lambda>i. Inr (sql_opt SInt i))
      else Inl UndefinedColumn)"

definition text_of :: "sqlval \<Rightarrow> string option" where
  "text_of v = (case v of SText s \<Rightarrow> Some s | _ \<Rightarrow> None)"

definition int_of_sql :: "sqlval \<Rightarrow> int option" where
  "int_of_sql v = (case v of SInt i \<Rightarrow> Some i | _ \<Rightarrow> None)"

definition date_of :: "sqlval \<Rightarrow> date option" where
  "date_of v = (case v of SDate d \<Rightarrow> Some d | _ \<Rightarrow> None)"

definition sol_task_length :: "string \<Rightarrow> sqlval \<Rightarrow> pg_error + sqlval" where
  "sol_task_length col v =
     (if col = ''title'' then and_then (varchar 255 (text_of v)) (\<lambda>s. Inr (sql_opt SText s))
      else if col = ''status'' \<or> col = ''priority''
      then and_then (varchar 50 (text_of v)) (\<lambda>s. Inr (sql_opt SText s))
      else Inr v)"

definition sol_task_assign :: "string \<Rightarrow> sqlval \<Rightarrow> sol_task \<Rightarrow> pg_error + sol_task" where
  "sol_task_assign col v t =
     (if col = ''title'' then (case text_of v of
                                 None \<Rightarrow> Inl NotNullViolation
                               | Some s \<Rightarrow> Inr (t\<lparr>st_title := s\<rparr>))
      else if col = ''description'' then Inr (t\<lparr>st_description := text_of v\<rparr>)
      else if col = ''status'' then Inr (t\<lparr>st_status := text_of v\<rparr>)
      else if col = ''priority'' then Inr (t\<lparr>st_priority := text_of v\<rparr>)
      else if col = ''due_date'' then Inr (t\<lparr>st_due_date := date_of v\<rparr>)
      else if col = ''project_id'' then Inr (t\<lparr>st_project_id := int_of_sql v\<rparr>)
      else if col = ''assignee_id'' then Inr (t\<lparr>st_assignee_id := int_of_sql v\<rparr>)
      else Inl UndefinedColumn)"

subsection \<open>Statements on assignees\<close>

text \<open>\<^verbatim>\<open>SELECT * FROM assignees ORDER BY created_at DESC\<close>\<close>

definition sol_select_assignees :: "sol_store \<Rightarrow> thrown + row list" where
  "sol_select_assignees db =
     (if \<not> sol_connected db then Inl (Pg ConnectionFailure)
      else Inr (map assignee_row (order_desc a_created_at (sol_assignees db))))"

text \<open>
  \<^verbatim>\<open>SELECT id FROM assignees WHERE id = $1\<close> and \<^verbatim>\<open>SELECT name FROM assignees
  WHERE id = $1\<close>: the rows found, of which the handlers read the count and the name.
\<close>

definition sol_find_assignee :: "sol_store \<Rightarrow> jsval \<Rightarrow> thrown + assignee list" where
  "sol_find_assignee db ident =
     (if \<not> sol_connected db then Inl (Pg ConnectionFailure)
      else case bind_param int4in ident of
        Inl e \<Rightarrow> Inl (Pg e)
      | Inr i \<Rightarrow> Inr (filter (\<lambda>a. sql_eq (Some (a_id a)) i) (sol_assignees db)))"

text \<open>
  \<^verbatim>\<open>INSERT INTO assignees (name, email, role) VALUES ($1, $2, $3) RETURNING *\<close>, with
  \<^verbatim>\<open>role VARCHAR(100)\<close>.
\<close>

definition sol_insert_assignee ::
  "sol_store \<Rightarrow> nat \<Rightarrow> jsval \<Rightarrow> jsval \<Rightarrow> jsval \<Rightarrow> (thrown + row list) \<times> sol_store" where
  "sol_insert_assignee db now name email role =
     (if \<not> sol_connected db then (Inl (Pg ConnectionFailure), db)
      else case and_then (bind_param textin name) (\<lambda>n.
                and_then (bind_param textin email) (\<lambda>e.
                and_then (bind_param textin role) (\<lambda>r.
                and_then (varchar 255 n) (\<lambda>n'.
                and_then (varchar 255 e) (\<lambda>e'.
                and_then (varchar 100 r) (\<lambda>r'. Inr (n', e', r'))))))) of
        Inl e \<Rightarrow> (Inl (Pg e), db)
      | Inr (n, e, r) \<Rightarrow>
          if 2147483647 < sol_assignees_id_seq db then (Inl (Pg SequenceLimitExceeded), db)
          else
            let i = sol_assignees_id_seq db;
                db' = db\<lparr>sol_assignees_id_seq := i + 1\<rparr>
            in (case (n, e) of
                  (Some nm, Some em) \<Rightarrow>
                    if filter (\<lambda>a. a_id a = i \<or> a_email a = em) (sol_assignees db) \<noteq> []
                    then (Inl (Pg UniqueViolation), db')
                    else
                      let a = \<lparr>a_id = i, a_name = nm, a_email = em, a_role = r,
                               a_created_at = now, a_updated_at = now\<rparr>
                      in (Inr [assignee_row a], db'\<lparr>sol_assignees := sol_assignees db @ [a]\<rparr>)
                | _ \<Rightarrow> (Inl (Pg NotNullViolation), db')))"

text \<open>
  The \<^verbatim>\<open>UPDATE assignees\<close> of the PATCH handler. \<^verbatim>\<open>email\<close> is \<^verbatim>\<open>UNIQUE\<close>: the new
  row must not carry the email of another row.
\<close>

definition sol_update_assignee ::
  "sol_store \<Rightarrow> nat \<Rightarrow> (string \<times> jsval) list \<Rightarrow> jsval \<Rightarrow> (thrown + row list) \<times> sol_store" where
  "sol_update_assignee db now sets ident =
     (if \<not> sol_connected db then (Inl (Pg ConnectionFailure), db)
      else case read_sets sol_assignee_input sol_assignee_length sets ident of
        Inl e \<Rightarrow> (Inl (Pg e), db)
      | Inr (ws, i) \<Rightarrow>
          (case update_rows a_id sol_assignee_assign
                  (\<lambda>r r'. if filter (\<lambda>a. a_id a \<noteq> a_id r \<and> a_email a = a_email r') (sol_assignees db) \<noteq> []
                           then Inl UniqueViolation
                           else Inr (r'\<lparr>a_updated_at := now\<rparr>))
                  ws i (sol_assignees db) of
             Inl e \<Rightarrow> (Inl (Pg e), db)
           | Inr rs \<Rightarrow>
               (Inr (map assignee_row (filter (\<lambda>r. sql_eq (Some (a_id r)) i) rs)),
                db\<lparr>sol_assignees := rs\<rparr>)))"

text \<open>
  \<^verbatim>\<open>SELECT COUNT(*) as count FROM tasks WHERE assignee_id = $1\<close>; the handler reads the
  count with \<^verbatim>\<open>parseInt\<close>.
\<close>

definition sol_count_assignee_tasks :: "sol_store \<Rightarrow> jsval \<Rightarrow> thrown + nat" where
  "sol_count_assignee_tasks db ident =
     (if \<not> sol_connected db then Inl (Pg ConnectionFailure)
      else case bind_param int4in ident of
        Inl e \<Rightarrow> Inl (Pg e)
      | Inr i \<Rightarrow> Inr (length (filter (\<lambda>t. sql_eq (st_assignee_id t) i) (sol_tasks db))))"

text \<open>
  \<^verbatim>\<open>DELETE FROM assignees WHERE id = $1 RETURNING name\<close>. The rows of
  \<^verbatim>\<open>project_assignees\<close> that refer to a deleted assignee go with it
  (\<^verbatim>\<open>ON DELETE CASCADE\<close>); the tasks that refer to it lose the reference
  (\<^verbatim>\<open>ON DELETE SET NULL\<close>).
\<close>

definition sol_delete_assignee :: "sol_store \<Rightarrow> jsval \<Rightarrow> (thrown + string list) \<times> sol_store" where
  "sol_delete_assignee db ident =
     (if \<not> sol_connected db then (Inl (Pg ConnectionFailure), db)
      else case bind_param int4in ident of
        Inl e \<Rightarrow> (Inl (Pg e), db)
      | Inr i \<Rightarrow>
          let gone = filter (\<lambda>a. sql_eq (Some (a_id a)) i) (sol_assignees db)
          in (Inr (map a_name gone),
              db\<lparr>sol_assignees := filter (\<lambda>a. \<not> sql_eq (Some (a_id a)) i) (sol_assignees db),
                 sol_tasks :=
                   map (\<lambda>t. if refers_to (map a_id gone) (st_assignee_id t)
                             then t\<lparr>st_assignee_id := None\<rparr> else t) (sol_tasks db),
                 sol_project_assignees :=
                   filter (\<lambda>m. \<not> refers_to (map a_id gone) (m_assignee_id m))
                     (sol_project_assignees db)\<rparr>))"

text \<open>
  \<^verbatim>\<open>SELECT t.*, p.name as project_name FROM tasks t JOIN projects p
  ON t.project_id = p.id WHERE t.assignee_id = $1 ORDER BY t.created_at DESC\<close>
\<close>

definition sol_select_assignee_tasks :: "sol_store \<Rightarrow> jsval \<Rightarrow> thrown + row list" where
  "sol_select_assignee_tasks db ident =
     (if \<not> sol_connected db then Inl (Pg ConnectionFailure)
      else case bind_param int4in ident of
        Inl e \<Rightarrow> Inl (Pg e)
      | Inr i \<Rightarrow>
          Inr (map (\<lambda>(t, p). sol_task_row t @ [(''project_name'', SText (sp_name p))])
                (order_desc (\<lambda>(t, p). st_created_at t)
                   (filter (\<lambda>(t, p). sql_eq (st_assignee_id t) i)
                      (inner_join (\<lambda>t p. sql_eq (st_project_id t) (Some (sp_id p)))
                         (sol_tasks db) (sol_projects db))))))"

text \<open>
  \<^verbatim>\<open>SELECT p.*, pa.role_in_project, pa.assigned_at FROM projects p
  JOIN project_assignees pa ON p.id = pa.project_id WHERE pa.assignee_id = $1
  ORDER BY pa.assigned_at DESC\<close>
\<close>

definition sol_select_assignee_projects :: "sol_store \<Rightarrow> jsval \<Rightarrow> thrown + row list" where
  "sol_select_assignee_projects db ident =
     (if \<not> sol_connected db then Inl (Pg ConnectionFailure)
      else case bind_param int4in ident of
        Inl e \<Rightarrow> Inl (Pg e)
      | Inr i \<Rightarrow>
          Inr (map (\<lambda>(p, m). sol_project_row p @
                              [(''role_in_project'', sql_opt SText (m_role_in_project m)),
                               (''assigned_at'', STime (m_assigned_at m))])
                (order_desc (\<lambda>(p, m). m_assigned_at m)
                   (filter (\<lambda>(p, m). sql_eq (m_assignee_id m) i)
                      (inner_join (\<lambda>p m. sql_eq (Some (sp_id p)) (m_project_id m))
                         (sol_projects db) (sol_project_assignees db))))))"

subsection \<open>Statements on project_assignees\<close>

text \<open>
  \<^verbatim>\<open>INSERT INTO project_assignees (project_id, assignee_id, role_in_project)
  VALUES ($1, $2, $3) RETURNING *\<close>, with \<^verbatim>\<open>UNIQUE(project_id, assignee_id)\<close>, both
  columns foreign keys and \<^verbatim>\<open>role_in_project VARCHAR(100)\<close>. Rows with a NULL in the
  pair never collide.
\<close>

definition sol_insert_membership ::
  "sol_store \<Rightarrow> nat \<Rightarrow> jsval \<Rightarrow> jsval \<Rightarrow> jsval \<Rightarrow> (thrown + row list) \<times> sol_store" where
  "sol_insert_membership db now project_id assignee_id role_in_project =
     (if \<not> sol_connected db then (Inl (Pg ConnectionFailure), db)
      else case and_then (bind_param int4in project_id) (\<lambda>p.
                and_then (bind_param int4in assignee_id) (\<lambda>a.
                and_then (bind_param textin role_in_project) (\<lambda>r.
                and_then (varchar 100 r) (\<lambda>r'. Inr (p, a, r'))))) of
        Inl e \<Rightarrow> (Inl (Pg e), db)
      | Inr (p, a, r) \<Rightarrow>
          if 2147483647 < sol_project_assignees_id_seq db then (Inl (Pg SequenceLimitExceeded), db)
          else
            let i = sol_project_assignees_id_seq db;
                db' = db\<lparr>sol_project_assignees_id_seq := i + 1\<rparr>
            in if filter (\<lambda>m. m_id m = i \<or> (sql_eq (m_project_id m) p \<and> sql_eq (m_assignee_id m) a))
                    (sol_project_assignees db) \<noteq> []
               then (Inl (Pg UniqueViolation), db')
               else if \<not> references (map sp_id (sol_projects db)) p \<or>
                       \<not> references (map a_id (sol_assignees db)) a
               then (Inl (Pg ForeignKeyViolation), db')
               else
                 let m = \<lparr>m_id = i, m_project_id = p, m_assignee_id = a, m_role_in_project = r,
                          m_assigned_at = now\<rparr>
                 in (Inr [membership_row m],
                     db'\<lparr>sol_project_assignees := sol_project_assignees db @ [m]\<rparr>))"

text \<open>
  \<^verbatim>\<open>DELETE FROM project_assignees WHERE project_id = $1 AND assignee_id = $2
  RETURNING *\<close> of \<^verbatim>\<open>routes/projects.js\<close>, and the same statement with the two
  conditions and parameters in the other order of \<^verbatim>\<open>routes/assignees.js\<close>; \<open>first\<close>
  and \<open>second\<close> are the parameters in the order they are read, \<open>swap\<close> tells that the
  assignee comes first.
\<close>

definition sol_delete_membership ::
  "sol_store \<Rightarrow> bool \<Rightarrow> jsval \<Rightarrow> jsval \<Rightarrow> (thrown + row list) \<times> sol_store" where
  "sol_delete_membership db swap first second =
     (if \<not> sol_connected db then (Inl (Pg ConnectionFailure), db)
      else case and_then (bind_param int4in first) (\<lambda>x.
                and_then (bind_param int4in second) (\<lambda>y. Inr (x, y))) of
        Inl e \<Rightarrow> (Inl (Pg e), db)
      | Inr (x, y) \<Rightarrow>
          let p = (if swap then y else x);
              a = (if swap then x else y);
              hit = (\<lambda>m. sql_eq (m_project_id m) p \<and> sql_eq (m_assignee_id m) a)
          in (Inr (map membership_row (filter hit (sol_project_assignees db))),
              db\<lparr>sol_project_assignees := filter (\<lambda>m. \<not> hit m) (sol_project_assignees db)\<rparr>))"

subsection \<open>Statements on projects\<close>

text \<open>
  \<^verbatim>\<open>SELECT p.*, COUNT(t.id) as task_count FROM projects p LEFT JOIN tasks t
  ON p.id = t.project_id GROUP BY p.id ORDER BY p.created_at DESC\<close>. \<^verbatim>\<open>id\<close> is the
  primary key, so each project is a group of its own; the driver gives a count, a
  \<^verbatim>\<open>BIGINT\<close>, as its decimal text.
\<close>

definition sol_select_projects :: "sol_store \<Rightarrow> thrown + row list" where
  "sol_select_projects db =
     (if \<not> sol_connected db then Inl (Pg ConnectionFailure)
      else Inr (map (\<lambda>p. sol_project_row p @
                          [(''task_count'',
                            SText (show_nat (length (filter (\<lambda>t. sql_eq (Some (sp_id p)) (st_project_id t))
                                                       (sol_tasks db)))))])
                 (order_desc sp_created_at (sol_projects db))))"

text \<open>\<^verbatim>\<open>SELECT id FROM projects WHERE id = $1\<close>, \<^verbatim>\<open>SELECT name FROM projects WHERE id = $1\<close>\<close>

definition sol_find_project :: "sol_store \<Rightarrow> jsval \<Rightarrow> thrown + sol_project list" where
  "sol_find_project db ident =
     (if \<not> sol_connected db then Inl (Pg ConnectionFailure)
      else case bind_param int4in ident of
        Inl e \<Rightarrow> Inl (Pg e)
      | Inr i \<Rightarrow> Inr (filter (\<lambda>p. sql_eq (Some (sp_id p)) i) (sol_projects db)))"

text \<open>
  \<^verbatim>\<open>INSERT INTO projects (name, description, status) VALUES ($1, $2, $3) RETURNING *\<close>,
  with \<^verbatim>\<open>name VARCHAR(255) NOT NULL, description TEXT, status VARCHAR(50)\<close>.
\<close>

definition sol_insert_project ::
  "sol_store \<Rightarrow> nat \<Rightarrow> jsval \<Rightarrow> jsval \<Rightarrow> jsval \<Rightarrow> (thrown + row list) \<times> sol_store" where
  "sol_insert_project db now name description status =
     (if \<not> sol_connected db then (Inl (Pg ConnectionFailure), db)
      else case and_then (bind_param textin name) (\<lambda>n.
                and_then (bind_param textin description) (\<lambda>d.
                and_then (bind_param textin status) (\<lambda>s.
                and_then (varchar 255 n) (\<lambda>n'.
                and_then (varchar 50 s) (\<lambda>s'. Inr (n', d, s')))))) of
        Inl e \<Rightarrow> (Inl (Pg e), db)
      | Inr (n, d, s) \<Rightarrow>
          if 2147483647 < sol_projects_id_seq db then (Inl (Pg SequenceLimitExceeded), db)
          else
            let i = sol_projects_id_seq db;
                db' = db\<lparr>sol_projects_id_seq := i + 1\<rparr>
            in (case n of
                  None \<Rightarrow> (Inl (Pg NotNullViolation), db')
                | Some nm \<Rightarrow>
                    if filter (\<lambda>p. sp_id p = i) (sol_projects db) \<noteq> [] then (Inl (Pg UniqueViolation), db')
                    else
                      let p = \<lparr>sp_id = i, sp_name = nm, sp_description = d, sp_status = s,
                               sp_created_at = now, sp_updated_at = now\<rparr>
                      in (Inr [sol_project_row p], db'\<lparr>sol_projects := sol_projects db @ [p]\<rparr>)))"

text \<open>The \<^verbatim>\<open>UPDATE projects\<close> of the PATCH handler.\<close>

definition sol_update_project ::
  "sol_store \<Rightarrow> nat \<Rightarrow> (string \<times> jsval) list \<Rightarrow> jsval \<Rightarrow> (thrown + row list) \<times> sol_store" where
  "sol_update_project db now sets ident =
     (if \<not> sol_connected db then (Inl (Pg ConnectionFailure), db)
      else case read_sets sol_project_input sol_project_length sets ident of
        Inl e \<Rightarrow> (Inl (Pg e), db)
      | Inr (ws, i) \<Rightarrow>
          (case update_rows sp_id sol_project_assign (\<lambda>r r'. Inr (r'\<lparr>sp_updated_at := now\<rparr>))
                  ws i (sol_projects db) of
             Inl e \<Rightarrow> (Inl (Pg e), db)
           | Inr rs \<Rightarrow>
               (Inr (map sol_project_row (filter (\<lambda>r. sql_eq (Some (sp_id r)) i) rs)),
                db\<lparr>sol_projects := rs\<rparr>)))"

text \<open>\<^verbatim>\<open>SELECT COUNT(*) as count FROM tasks WHERE project_id = $1\<close>\<close>

definition sol_count_project_tasks :: "sol_store \<Rightarrow> jsval \<Rightarrow> thrown + nat" where
  "sol_count_project_tasks db ident =
     (if \<not> sol_connected db then Inl (Pg ConnectionFailure)
      else case bind_param int4in ident of
        Inl e \<Rightarrow> Inl (Pg e)
      | Inr i \<Rightarrow> Inr (length (filter (\<lambda>t. sql_eq (st_project_id t) i) (sol_tasks db))))"

text \<open>
  \<^verbatim>\<open>DELETE FROM projects WHERE id = $1 RETURNING name\<close>. The tasks and the rows of
  \<^verbatim>\<open>project_assignees\<close> that refer to a deleted project go with it
  (\<^verbatim>\<open>ON DELETE CASCADE\<close>); no table refers to either.
\<close>

definition sol_delete_project :: "sol_store \<Rightarrow> jsval \<Rightarrow> (thrown + string list) \<times> sol_store" where
  "sol_delete_project db ident =
     (if \<not> sol_connected db then (Inl (Pg ConnectionFailure), db)
      else case bind_param int4in ident of
        Inl e \<Rightarrow> (Inl (Pg e), db)
      | Inr i \<Rightarrow>
          let gone = filter (\<lambda>p. sql_eq (Some (sp_id p)) i) (sol_projects db)
          in (Inr (map sp_name gone),
              db\<lparr>sol_projects := filter (\<lambda>p. \<not> sql_eq (Some (sp_id p)) i) (sol_projects db),
                 sol_tasks := filter (\<lambda>t. \<not> refers_to (map sp_id gone) (st_project_id t)) (sol_tasks db),
                 sol_project_assignees :=
                   filter (\<lambda>m. \<not> refers_to (map sp_id gone) (m_project_id m))
                     (sol_project_assignees db)\<rparr>))"

text \<open>
  \<^verbatim>\<open>SELECT t.*, a.name as assignee_name, a.email as assignee_email FROM tasks t
  LEFT JOIN assignees a ON t.assignee_id = a.id WHERE t.project_id = $1
  ORDER BY t.created_at DESC\<close>
\<close>

definition sol_select_project_tasks :: "sol_store \<Rightarrow> jsval \<Rightarrow> thrown + row list" where
  "sol_select_project_tasks db ident =
     (if \<not> sol_connected db then Inl (Pg ConnectionFailure)
      else case bind_param int4in ident of
        Inl e \<Rightarrow> Inl (Pg e)
      | Inr i \<Rightarrow>
          Inr (map (\<lambda>(t, a). sol_task_row t @
                              [(''assignee_name'', sql_opt SText (map_option a_name a)),
                               (''assignee_email'', sql_opt SText (map_option a_email a))])
                (order_desc (\<lambda>(t, a). st_created_at t)
                   (filter (\<lambda>(t, a). sql_eq (st_project_id t) i)
                      (left_join (\<lambda>t a. sql_eq (st_assignee_id t) (Some (a_id a)))
                         (sol_tasks db) (sol_assignees db))))))"

text \<open>
  \<^verbatim>\<open>SELECT a.*, pa.role_in_project, pa.assigned_at FROM assignees a
  JOIN project_assignees pa ON a.id = pa.assignee_id WHERE pa.project_id = $1
  ORDER BY pa.assigned_at DESC\<close>
\<close>

definition sol_select_project_assignees :: "sol_store \<Rightarrow> jsval \<Rightarrow> thrown + row list" where
  "sol_select_project_assignees db ident =
     (if \<not> sol_connected db then Inl (Pg ConnectionFailure)
      else case bind_param int4in ident of
        Inl e \<Rightarrow> Inl (Pg e)
      | Inr i \<Rightarrow>
          Inr (map (\<lambda>(a, m). assignee_row a @
                              [(''role_in_project'', sql_opt SText (m_role_in_project m)),
                               (''assigned_at'', STime (m_assigned_at m))])
                (order_desc (\<lambda>(a, m). m_assigned_at m)
                   (filter (\<lambda>(a, m). sql_eq (m_project_id m) i)
                      (inner_join (\<lambda>a m. sql_eq (Some (a_id a)) (m_assignee_id m))
                         (sol_assignees db) (sol_project_assignees db))))))"

subsection \<open>Statements on tasks\<close>

text \<open>
  \<^verbatim>\<open>SELECT t.*, p.name as project_name, a.name as assignee_name, a.email as
  assignee_email FROM tasks t JOIN projects p ON t.project_id = p.id LEFT JOIN assignees a
  ON t.assignee_id = a.id\<close>, before \<^verbatim>\<open>WHERE\<close> and \<^verbatim>\<open>ORDER BY\<close>.
\<close>

definition sol_tasks_joined :: "sol_store \<Rightarrow> ((sol_task \<times> sol_project) \<times> assignee option) list" where
  "sol_tasks_joined db =
     left_join (\<lambda>(t, p) a. sql_eq (st_assignee_id t) (Some (a_id a)))
       (inner_join (\<lambda>t p. sql_eq (st_project_id t) (Some (sp_id p))) (sol_tasks db) (sol_projects db))
       (sol_assignees db)"

definition sol_task_joined_row :: "(sol_task \<times> sol_project) \<times> assignee option \<Rightarrow> row" where
  "sol_task_joined_row j =
     (case j of ((t, p), a) \<Rightarrow>
        sol_task_row t @
        [(''project_name'', SText (sp_name p)),
         (''assignee_name'', sql_opt SText (map_option a_name a)),
         (''assignee_email'', sql_opt SText (map_option a_email a))])"

text \<open>The join \<^verbatim>\<open>ORDER BY t.created_at DESC\<close>, of the list.\<close>

definition sol_select_tasks :: "sol_store \<Rightarrow> thrown + row list" where
  "sol_select_tasks db =
     (if \<not> sol_connected db then Inl (Pg ConnectionFailure)
      else Inr (map sol_task_joined_row
                 (order_desc (\<lambda>((t, p), a). st_created_at t) (sol_tasks_joined db))))"

text \<open>The join \<^verbatim>\<open>WHERE t.id = $1\<close>.\<close>

definition sol_select_task :: "sol_store \<Rightarrow> jsval \<Rightarrow> thrown + row list" where
  "sol_select_task db ident =
     (if \<not> sol_connected db then Inl (Pg ConnectionFailure)
      else case bind_param int4in ident of
        Inl e \<Rightarrow> Inl (Pg e)
      | Inr i \<Rightarrow>
          Inr (map sol_task_joined_row
                (filter (\<lambda>((t, p), a). sql_eq (Some (st_id t)) i) (sol_tasks_joined db))))"

text \<open>
  \<^verbatim>\<open>INSERT INTO tasks (title, description, status, priority, due_date, project_id,
  assignee_id) VALUES ($1, ..., $7) RETURNING *\<close>
\<close>

definition sol_insert_task ::
  "sol_store \<Rightarrow> nat \<Rightarrow> jsval \<Rightarrow> jsval \<Rightarrow> jsval \<Rightarrow> jsval \<Rightarrow> jsval \<Rightarrow> jsval \<Rightarrow> jsval \<Rightarrow>
   (thrown + row list) \<times> sol_store" where
  "sol_insert_task db now title description status priority due_date project_id assignee_id =
     (if \<not> sol_connected db then (Inl (Pg ConnectionFailure), db)
      else case and_then (bind_param textin title) (\<lambda>t.
                and_then (bind_param textin description) (\<lambda>d.
                and_then (bind_param textin status) (\<lambda>s.
                and_then (bind_param textin priority) (\<lambda>pr.
                and_then (bind_param (sol_date_in db) due_date) (\<lambda>dd.
                and_then (bind_param int4in project_id) (\<lambda>p.
                and_then (bind_param int4in assignee_id) (\<lambda>a.
                and_then (varchar 255 t) (\<lambda>t'.
                and_then (varchar 50 s) (\<lambda>s'.
                and_then (varchar 50 pr) (\<lambda>pr'. Inr (t', d, s', pr', dd, p, a))))))))))) of
        Inl e \<Rightarrow> (Inl (Pg e), db)
      | Inr (t, d, s, pr, dd, p, a) \<Rightarrow>
          if 2147483647 < sol_tasks_id_seq db then (Inl (Pg SequenceLimitExceeded), db)
          else
            let i = sol_tasks_id_seq db;
                db' = db\<lparr>sol_tasks_id_seq := i + 1\<rparr>
            in (case t of
                  None \<Rightarrow> (Inl (Pg NotNullViolation), db')
                | Some tt \<Rightarrow>
                    if filter (\<lambda>r. st_id r = i) (sol_tasks db) \<noteq> [] then (Inl (Pg UniqueViolation), db')
                    else if \<not> references (map sp_id (sol_projects db)) p \<or>
                            \<not> references (map a_id (sol_assignees db)) a
                    then (Inl (Pg ForeignKeyViolation), db')
                    else
                      let r = \<lparr>st_id = i, st_title = tt, st_description = d,
                               st_status = s, st_priority = pr, st_due_date = dd,
                               st_project_id = p, st_assignee_id = a,
                               st_created_at = now, st_updated_at = now\<rparr>
                      in (Inr [sol_task_row r], db'\<lparr>sol_tasks := sol_tasks db @ [r]\<rparr>)))"

text \<open>
  The \<^verbatim>\<open>UPDATE tasks\<close> of the PATCH handler. \<^verbatim>\<open>project_id\<close> and \<^verbatim>\<open>assignee_id\<close> are
  foreign keys.
\<close>

definition sol_update_task ::
  "sol_store \<Rightarrow> nat \<Rightarrow> (string \<times> jsval) list \<Rightarrow> jsval \<Rightarrow> (thrown + row list) \<times> sol_store" where
  "sol_update_task db now sets ident =
     (if \<not> sol_connected db then (Inl (Pg ConnectionFailure), db)
      else case read_sets (sol_task_input (sol_date_in db)) sol_task_length sets ident of
        Inl e \<Rightarrow> (Inl (Pg e), db)
      | Inr (ws, i) \<Rightarrow>
          (case update_rows st_id sol_task_assign
                  (\<lambda>r r'. if \<not> references (map sp_id (sol_projects db)) (st_project_id r') \<or>
                              \<not> references (map a_id (sol_assignees db)) (st_assignee_id r')
                           then Inl ForeignKeyViolation
                           else Inr (r'\<lparr>st_updated_at := now\<rparr>))
                  ws i (sol_tasks db) of
             Inl e \<Rightarrow> (Inl (Pg e), db)
           | Inr rs \<Rightarrow>
               (Inr (map sol_task_row (filter (\<lambda>r. sql_eq (Some (st_id r)) i) rs)),
                db\<lparr>sol_tasks := rs\<rparr>)))"

text \<open>\<^verbatim>\<open>DELETE FROM tasks WHERE id = $1 RETURNING title\<close>; no table refers to \<^verbatim>\<open>tasks\<close>.\<close>

definition sol_delete_task :: "sol_store \<Rightarrow> jsval \<Rightarrow> (thrown + string list) \<times> sol_store" where
  "sol_delete_task db ident =
     (if \<not> sol_connected db then (Inl (Pg ConnectionFailure), db)
      else case bind_param int4in ident of
        Inl e \<Rightarrow> (Inl (Pg e), db)
      | Inr i \<Rightarrow>
          (Inr (map st_title (filter (\<lambda>t. sql_eq (Some (st_id t)) i) (sol_tasks db))),
           db\<lparr>sol_tasks := filter (\<lambda>t. \<not> sql_eq (Some (st_id t)) i) (sol_tasks db)\<rparr>))"

subsection \<open>Handlers of routes/assignees.js\<close>

text \<open>\<^verbatim>\<open>validateAssignee\<close>\<close>

definition validateAssignee :: "jsval \<Rightarrow> jsval \<Rightarrow> thrown + string option" where
  "validateAssignee name email =
     and_then (if \<not> truthy name then Inr True
               else and_then (js_trim name) (\<lambda>n. Inr (js_length n < 2))) (\<lambda>bad_name.
       if bad_name then Inr (Some ''Name is required and must be at least 2 characters'')
       else and_then (if \<not> truthy email then Inr True
                      else and_then (js_includes email CHR ''@'') (\<lambda>has. Inr (\<not> has))) (\<lambda>bad_email.
              if bad_email then Inr (Some ''Valid email is required'') else Inr None))"

text \<open>\<^verbatim>\<open>router.get("/")\<close>; \<^verbatim>\<open>res.json\<close> answers with status 200.\<close>

definition assignees_get :: "sol_store \<Rightarrow> response" where
  "assignees_get db =
     (case sol_select_assignees db of
        Inl e \<Rightarrow> fail_json 500 ''Error fetching assignees''
      | Inr rows \<Rightarrow> ok_json 200 None (Some (Many rows)))"

text \<open>\<^verbatim>\<open>router.post("/")\<close>\<close>

definition assignees_post :: "sol_store \<Rightarrow> nat \<Rightarrow> body \<Rightarrow> response \<times> sol_store" where
  "assignees_post db now b =
     (let name = b ''name''; email = b ''email''; role = dflt (JStr ''Developer'') (b ''role'');
          on_error = (\<lambda>e. if sqlstate e = Some ''23505'' then fail_json 409 ''Email already exists''
                          else fail_json 500 ''Error creating assignee'')
      in case validateAssignee name email of
           Inl e \<Rightarrow> (on_error e, db)
         | Inr (Some validationError) \<Rightarrow> (fail_json 400 validationError, db)
         | Inr None \<Rightarrow>
             (case and_then (js_trim name) (\<lambda>n. and_then (js_trim email) (\<lambda>e. Inr (n, e))) of
                Inl e \<Rightarrow> (on_error e, db)
              | Inr (n, e) \<Rightarrow>
                  (case sol_insert_assignee db now (JStr n) (JStr e) role of
                     (Inl e, db') \<Rightarrow> (on_error e, db')
                   | (Inr rows, db') \<Rightarrow>
                       (ok_json 201 (Some ''Assignee created successfully'') (Some (One (hd rows))),
                        db'))))"

text \<open>
  \<^verbatim>\<open>router.patch("/:id")\<close>. A PATCH handler fills \<^verbatim>\<open>updateFields\<close> and \<^verbatim>\<open>values\<close>
  block by block; each block is one definition below and gives the pairs it pushes.
  \<open>patch_trimmed\<close> is the block of \<^verbatim>\<open>name\<close> and of \<^verbatim>\<open>title\<close>, \<open>patch_email\<close> the
  block of \<^verbatim>\<open>email\<close>, \<open>patch_plain\<close> the block of a field that is pushed as it is.
\<close>

definition patch_trimmed :: "string \<Rightarrow> string \<Rightarrow> jsval \<Rightarrow> (string \<times> jsval) list step" where
  "patch_trimmed col too_short v =
     (if v \<noteq> Undefined
      then then_do (attempt (js_trim v)) (\<lambda>t.
             if js_length t < 2 then Reply (fail_json 400 too_short)
             else Go [(col, JStr t)])
      else Go [])"

definition patch_email :: "jsval \<Rightarrow> (string \<times> jsval) list step" where
  "patch_email email =
     (if email \<noteq> Undefined
      then then_do (attempt (js_includes email CHR ''@'')) (\<lambda>has.
             if \<not> has then Reply (fail_json 400 ''Valid email is required'')
             else then_do (attempt (js_trim email)) (\<lambda>e. Go [(''email'', JStr e)]))
      else Go [])"

definition patch_plain :: "string \<Rightarrow> jsval \<Rightarrow> (string \<times> jsval) list" where
  "patch_plain col v = (if v \<noteq> Undefined then [(col, v)] else [])"

definition assignees_patch_fields :: "body \<Rightarrow> (string \<times> jsval) list step" where
  "assignees_patch_fields b =
     then_do (patch_trimmed ''name'' ''Name must be at least 2 characters'' (b ''name'')) (\<lambda>f1.
     then_do (patch_email (b ''email'')) (\<lambda>f2.
       let fields = f1 @ f2 @ patch_plain ''role'' (b ''role'')
       in if length fields = 0 then Reply (fail_json 400 ''No fields to update'')
          else Go fields))"

definition assignees_patch :: "sol_store \<Rightarrow> nat \<Rightarrow> string \<Rightarrow> body \<Rightarrow> response \<times> sol_store" where
  "assignees_patch db now ident b =
     (let on_error = (\<lambda>e. if sqlstate e = Some ''23505'' then fail_json 409 ''Email already exists''
                          else fail_json 500 ''Error updating assignee'')
      in case assignees_patch_fields b of
           Throw e \<Rightarrow> (on_error e, db)
         | Reply r \<Rightarrow> (r, db)
         | Go sets \<Rightarrow>
             (case sol_update_assignee db now sets (JStr ident) of
                (Inl e, db') \<Rightarrow> (on_error e, db')
              | (Inr rows, db') \<Rightarrow>
                  if length rows = 0 then (fail_json 404 ''Assignee not found'', db')
                  else (ok_json 200 (Some ''Assignee updated successfully'') (Some (One (hd rows))),
                        db')))"

text \<open>\<^verbatim>\<open>router.delete("/:id")\<close>\<close>

definition assignees_delete :: "sol_store \<Rightarrow> string \<Rightarrow> response \<times> sol_store" where
  "assignees_delete db ident =
     (case sol_count_assignee_tasks db (JStr ident) of
        Inl e \<Rightarrow> (fail_json 500 ''Error deleting assignee'', db)
      | Inr affectedTasks \<Rightarrow>
          (case sol_delete_assignee db (JStr ident) of
             (Inl e, db') \<Rightarrow> (fail_json 500 ''Error deleting assignee'', db')
           | (Inr names, db') \<Rightarrow>
               if length names = 0 then (fail_json 404 ''Assignee not found'', db')
               else ((ok_json 200 (Some ''Assignee deleted successfully'') None)
                       \<lparr>details :=
                          [(''deletedAssignee'', SText (hd names)),
                           (''affectedTasks'',
                            SText (show_nat affectedTasks @
                                   '' tasks are now unassigned (assignee_id set to NULL)''))]\<rparr>,
                     db')))"

text \<open>\<^verbatim>\<open>router.get("/:id/tasks")\<close>\<close>

definition assignees_get_tasks :: "sol_store \<Rightarrow> string \<Rightarrow> response" where
  "assignees_get_tasks db ident =
     (case sol_find_assignee db (JStr ident) of
        Inl e \<Rightarrow> fail_json 500 ''Error fetching assignee tasks''
      | Inr assigneeResult \<Rightarrow>
          if length assigneeResult = 0 then fail_json 404 ''Assignee not found''
          else (case sol_select_assignee_tasks db (JStr ident) of
             Inl e \<Rightarrow> fail_json 500 ''Error fetching assignee tasks''
           | Inr rows \<Rightarrow>
               (ok_json 200 None (Some (Many rows)))
                 \<lparr>extra := [(''assignee'', SText (a_name (hd assigneeResult)))]\<rparr>))"

text \<open>\<^verbatim>\<open>router.get("/:id/projects")\<close>\<close>

definition assignees_get_projects :: "sol_store \<Rightarrow> string \<Rightarrow> response" where
  "assignees_get_projects db ident =
     (case sol_find_assignee db (JStr ident) of
        Inl e \<Rightarrow> fail_json 500 ''Error fetching assignee projects''
      | Inr assigneeResult \<Rightarrow>
          if length assigneeResult = 0 then fail_json 404 ''Assignee not found''
          else (case sol_select_assignee_projects db (JStr ident) of
             Inl e \<Rightarrow> fail_json 500 ''Error fetching assignee projects''
           | Inr rows \<Rightarrow>
               (ok_json 200 None (Some (Many rows)))
                 \<lparr>extra := [(''assignee'', SText (a_name (hd assigneeResult)))]\<rparr>))"

text \<open>\<^verbatim>\<open>router.post("/:id/projects")\<close>\<close>

definition assignees_post_projects :: "sol_store \<Rightarrow> nat \<Rightarrow> string \<Rightarrow> body \<Rightarrow> response \<times> sol_store" where
  "assignees_post_projects db now ident b =
     (let project_id = b ''project_id'';
          role_in_project = dflt (JStr ''Team Member'') (b ''role_in_project'');
          on_error = (\<lambda>e. if sqlstate e = Some ''23505''
                          then fail_json 409 ''Assignee is already assigned to this project''
                          else fail_json 500 ''Error assigning assignee to project'')
      in if \<not> truthy project_id then (fail_json 400 ''Project ID is required'', db)
         else case sol_find_assignee db (JStr ident) of
           Inl e \<Rightarrow> (on_error e, db)
         | Inr assigneeExists \<Rightarrow>
             if length assigneeExists = 0 then (fail_json 404 ''Assignee not found'', db)
             else (case sol_find_project db project_id of
                Inl e \<Rightarrow> (on_error e, db)
              | Inr projectExists \<Rightarrow>
                  if length projectExists = 0 then (fail_json 400 ''Project not found'', db)
                  else (case sol_insert_membership db now project_id (JStr ident) role_in_project of
                     (Inl e, db') \<Rightarrow> (on_error e, db')
                   | (Inr rows, db') \<Rightarrow>
                       (ok_json 201 (Some ''Assignee assigned to project successfully'')
                          (Some (One (hd rows))), db'))))"

text \<open>\<^verbatim>\<open>router.delete("/:assigneeId/projects/:projectId")\<close>\<close>

definition assignees_delete_projects :: "sol_store \<Rightarrow> string \<Rightarrow> string \<Rightarrow> response \<times> sol_store" where
  "assignees_delete_projects db assigneeId projectId =
     (case sol_delete_membership db True (JStr assigneeId) (JStr projectId) of
        (Inl e, db') \<Rightarrow> (fail_json 500 ''Error removing assignee from project'', db')
      | (Inr rows, db') \<Rightarrow>
          if length rows = 0 then (fail_json 404 ''Assignment not found'', db')
          else (ok_json 200 (Some ''Assignee removed from project successfully'') None, db'))"

subsection \<open>Handlers of routes/projects.js\<close>

text \<open>\<^verbatim>\<open>validateProject\<close>\<close>

definition validateProject :: "jsval \<Rightarrow> thrown + string option" where
  "validateProject name =
     and_then (if \<not> truthy name then Inr True
               else and_then (js_trim name) (\<lambda>n. Inr (js_length n < 2))) (\<lambda>bad_name.
       if bad_name then Inr (Some ''Name is required and must be at least 2 characters'')
       else Inr None)"

text \<open>\<^verbatim>\<open>router.get("/")\<close>\<close>

definition projects_get :: "sol_store \<Rightarrow> response" where
  "projects_get db =
     (case sol_select_projects db of
        Inl e \<Rightarrow> fail_json 500 ''Error fetching projects''
      | Inr rows \<Rightarrow> ok_json 200 None (Some (Many rows)))"

text \<open>\<^verbatim>\<open>router.post("/")\<close>\<close>

definition projects_post :: "sol_store \<Rightarrow> nat \<Rightarrow> body \<Rightarrow> response \<times> sol_store" where
  "projects_post db now b =
     (let name = b ''name''; description = b ''description'';
          status = dflt (JStr ''Active'') (b ''status'')
      in case validateProject name of
           Inl e \<Rightarrow> (fail_json 500 ''Error creating project'', db)
         | Inr (Some validationError) \<Rightarrow> (fail_json 400 validationError, db)
         | Inr None \<Rightarrow>
             (case js_trim name of
                Inl e \<Rightarrow> (fail_json 500 ''Error creating project'', db)
              | Inr n \<Rightarrow>
                  (case sol_insert_project db now (JStr n) (or_null description) status of
                     (Inl e, db') \<Rightarrow> (fail_json 500 ''Error creating project'', db')
                   | (Inr rows, db') \<Rightarrow>
                       (ok_json 201 (Some ''Project created successfully'') (Some (One (hd rows))),
                        db'))))"

text \<open>\<^verbatim>\<open>router.patch("/:id")\<close>\<close>

definition projects_patch_fields :: "body \<Rightarrow> (string \<times> jsval) list step" where
  "projects_patch_fields b =
     then_do (patch_trimmed ''name'' ''Name must be at least 2 characters'' (b ''name'')) (\<lambda>f1.
       let fields = f1 @ patch_plain ''description'' (b ''description'') @
                    patch_plain ''status'' (b ''status'')
       in if length fields = 0 then Reply (fail_json 400 ''No fields to update'')
          else Go fields)"

definition projects_patch :: "sol_store \<Rightarrow> nat \<Rightarrow> string \<Rightarrow> body \<Rightarrow> response \<times> sol_store" where
  "projects_patch db now ident b =
     (case projects_patch_fields b of
        Throw e \<Rightarrow> (fail_json 500 ''Error updating project'', db)
      | Reply r \<Rightarrow> (r, db)
      | Go sets \<Rightarrow>
          (case sol_update_project db now sets (JStr ident) of
             (Inl e, db') \<Rightarrow> (fail_json 500 ''Error updating project'', db')
           | (Inr rows, db') \<Rightarrow>
               if length rows = 0 then (fail_json 404 ''Project not found'', db')
               else (ok_json 200 (Some ''Project updated successfully'') (Some (One (hd rows))),
                     db')))"

text \<open>\<^verbatim>\<open>router.delete("/:id")\<close>\<close>

definition projects_delete :: "sol_store \<Rightarrow> string \<Rightarrow> response \<times> sol_store" where
  "projects_delete db ident =
     (case sol_count_project_tasks db (JStr ident) of
        Inl e \<Rightarrow> (fail_json 500 ''Error deleting project'', db)
      | Inr taskCount \<Rightarrow>
          (case sol_delete_project db (JStr ident) of
             (Inl e, db') \<Rightarrow> (fail_json 500 ''Error deleting project'', db')
           | (Inr names, db') \<Rightarrow>
               if length names = 0 then (fail_json 404 ''Project not found'', db')
               else ((ok_json 200 (Some ''Project deleted successfully'') None)
                       \<lparr>details :=
                          [(''deletedProject'', SText (hd names)),
                           (''cascadeDeleted'',
                            SText (show_nat taskCount @
                                   '' tasks were also deleted due to CASCADE constraint''))]\<rparr>,
                     db')))"

text \<open>\<^verbatim>\<open>router.get("/:id/tasks")\<close>\<close>

definition projects_get_tasks :: "sol_store \<Rightarrow> string \<Rightarrow> response" where
  "projects_get_tasks db ident =
     (case sol_find_project db (JStr ident) of
        Inl e \<Rightarrow> fail_json 500 ''Error fetching project tasks''
      | Inr projectResult \<Rightarrow>
          if length projectResult = 0 then fail_json 404 ''Project not found''
          else (case sol_select_project_tasks db (JStr ident) of
             Inl e \<Rightarrow> fail_json 500 ''Error fetching project tasks''
           | Inr rows \<Rightarrow>
               (ok_json 200 None (Some (Many rows)))
                 \<lparr>extra := [(''project'', SText (sp_name (hd projectResult)))]\<rparr>))"

text \<open>\<^verbatim>\<open>router.get("/:id/assignees")\<close>\<close>

definition projects_get_assignees :: "sol_store \<Rightarrow> string \<Rightarrow> response" where
  "projects_get_assignees db ident =
     (case sol_find_project db (JStr ident) of
        Inl e \<Rightarrow> fail_json 500 ''Error fetching project assignees''
      | Inr projectResult \<Rightarrow>
          if length projectResult = 0 then fail_json 404 ''Project not found''
          else (case sol_select_project_assignees db (JStr ident) of
             Inl e \<Rightarrow> fail_json 500 ''Error fetching project assignees''
           | Inr rows \<Rightarrow>
               (ok_json 200 None (Some (Many rows)))
                 \<lparr>extra := [(''project'', SText (sp_name (hd projectResult)))]\<rparr>))"

text \<open>\<^verbatim>\<open>router.post("/:id/assignees")\<close>\<close>

definition projects_post_assignees :: "sol_store \<Rightarrow> nat \<Rightarrow> string \<Rightarrow> body \<Rightarrow> response \<times> sol_store" where
  "projects_post_assignees db now ident b =
     (let assignee_id = b ''assignee_id'';
          role_in_project = dflt (JStr ''Team Member'') (b ''role_in_project'');
          on_error = (\<lambda>e. if sqlstate e = Some ''23505''
                          then fail_json 409 ''Assignee is already assigned to this project''
                          else fail_json 500 ''Error assigning assignee to project'')
      in if \<not> truthy assignee_id then (fail_json 400 ''Assignee ID is required'', db)
         else case sol_find_project db (JStr ident) of
           Inl e \<Rightarrow> (on_error e, db)
         | Inr projectExists \<Rightarrow>
             if length projectExists = 0 then (fail_json 404 ''Project not found'', db)
             else (case sol_find_assignee db assignee_id of
                Inl e \<Rightarrow> (on_error e, db)
              | Inr assigneeExists \<Rightarrow>
                  if length assigneeExists = 0 then (fail_json 400 ''Assignee not found'', db)
                  else (case sol_insert_membership db now (JStr ident) assignee_id role_in_project of
                     (Inl e, db') \<Rightarrow> (on_error e, db')
                   | (Inr rows, db') \<Rightarrow>
                       (ok_json 201 (Some ''Assignee assigned to project successfully'')
                          (Some (One (hd rows))), db'))))"

text \<open>\<^verbatim>\<open>router.delete("/:projectId/assignees/:assigneeId")\<close>\<close>

definition projects_delete_assignees :: "sol_store \<Rightarrow> string \<Rightarrow> string \<Rightarrow> response \<times> sol_store" where
  "projects_delete_assignees db projectId assigneeId =
     (case sol_delete_membership db False (JStr projectId) (JStr assigneeId) of
        (Inl e, db') \<Rightarrow> (fail_json 500 ''Error removing assignee from project'', db')
      | (Inr rows, db') \<Rightarrow>
          if length rows = 0 then (fail_json 404 ''Assignment not found'', db')
          else (ok_json 200 (Some ''Assignee removed from project successfully'') None, db'))"

subsection \<open>Handlers of routes/tasks.js\<close>

text \<open>\<^verbatim>\<open>validateTask\<close>\<close>

definition validateTask :: "jsval \<Rightarrow> jsval \<Rightarrow> jsval \<Rightarrow> thrown + string option" where
  "validateTask title project_id assignee_id =
     and_then (if \<not> truthy title then Inr True
               else and_then (js_trim title) (\<lambda>t. Inr (js_length t < 2))) (\<lambda>bad_title.
       if bad_title then Inr (Some ''Title is required and must be at least 2 characters'')
       else if \<not> truthy project_id then Inr (Some ''Project ID is required'')
       else if \<not> truthy assignee_id then Inr (Some ''Assignee ID is required'')
       else Inr None)"

text \<open>\<^verbatim>\<open>router.get("/")\<close>\<close>

definition tasks_get :: "sol_store \<Rightarrow> response" where
  "tasks_get db =
     (case sol_select_tasks db of
        Inl e \<Rightarrow> fail_json 500 ''Error fetching tasks''
      | Inr rows \<Rightarrow> ok_json 200 None (Some (Many rows)))"

text \<open>\<^verbatim>\<open>router.get("/:id")\<close>\<close>

definition tasks_get_id :: "sol_store \<Rightarrow> string \<Rightarrow> response" where
  "tasks_get_id db ident =
     (case sol_select_task db (JStr ident) of
        Inl e \<Rightarrow> fail_json 500 ''Error fetching task''
      | Inr rows \<Rightarrow>
          if length rows = 0 then fail_json 404 ''Task not found''
          else ok_json 200 None (Some (One (hd rows))))"

text \<open>\<^verbatim>\<open>router.post("/")\<close>\<close>

definition tasks_post :: "sol_store \<Rightarrow> nat \<Rightarrow> body \<Rightarrow> response \<times> sol_store" where
  "tasks_post db now b =
     (let title = b ''title'';
          description = b ''description'';
          status = dflt (JStr ''Todo'') (b ''status'');
          priority = dflt (JStr ''Medium'') (b ''priority'');
          due_date = b ''due_date'';
          project_id = b ''project_id'';
          assignee_id = b ''assignee_id'';
          on_error = (\<lambda>e. if sqlstate e = Some ''23503''
                          then fail_json 400 ''Invalid project_id or assignee_id''
                          else fail_json 500 ''Error creating task'')
      in case validateTask title project_id assignee_id of
           Inl e \<Rightarrow> (on_error e, db)
         | Inr (Some validationError) \<Rightarrow> (fail_json 400 validationError, db)
         | Inr None \<Rightarrow>
             (case sol_find_project db project_id of
                Inl e \<Rightarrow> (on_error e, db)
              | Inr projectExists \<Rightarrow>
                  if length projectExists = 0 then (fail_json 400 ''Project not found'', db)
                  else (case sol_find_assignee db assignee_id of
                     Inl e \<Rightarrow> (on_error e, db)
                   | Inr assigneeExists \<Rightarrow>
                       if length assigneeExists = 0 then (fail_json 400 ''Assignee not found'', db)
                       else (case js_trim title of
                          Inl e \<Rightarrow> (on_error e, db)
                        | Inr t \<Rightarrow>
                            (case sol_insert_task db now (JStr t) (or_null description) status priority
                                    (or_null due_date) project_id assignee_id of
                               (Inl e, db') \<Rightarrow> (on_error e, db')
                             | (Inr rows, db') \<Rightarrow>
                                 (ok_json 201 (Some ''Task created successfully'')
                                    (Some (One (hd rows))), db'))))))"

text \<open>
  \<^verbatim>\<open>router.patch("/:id")\<close>. \<open>patch_project\<close> and \<open>patch_assignee\<close> are the blocks that
  query the store before they push; the blocks between \<^verbatim>\<open>title\<close> and them neither
  answer nor throw.
\<close>

definition patch_project :: "sol_store \<Rightarrow> jsval \<Rightarrow> (string \<times> jsval) list step" where
  "patch_project db project_id =
     (if project_id \<noteq> Undefined
      then then_do (attempt (sol_find_project db project_id)) (\<lambda>projectExists.
             if length projectExists = 0 then Reply (fail_json 400 ''Project not found'')
             else Go [(''project_id'', project_id)])
      else Go [])"

definition patch_assignee :: "sol_store \<Rightarrow> jsval \<Rightarrow> (string \<times> jsval) list step" where
  "patch_assignee db assignee_id =
     (if assignee_id \<noteq> Undefined
      then then_do (if assignee_id \<noteq> Null
                    then then_do (attempt (sol_find_assignee db assignee_id)) (\<lambda>assigneeExists.
                           if length assigneeExists = 0
                           then Reply (fail_json 400 ''Assignee not found'')
                           else Go ())
                    else Go ()) (\<lambda>u. Go [(''assignee_id'', assignee_id)])
      else Go [])"

definition tasks_patch_fields :: "sol_store \<Rightarrow> body \<Rightarrow> (string \<times> jsval) list step" where
  "tasks_patch_fields db b =
     then_do (patch_trimmed ''title'' ''Title must be at least 2 characters'' (b ''title'')) (\<lambda>f1.
     then_do (patch_project db (b ''project_id'')) (\<lambda>f6.
     then_do (patch_assignee db (b ''assignee_id'')) (\<lambda>f7.
       let fields = f1 @ patch_plain ''description'' (b ''description'') @
                    patch_plain ''status'' (b ''status'') @
                    patch_plain ''priority'' (b ''priority'') @
                    patch_plain ''due_date'' (b ''due_date'') @ f6 @ f7
       in if length fields = 0 then Reply (fail_json 400 ''No fields to update'')
          else Go fields)))"

definition tasks_patch :: "sol_store \<Rightarrow> nat \<Rightarrow> string \<Rightarrow> body \<Rightarrow> response \<times> sol_store" where
  "tasks_patch db now ident b =
     (let on_error = (\<lambda>e. if sqlstate e = Some ''23503''
                          then fail_json 400 ''Invalid project_id or assignee_id''
                          else fail_json 500 ''Error updating task'')
      in case tasks_patch_fields db b of
           Throw e \<Rightarrow> (on_error e, db)
         | Reply r \<Rightarrow> (r, db)
         | Go sets \<Rightarrow>
             (case sol_update_task db now sets (JStr ident) of
                (Inl e, db') \<Rightarrow> (on_error e, db')
              | (Inr rows, db') \<Rightarrow>
                  if length rows = 0 then (fail_json 404 ''Task not found'', db')
                  else (ok_json 200 (Some ''Task updated successfully'') (Some (One (hd rows))), db')))"

text \<open>\<^verbatim>\<open>router.delete("/:id")\<close>\<close>

definition tasks_delete :: "sol_store \<Rightarrow> string \<Rightarrow> response \<times> sol_store" where
  "tasks_delete db ident =
     (case sol_delete_task db (JStr ident) of
        (Inl e, db') \<Rightarrow> (fail_json 500 ''Error deleting task'', db')
      | (Inr titles, db') \<Rightarrow>
          if length titles = 0 then (fail_json 404 ''Task not found'', db')
          else ((ok_json 200 (Some ''Task deleted successfully'') None)
                  \<lparr>details := [(''deletedTask'', SText (hd titles))]\<rparr>, db'))"

subsection \<open>The junction table's invariant\<close>

text \<open>
  \<^verbatim>\<open>UNIQUE(project_id, assignee_id)\<close>: among the rows with both columns set, no pair
  occurs twice.
\<close>

definition pairs_unique :: "membership list \<Rightarrow> bool" where
  "pairs_unique ms =
     distinct (map (\<lambda>m. (m_project_id m, m_assignee_id m))
                (filter (\<lambda>m. m_project_id m \<noteq> None \<and> m_assignee_id m \<noteq> None) ms))"


section \<open>Sample stores\<close>

text \<open>The three rows of \<^verbatim>\<open>insertSampleData\<close> in \<^verbatim>\<open>index.js\<close>, inserted at tick 0.\<close>

definition tl_sample :: tl_store where
  "tl_sample =
     \<lparr>tl_tasks =
        [\<lparr>tl_id = 1, tl_title = ''Learn Node.js'', tl_description = Some ''Complete Node.js tutorial'',
          tl_completed = Some False, tl_created_at = 0, tl_updated_at = 0\<rparr>,
         \<lparr>tl_id = 2, tl_title = ''Build REST API'', tl_description = Some ''Create CRUD operations'',
          tl_completed = Some True, tl_created_at = 0, tl_updated_at = 0\<rparr>,
         \<lparr>tl_id = 3, tl_title = ''Learn PostgreSQL'', tl_description = Some ''Study database fundamentals'',
          tl_completed = Some False, tl_created_at = 0, tl_updated_at = 0\<rparr>],
      tl_tasks_id_seq = 4, tl_connected = True\<rparr>"

text \<open>The rows of \<^verbatim>\<open>insertSampleData\<close> in \<^verbatim>\<open>src/db/index.js\<close>, inserted at tick 0.\<close>

definition pm_sample :: pm_store where
  "pm_sample =
     \<lparr>pm_assignees =
        [\<lparr>a_id = 1, a_name = ''John Doe'', a_email = ''john@example.com'', a_role = Some ''admin'',
          a_created_at = 0, a_updated_at = 0\<rparr>,
         \<lparr>a_id = 2, a_name = ''Jane Smith'', a_email = ''jane@example.com'', a_role = Some ''manager'',
          a_created_at = 0, a_updated_at = 0\<rparr>,
         \<lparr>a_id = 3, a_name = ''Bob Johnson'', a_email = ''bob@example.com'', a_role = Some ''member'',
          a_created_at = 0, a_updated_at = 0\<rparr>],
      pm_projects =
        [\<lparr>p_id = 1, p_title = ''Website Redesign'',
          p_description = Some ''Complete overhaul of company website'', p_status = Some ''active'',
          p_priority = Some ''high'', p_owner_id = Some 1, p_start_date = Some (2024, 1, 1),
          p_end_date = Some (2024, 3, 31), p_created_at = 0, p_updated_at = 0\<rparr>,
         \<lparr>p_id = 2, p_title = ''Mobile App Development'',
          p_description = Some ''Create new mobile application'', p_status = Some ''active'',
          p_priority = Some ''medium'', p_owner_id = Some 2, p_start_date = Some (2024, 2, 1),
          p_end_date = Some (2024, 6, 30), p_created_at = 0, p_updated_at = 0\<rparr>,
         \<lparr>p_id = 3, p_title = ''Database Migration'',
          p_description = Some ''Migrate from MySQL to PostgreSQL'', p_status = Some ''planning'',
          p_priority = Some ''high'', p_owner_id = Some 1, p_start_date = Some (2024, 3, 1),
          p_end_date = Some (2024, 4, 30), p_created_at = 0, p_updated_at = 0\<rparr>],
      pm_tasks =
        [\<lparr>t_id = 1, t_title = ''Design Homepage'', t_description = Some ''Create new homepage design'',
          t_status = Some ''in_progress'', t_priority = Some ''high'', t_project_id = Some 1,
          t_assigned_to = Some 2, t_due_date = Some (2024, 1, 15), t_completed = Some False,
          t_created_at = 0, t_updated_at = 0\<rparr>,
         \<lparr>t_id = 2, t_title = ''Setup Database'', t_description = Some ''Configure PostgreSQL database'',
          t_status = Some ''completed'', t_priority = Some ''high'', t_project_id = Some 1,
          t_assigned_to = Some 1, t_due_date = Some (2024, 1, 10), t_completed = Some True,
          t_created_at = 0, t_updated_at = 0\<rparr>,
         \<lparr>t_id = 3, t_title = ''Create API Endpoints'',
          t_description = Some ''Build REST API for mobile app'', t_status = Some ''pending'',
          t_priority = Some ''medium'', t_project_id = Some 2, t_assigned_to = Some 3,
          t_due_date = Some (2024, 2, 20), t_completed = Some False,
          t_created_at = 0, t_updated_at = 0\<rparr>,
         \<lparr>t_id = 4, t_title = ''User Authentication'',
          t_description = Some ''Implement login/logout functionality'',
          t_status = Some ''in_progress'', t_priority = Some ''high'', t_project_id = Some 2,
          t_assigned_to = Some 2, t_due_date = Some (2024, 2, 25), t_completed = Some False,
          t_created_at = 0, t_updated_at = 0\<rparr>],
      pm_project_assignees =
        [\<lparr>m_id = 1, m_project_id = Some 1, m_assignee_id = Some 1,
          m_role_in_project = Some ''Project Lead'', m_assigned_at = 0\<rparr>,
         \<lparr>m_id = 2, m_project_id = Some 1, m_assignee_id = Some 2,
          m_role_in_project = Some ''Frontend Developer'', m_assigned_at = 0\<rparr>,
         \<lparr>m_id = 3, m_project_id = Some 2, m_assignee_id = Some 2,
          m_role_in_project = Some ''Backend Developer'', m_assigned_at = 0\<rparr>,
         \<lparr>m_id = 4, m_project_id = Some 2, m_assignee_id = Some 3,
          m_role_in_project = Some ''Mobile Developer'', m_assigned_at = 0\<rparr>,
         \<lparr>m_id = 5, m_project_id = Some 3, m_assignee_id = Some 1,
          m_role_in_project = Some ''Database Administrator'', m_assigned_at = 0\<rparr>,
         \<lparr>m_id = 6, m_project_id = Some 3, m_assignee_id = Some 3,
          m_role_in_project = Some ''Developer'', m_assigned_at = 0\<rparr>],
      pm_assignees_id_seq = 4, pm_projects_id_seq = 4, pm_tasks_id_seq = 5,
      pm_project_assignees_id_seq = 7, pm_connected = True\<rparr>"

text \<open>A request body for \<^verbatim>\<open>POST /api/tasks\<close> of the project manager.\<close>

definition docs_body :: body where
  "docs_body =
     no_body(''title'' := JStr ''Write docs'', ''project_id'' := JNum 1, ''assigned_to'' := JNum 2,
             ''due_date'' := JStr ''2024-03-01'')"

text \<open>The store after one create on the sample data.\<close>

definition tl_after_post :: tl_store where
  "tl_after_post = snd (tl_post_task tl_sample 9 (no_body(''title'' := JStr ''Learn MongoDB'')))"

text \<open>
  One reading of \<^verbatim>\<open>DATE\<close>, which the sample store of the solution document is given:
  the ISO form \<^verbatim>\<open>YYYY-MM-DD\<close> of the sample data and nothing else.
\<close>

definition days_in_month :: "nat \<Rightarrow> nat \<Rightarrow> nat" where
  "days_in_month y m =
     (if m = 2 then (if (y mod 4 = 0 \<and> y mod 100 \<noteq> 0) \<or> y mod 400 = 0 then 29 else 28)
      else if m = 4 \<or> m = 6 \<or> m = 9 \<or> m = 11 then 30
      else 31)"

definition iso_date_in :: "string \<Rightarrow> pg_error + date" where
  "iso_date_in s =
     (let t = strip s;
          y = digits_val 0 (take 4 t);
          m = digits_val 0 (take 2 (drop 5 t));
          d = digits_val 0 (drop 8 t)
      in if length t \<noteq> 10 \<or> t ! 4 \<noteq> CHR ''-'' \<or> t ! 7 \<noteq> CHR ''-'' \<or>
            \<not> list_all is_digit (take 4 t @ take 2 (drop 5 t) @ drop 8 t)
         then Inl InvalidDatetimeFormat
         else if y < 1 \<or> m < 1 \<or> 12 < m \<or> d < 1 \<or> days_in_month y m < d
         then Inl DatetimeFieldOverflow
         else Inr (y, m, d))"

text \<open>
  The rows of \<^verbatim>\<open>insertSampleData\<close> in \<^verbatim>\<open>project-manager-solution.md\<close>, inserted at
  tick 0.
\<close>

definition sol_sample :: sol_store where
  "sol_sample =
     \<lparr>sol_assignees =
        [\<lparr>a_id = 1, a_name = ''John Doe'', a_email = ''john@example.com'',
          a_role = Some ''Frontend Developer'', a_created_at = 0, a_updated_at = 0\<rparr>,
         \<lparr>a_id = 2, a_name = ''Jane Smith'', a_email = ''jane@example.com'',
          a_role = Some ''Backend Developer'', a_created_at = 0, a_updated_at = 0\<rparr>,
         \<lparr>a_id = 3, a_name = ''Alice Johnson'', a_email = ''alice@example.com'',
          a_role = Some ''UI/UX Designer'', a_created_at = 0, a_updated_at = 0\<rparr>,
         \<lparr>a_id = 4, a_name = ''Bob Wilson'', a_email = ''bob@example.com'',
          a_role = Some ''Project Manager'', a_created_at = 0, a_updated_at = 0\<rparr>],
      sol_projects =
        [\<lparr>sp_id = 1, sp_name = ''Website Redesign'',
          sp_description = Some ''Complete redesign of company website'', sp_status = Some ''Active'',
          sp_created_at = 0, sp_updated_at = 0\<rparr>,
         \<lparr>sp_id = 2, sp_name = ''Mobile App Development'',
          sp_description = Some ''iOS and Android app development'', sp_status = Some ''Planning'',
          sp_created_at = 0, sp_updated_at = 0\<rparr>,
         \<lparr>sp_id = 3, sp_name = ''E-commerce Platform'',
          sp_description = Some ''Build a complete e-commerce solution'', sp_status = Some ''Active'',
          sp_created_at = 0, sp_updated_at = 0\<rparr>],
      sol_tasks =
        [\<lparr>st_id = 1, st_title = ''Design Homepage'',
          st_description = Some ''Create wireframes and mockups'', st_status = Some ''In Progress'',
          st_priority = Some ''High'', st_due_date = Some (2024, 1, 15), st_project_id = Some 1,
          st_assignee_id = Some 1, st_created_at = 0, st_updated_at = 0\<rparr>,
         \<lparr>st_id = 2, st_title = ''Implement User Auth'',
          st_description = Some ''Set up JWT authentication'', st_status = Some ''Todo'',
          st_priority = Some ''High'', st_due_date = Some (2024, 1, 20), st_project_id = Some 1,
          st_assignee_id = Some 2, st_created_at = 0, st_updated_at = 0\<rparr>,
         \<lparr>st_id = 3, st_title = ''Mobile App Wireframes'',
          st_description = Some ''Create app wireframes'', st_status = Some ''Todo'',
          st_priority = Some ''Medium'', st_due_date = Some (2024, 1, 25), st_project_id = Some 2,
          st_assignee_id = Some 3, st_created_at = 0, st_updated_at = 0\<rparr>,
         \<lparr>st_id = 4, st_title = ''Database Design'',
          st_description = Some ''Design database schema'', st_status = Some ''Done'',
          st_priority = Some ''High'', st_due_date = Some (2024, 1, 10), st_project_id = Some 3,
          st_assignee_id = Some 2, st_created_at = 0, st_updated_at = 0\<rparr>,
         \<lparr>st_id = 5, st_title = ''API Development'',
          st_description = Some ''Build RESTful API'', st_status = Some ''In Progress'',
          st_priority = Some ''High'', st_due_date = Some (2024, 1, 18), st_project_id = Some 1,
          st_assignee_id = Some 2, st_created_at = 0, st_updated_at = 0\<rparr>],
      sol_project_assignees =
        [\<lparr>m_id = 1, m_project_id = Some 1, m_assignee_id = Some 1,
          m_role_in_project = Some ''Lead Developer'', m_assigned_at = 0\<rparr>,
         \<lparr>m_id = 2, m_project_id = Some 1, m_assignee_id = Some 2,
          m_role_in_project = Some ''Backend Developer'', m_assigned_at = 0\<rparr>,
         \<lparr>m_id = 3, m_project_id = Some 2, m_assignee_id = Some 3,
          m_role_in_project = Some ''UI/UX Designer'', m_assigned_at = 0\<rparr>,
         \<lparr>m_id = 4, m_project_id = Some 3, m_assignee_id = Some 1,
          m_role_in_project = Some ''Frontend Developer'', m_assigned_at = 0\<rparr>,
         \<lparr>m_id = 5, m_project_id = Some 3, m_assignee_id = Some 2,
          m_role_in_project = Some ''Backend Developer'', m_assigned_at = 0\<rparr>],
      sol_assignees_id_seq = 5, sol_projects_id_seq = 4, sol_tasks_id_seq = 6,
      sol_project_assignees_id_seq = 6, sol_connected = True, sol_date_in = iso_date_in\<rparr>"

text \<open>The body of the example request \<^verbatim>\<open>POST /api/tasks\<close>.\<close>

definition homepage_body :: body where
  "homepage_body =
     no_body(''title'' := JStr ''Design Homepage'', ''project_id'' := JNum 1, ''assignee_id'' := JNum 1)"

text \<open>A Create of an assignee with the email of the first sample row.\<close>

definition john_body :: body where
  "john_body = no_body(''name'' := JStr ''Johnny'', ''email'' := JStr ''john@example.com'')"

text \<open>Assigning project 1, which the sample data already gives to assignee 1.\<close>

definition assign_body :: body where
  "assign_body = no_body(''project_id'' := JNum 1)"

text \<open>The same assignment, asked of the project: assignee 1.\<close>

definition assignee_body :: body where
  "assignee_body = no_body(''assignee_id'' := JNum 1)"

section \<open>Joins and order\<close>

lemma join_row_fst: "e \<in> set (join_row on ys x) \<Longrightarrow> fst e = x"
  by (auto simp: join_row_def split: list.splits)

lemma join_row_not_Nil: "join_row on ys x \<noteq> []"
  by (simp add: join_row_def split: list.splits)

lemma map_fst_join_row: "map fst (join_row on ys x) = replicate (length (join_row on ys x)) x"
  by (auto simp: join_row_def comp_def map_replicate_const split: list.splits)

lemma left_join_append:
  "left_join on (xs @ xs') ys = left_join on xs ys @ left_join on xs' ys"
  by (simp add: left_join_def)

lemma left_join_Nil: "left_join on [] ys = []"
  by (simp add: left_join_def)

lemma left_join_Cons: "left_join on (x # xs) ys = join_row on ys x @ left_join on xs ys"
  by (simp add: left_join_def)

lemma fst_left_join: "e \<in> set (left_join on xs ys) \<Longrightarrow> fst e \<in> set xs"
  by (induction xs) (auto simp: left_join_Nil left_join_Cons dest: join_row_fst)

lemma filter_left_join_none:
  "(\<And>x. x \<in> set xs \<Longrightarrow> \<not> P x) \<Longrightarrow> filter (\<lambda>e. P (fst e)) (left_join on xs ys) = []"
  by (auto simp: filter_empty_conv dest: fst_left_join)

text \<open>With a key on the right, a left join keeps the left rows one for one.\<close>

lemma join_row_unique:
  assumes "\<And>y y'. y \<in> set ys \<Longrightarrow> y' \<in> set ys \<Longrightarrow> on x y \<Longrightarrow> on x y' \<Longrightarrow> k y = k y'"
    and "distinct (map k ys)"
  shows "length (join_row on ys x) = 1"
proof -
  have "length (filter (on x) ys) \<le> 1"
    using assms
  proof (induction ys)
    case Nil
    then show ?case by simp
  next
    case (Cons y ys)
    show ?case
    proof (cases "on x y")
      case True
      have "filter (on x) ys = []"
      proof (rule ccontr)
        assume "filter (on x) ys \<noteq> []"
        then obtain y' where y': "y' \<in> set ys" "on x y'"
          by (auto simp: filter_empty_conv)
        with Cons.prems(1) [of y y'] True have "k y = k y'" by simp
        with y' Cons.prems(2) show False by (auto simp: image_iff)
      qed
      with True show ?thesis by simp
    next
      case False
      with Cons show ?thesis by simp
    qed
  qed
  then show ?thesis
    by (cases "filter (on x) ys") (auto simp: join_row_def)
qed

lemma map_fst_left_join:
  assumes "\<And>x y y'. y \<in> set ys \<Longrightarrow> y' \<in> set ys \<Longrightarrow> on x y \<Longrightarrow> on x y' \<Longrightarrow> k y = k y'"
    and "distinct (map k ys)"
  shows "map fst (left_join on xs ys) = xs"
proof (induction xs)
  case Nil
  then show ?case by (simp add: left_join_Nil)
next
  case (Cons x xs)
  have "length (join_row on ys x) = 1"
    using assms by (rule join_row_unique)
  then have "map fst (join_row on ys x) = [x]"
    by (simp add: map_fst_join_row)
  with Cons show ?case by (simp add: left_join_Cons)
qed

lemma order_desc_sorted:
  "sorted_wrt (\<lambda>x y. k y \<le> k x) (order_desc k xs)"
proof -
  have "sorted (map (\<lambda>x. - int (k x)) (order_desc k xs))"
    unfolding order_desc_def by (rule sorted_sort_key)
  then show ?thesis
    by (simp add: sorted_map sorted_wrt_iff_nth_less)
qed

lemma order_desc_mset: "mset (order_desc k xs) = mset xs"
  by (simp add: order_desc_def)

lemma order_desc_Nil: "order_desc k [] = []"
  by (simp add: order_desc_def)

lemma order_desc_sorted_map: "sorted_wrt (\<lambda>x y. y \<le> x) (map k (order_desc k xs))"
  using order_desc_sorted [of k xs] by (simp add: sorted_wrt_map)

lemma set_order_desc: "set (order_desc k xs) = set xs"
  by (simp add: order_desc_def)

section \<open>Readings\<close>

lemma and_then_Inr: "and_then x f = Inr y \<longleftrightarrow> (\<exists>z. x = Inr z \<and> f z = Inr y)"
  by (cases x) (auto simp: and_then_def)

lemma bind_param_int4in_Inl:
  "int4in ident = Inl e \<Longrightarrow> \<exists>e'. bind_param int4in (JStr ident) = Inl e'"
  by (simp add: bind_param_def)

lemma utf8_chars_ascii: "list_all (\<lambda>c. \<not> digit7 c) s \<Longrightarrow> utf8_chars s = map (\<lambda>c. [c]) s"
proof (induction s)
  case Nil
  then show ?case by simp
next
  case (Cons c s)
  then show ?case
    by (cases s) (simp_all add: is_continuation_def)
qed

lemmas parse_defs = int4in_def is_space_def is_digit_of_def digit_val_def

section \<open>Joins on a key\<close>

lemma sql_eq_Some: "sql_eq v (Some x) \<longleftrightarrow> v = Some x"
  by (auto simp: sql_eq_def)

lemma sql_eq_Some': "sql_eq (Some x) v \<longleftrightarrow> v = Some x"
  by (auto simp: sql_eq_def)

lemma filter_key_find:
  assumes "distinct (map k ys)"
  shows "filter (\<lambda>y. v = Some (k y)) ys =
           (case find (\<lambda>y. v = Some (k y)) ys of None \<Rightarrow> [] | Some y \<Rightarrow> [y])"
  using assms
proof (induction ys)
  case Nil
  then show ?case by simp
next
  case (Cons y ys)
  show ?case
  proof (cases "v = Some (k y)")
    case True
    with Cons.prems have "filter (\<lambda>y. v = Some (k y)) ys = []"
      by (auto simp: filter_empty_conv image_iff)
    with True show ?thesis by simp
  next
    case False
    with Cons show ?thesis by simp
  qed
qed

lemma find_key_Some:
  "find (\<lambda>y. v = Some (k y)) ys = Some y \<Longrightarrow> y \<in> set ys \<and> v = Some (k y)"
  by (auto simp: find_Some_iff)

lemma find_key_None:
  "find (\<lambda>y. v = Some (k y)) ys = None \<longleftrightarrow> (\<forall>y\<in>set ys. v \<noteq> Some (k y))"
  by (auto simp: find_None_iff)

lemma find_key_unique:
  assumes "distinct (map k ys)" and "y \<in> set ys"
  shows "find (\<lambda>y'. Some (k y) = Some (k y')) ys = Some y"
proof -
  from assms have "filter (\<lambda>y'. Some (k y) = Some (k y')) ys = [y]"
  proof (induction ys)
    case Nil
    then show ?case by simp
  next
    case (Cons z zs)
    then show ?case
      by (auto simp: filter_empty_conv image_iff)
  qed
  with filter_key_find [OF assms(1), of "Some (k y)"] show ?thesis
    by (auto split: option.splits)
qed

text \<open>With a key on the right, each left row is joined with the one row of that key.\<close>

lemma left_join_find:
  assumes "distinct (map k ys)"
  shows "left_join (\<lambda>x y. sql_eq (f x) (Some (k y))) xs ys =
           map (\<lambda>x. (x, find (\<lambda>y. f x = Some (k y)) ys)) xs"
proof -
  have "join_row (\<lambda>x y. sql_eq (f x) (Some (k y))) ys x = [(x, find (\<lambda>y. f x = Some (k y)) ys)]" for x
    using filter_key_find [OF assms, of "f x"]
    by (auto simp: join_row_def sql_eq_Some split: option.splits list.splits)
  then show ?thesis
    by (induction xs) (simp_all add: left_join_Nil left_join_Cons)
qed

lemma inner_join_find:
  assumes "distinct (map k ys)"
  shows "inner_join (\<lambda>x y. sql_eq (f x) (Some (k y))) xs ys =
           map (\<lambda>x. (x, the (find (\<lambda>y. f x = Some (k y)) ys)))
             (filter (\<lambda>x. \<exists>y\<in>set ys. f x = Some (k y)) xs)"
proof (induction xs)
  case Nil
  then show ?case by (simp add: inner_join_def)
next
  case (Cons x xs)
  have step: "inner_join on (x # xs) ys = map (\<lambda>y. (x, y)) (filter (on x) ys) @ inner_join on xs ys" for on
    by (simp add: inner_join_def)
  show ?case
  proof (cases "find (\<lambda>y. f x = Some (k y)) ys")
    case None
    then have no: "\<forall>y\<in>set ys. f x \<noteq> Some (k y)"
      by (simp add: find_key_None)
    with None filter_key_find [OF assms, of "f x"] Cons show ?thesis
      by (simp add: step sql_eq_Some)
  next
    case (Some y)
    then have "y \<in> set ys" "f x = Some (k y)"
      by (auto dest: find_key_Some)
    with Some filter_key_find [OF assms, of "f x"] Cons show ?thesis
      by (auto simp: step sql_eq_Some)
  qed
qed

lemma insort_key_map:
  "insort_key f (g x) (map g ys) = map g (insort_key (\<lambda>y. f (g y)) x ys)"
  by (induction ys) simp_all

lemma sort_key_map: "sort_key f (map g xs) = map g (sort_key (\<lambda>x. f (g x)) xs)"
  by (induction xs) (simp_all add: insort_key_map)

lemma order_desc_map: "order_desc k (map g xs) = map g (order_desc (\<lambda>x. k (g x)) xs)"
  by (simp add: order_desc_def sort_key_map)

section \<open>Listings over joins\<close>

lemma inner_join_Cons:
  "inner_join on (x # xs) ys = map (\<lambda>y. (x, y)) (filter (on x) ys) @ inner_join on xs ys"
  by (simp add: inner_join_def)

lemma inner_join_Nil: "inner_join on [] ys = []"
  by (simp add: inner_join_def)

lemma set_inner_join:
  "set (inner_join on xs ys) = {(x, y). x \<in> set xs \<and> y \<in> set ys \<and> on x y}"
  by (induction xs) (auto simp: inner_join_Nil inner_join_Cons)

text \<open>A left join on a key, filtered and ordered on its left rows.\<close>

lemma left_join_listing:
  fixes xs :: "'a list" and ys :: "'b list" and k f w c i
  assumes "distinct (map k ys)"
  defines "js \<equiv> order_desc (\<lambda>e. c (fst e)) (filter (\<lambda>e. sql_eq (w (fst e)) (Some i))
                   (left_join (\<lambda>x y. sql_eq (f x) (Some (k y))) xs ys))"
  shows "(\<forall>(x, y)\<in>set js. y = find (\<lambda>y. f x = Some (k y)) ys) \<and>
         mset (map fst js) = mset (filter (\<lambda>x. w x = Some i) xs) \<and>
         sorted_wrt (\<lambda>a b. c (fst b) \<le> c (fst a)) js"
proof -
  let ?g = "\<lambda>x. (x, find (\<lambda>y. f x = Some (k y)) ys)"
  have js: "js = map ?g (order_desc c (filter (\<lambda>x. w x = Some i) xs))"
    unfolding js_def left_join_find [OF assms(1)]
    by (simp add: filter_map comp_def order_desc_map sql_eq_Some)
  show ?thesis
    using order_desc_sorted [of c "filter (\<lambda>x. w x = Some i) xs"]
    by (auto simp: js comp_def order_desc_mset sorted_wrt_map)
qed

text \<open>An inner join on a key of the right table, filtered and ordered on its left rows.\<close>

lemma inner_join_listing:
  fixes xs :: "'a list" and ys :: "'b list" and k f w c i
  assumes "distinct (map k ys)"
  defines "js \<equiv> order_desc (\<lambda>e. c (fst e)) (filter (\<lambda>e. sql_eq (w (fst e)) (Some i))
                   (inner_join (\<lambda>x y. sql_eq (f x) (Some (k y))) xs ys))"
  shows "(\<forall>(x, y)\<in>set js. y \<in> set ys \<and> f x = Some (k y)) \<and>
         mset (map fst js) =
           mset (filter (\<lambda>x. w x = Some i \<and> (\<exists>y\<in>set ys. f x = Some (k y))) xs) \<and>
         sorted_wrt (\<lambda>a b. c (fst b) \<le> c (fst a)) js"
proof -
  let ?g = "\<lambda>x. (x, the (find (\<lambda>y. f x = Some (k y)) ys))"
  let ?P = "\<lambda>x. w x = Some i \<and> (\<exists>y\<in>set ys. f x = Some (k y))"
  have js: "js = map ?g (order_desc c (filter ?P xs))"
    unfolding js_def inner_join_find [OF assms(1)]
    by (simp add: filter_map comp_def order_desc_map sql_eq_Some conj_commute)
  have pin: "the (find (\<lambda>y. f x = Some (k y)) ys) \<in> set ys \<and>
             f x = Some (k (the (find (\<lambda>y. f x = Some (k y)) ys)))" if "?P x" for x
  proof -
    from that have "find (\<lambda>y. f x = Some (k y)) ys \<noteq> None"
      by (auto simp: find_key_None)
    then obtain y where "find (\<lambda>y. f x = Some (k y)) ys = Some y"
      by auto
    then show ?thesis
      using find_key_Some [of "f x" k ys y] by simp
  qed
  show ?thesis
    using order_desc_sorted [of c "filter ?P xs"] pin
    by (auto simp: js comp_def order_desc_mset sorted_wrt_map set_order_desc)
qed

text \<open>
  An inner join on a key of the left table, filtered and ordered on its right rows:
  each right row that has a left row occurs once.
\<close>

lemma mset_snd_inner_join:
  assumes "distinct (map k xs)"
  shows "mset (map snd (inner_join (\<lambda>x y. sql_eq (Some (k x)) (g y)) xs ys)) =
           mset (filter (\<lambda>y. \<exists>x\<in>set xs. g y = Some (k x)) ys)"
  using assms
proof (induction xs)
  case Nil
  then show ?case by (simp add: inner_join_Nil)
next
  case (Cons x xs)
  have "mset (filter (\<lambda>y. g y = Some (k x)) ys) +
        mset (filter (\<lambda>y. \<exists>x'\<in>set xs. g y = Some (k x')) ys) =
        mset (filter (\<lambda>y. g y = Some (k x) \<or> (\<exists>x'\<in>set xs. g y = Some (k x'))) ys)"
  proof (induction ys)
    case Nil
    then show ?case by simp
  next
    case (Cons y ys)
    from \<open>distinct (map k (x # xs))\<close> have "\<not> (g y = Some (k x) \<and> (\<exists>x'\<in>set xs. g y = Some (k x')))"
      by (auto simp: image_iff)
    with Cons show ?case by auto
  qed
  with Cons show ?case
    by (simp add: inner_join_Cons comp_def sql_eq_Some')
qed

lemma junction_listing:
  fixes xs :: "'a list" and ys :: "'b list" and k g w c i
  assumes "distinct (map k xs)"
  defines "js \<equiv> order_desc (\<lambda>e. c (snd e)) (filter (\<lambda>e. sql_eq (w (snd e)) (Some i))
                   (inner_join (\<lambda>x y. sql_eq (Some (k x)) (g y)) xs ys))"
  shows "(\<forall>(x, y)\<in>set js. x \<in> set xs \<and> g y = Some (k x)) \<and>
         mset (map snd js) =
           mset (filter (\<lambda>y. w y = Some i \<and> (\<exists>x\<in>set xs. g y = Some (k x))) ys) \<and>
         sorted_wrt (\<lambda>a b. c (snd b) \<le> c (snd a)) js"
proof -
  let ?J = "inner_join (\<lambda>x y. sql_eq (Some (k x)) (g y)) xs ys"
  have "mset (map snd js) = mset (map snd (filter (\<lambda>e. w (snd e) = Some i) ?J))"
    by (simp add: js_def order_desc_mset sql_eq_Some)
  also have "\<dots> = mset (filter (\<lambda>y. w y = Some i) (map snd ?J))"
    by (simp add: filter_map comp_def)
  also have "\<dots> = filter_mset (\<lambda>y. w y = Some i) (mset (map snd ?J))"
    by simp
  also have "\<dots> = mset (filter (\<lambda>y. w y = Some i \<and> (\<exists>x\<in>set xs. g y = Some (k x))) ys)"
    unfolding mset_snd_inner_join [OF assms(1)]
    by (simp add: filter_filter_mset conj_commute)
  finally have count: "mset (map snd js) =
           mset (filter (\<lambda>y. w y = Some i \<and> (\<exists>x\<in>set xs. g y = Some (k x))) ys)" .
  have pin: "\<forall>(x, y)\<in>set js. x \<in> set xs \<and> g y = Some (k x)"
    by (auto simp: js_def set_order_desc set_inner_join sql_eq_Some')
  have "sorted_wrt (\<lambda>a b. c (snd b) \<le> c (snd a)) js"
    unfolding js_def by (rule order_desc_sorted)
  with count pin show ?thesis by blast
qed

section \<open>Readings of the sample requests\<close>

lemma bind_int4in_1: "bind_param int4in (JStr ''1'') = Inr (Some 1)"
  by (simp add: bind_param_def parse_defs)

lemma bind_int4in_99: "bind_param int4in (JStr ''99'') = Inr (Some 99)"
  by (simp add: bind_param_def parse_defs)


lemma show_int_digit: "0 \<le> i \<Longrightarrow> i < 10 \<Longrightarrow> show_int i = [digit_char (nat i)]"
  by (simp add: show_int_def show_nat.simps)

lemma bind_int4in_JNum_1: "bind_param int4in (JNum 1) = Inr (Some 1)"
  by (simp add: bind_param_def show_int_digit digit_char_def parse_defs)

lemma varchar_long: "varchar 100 (Some (replicate 101 CHR ''x'')) = Inl StringDataRightTruncation"
proof -
  have "utf8_chars (replicate 101 CHR ''x'') = map (\<lambda>c. [c]) (replicate 101 CHR ''x'')"
    by (rule utf8_chars_ascii) (simp add: list_all_iff)
  then show ?thesis
    by (simp add: varchar_def Let_def drop_map list_all_iff)
qed

lemma bind_textin_long:
  "bind_param textin (JStr (replicate 101 CHR ''x'')) = Inr (Some (replicate 101 CHR ''x''))"
  by (simp add: bind_param_def textin_def)

section \<open>Properties of the task list\<close>

text \<open>
  C9. A path parameter \<^verbatim>\<open>:id\<close> that the store cannot read as an integer (for
  instance \<^verbatim>\<open>abc\<close>) makes Get-by-id, Update and Delete answer through their
  \<^verbatim>\<open>catch\<close> block: status 500 with the store's error, never 404, and the store is left
  as it was.
\<close>

theorem tl_id_not_integer_500:
  assumes "int4in ident = Inl e"
  shows "(\<exists>x. tl_get_task db ident = database_error x) \<and>
         (\<exists>x. tl_put_task db now ident b = (database_error x, db)) \<and>
         (\<exists>x. tl_delete_task db ident = (database_error x, db))"
proof -
  from assms obtain e' where e': "bind_param int4in (JStr ident) = Inl e'"
    by (auto dest: bind_param_int4in_Inl)
  have "\<exists>x. tl_get_task db ident = database_error x"
    by (auto simp: tl_get_task_def tl_select_task_def e')
  moreover have "\<exists>x. tl_put_task db now ident b = (database_error x, db)"
    by (auto simp: tl_put_task_def tl_update_task_def e' and_then_def split: sum.splits)
  moreover have "\<exists>x. tl_delete_task db ident = (database_error x, db)"
    by (auto simp: tl_delete_task_def tl_delete_from_tasks_def e')
  ultimately show ?thesis by blast
qed

theorem tl_id_not_integer_500_witness:
  "int4in ''abc'' = Inl InvalidTextRepresentation \<and>
   http_status (tl_get_task tl_sample ''abc'') = 500 \<and>
   http_status (fst (tl_put_task tl_sample 9 ''abc'' (no_body(''title'' := JStr ''x'')))) = 500 \<and>
   http_status (fst (tl_delete_task tl_sample ''abc'')) = 500"
proof -
  have h: "int4in ''abc'' = Inl InvalidTextRepresentation"
    by (simp add: parse_defs)
  from tl_id_not_integer_500 [OF h, of tl_sample 9 "no_body(''title'' := JStr ''x'')"] h
  show ?thesis
    by (auto simp: database_error_def)
qed

text \<open>
  C10. \<^verbatim>\<open>POST /api/tasks\<close> of the task list reads \<^verbatim>\<open>title\<close> and \<^verbatim>\<open>description\<close>
  only: whatever the body carries under \<^verbatim>\<open>completed\<close> changes neither the response nor
  the store, and every create that answers 201 has appended one row whose
  \<^verbatim>\<open>completed\<close> is false, which is the row it returns.
\<close>

theorem tl_post_completed_false:
  "tl_post_task db now (b(''completed'' := v)) = tl_post_task db now b \<and>
   (http_status (fst (tl_post_task db now b)) = 201 \<longrightarrow>
      (\<exists>t. tl_tasks (snd (tl_post_task db now b)) = tl_tasks db @ [t] \<and>
           tl_completed t = Some False \<and>
           payload (fst (tl_post_task db now b)) = Some (One (tl_row t))))"
  by (auto simp: tl_post_task_def tl_insert_task_def Let_def fail_json_def ok_json_def
      database_error_def split: sum.splits option.splits prod.splits)

theorem tl_post_completed_false_witness:
  "http_status (fst (tl_post_task tl_sample 9
      (no_body(''title'' := JStr ''Learn MongoDB'', ''completed'' := JBool True)))) = 201 \<and>
   (\<exists>t. tl_tasks (snd (tl_post_task tl_sample 9
          (no_body(''title'' := JStr ''Learn MongoDB'', ''completed'' := JBool True)))) =
        tl_tasks tl_sample @ [t] \<and>
        tl_completed t = Some False)"
proof -
  have h: "http_status (fst (tl_post_task tl_sample 9
      (no_body(''title'' := JStr ''Learn MongoDB'', ''completed'' := JBool True)))) = 201"
    by (simp add: tl_post_task_def tl_insert_task_def tl_sample_def no_body_def bind_param_def
        textin_def varchar_def and_then_def is_continuation_def ok_json_def Let_def)
  from tl_post_completed_false
    [of tl_sample 9 "no_body(''title'' := JStr ''Learn MongoDB'', ''completed'' := JBool True)" Undefined] h
  show ?thesis by blast
qed

section \<open>The routers that bind no client\<close>


text \<open>
  C5. \<^verbatim>\<open>tasksRouter.post("/")\<close> creates nothing: a body without a title is answered
  400, every other body 500 with the \<^verbatim>\<open>ReferenceError\<close> of the unbound name
  \<^verbatim>\<open>client\<close>, and the store is left as it was; \<^verbatim>\<open>tasksRouter.get("/:id")\<close> answers
  500 in the same way for every id.
\<close>

theorem task_create_reference_error:
  "tasksRouter_post db now b =
     (if truthy (b ''title'') then database_error ReferenceError
      else fail_json 400 ''Title is required'', db) \<and>
   tasksRouter_get_id db ident = database_error ReferenceError"
  by (simp add: tasksRouter_post_def tasksRouter_get_id_def unbound_client_query_def Let_def)

section \<open>Lists\<close>

lemma sol_tasks_joined_find:
  assumes "distinct (map sp_id (sol_projects db))" and "distinct (map a_id (sol_assignees db))"
  shows "sol_tasks_joined db =
           map (\<lambda>t. ((t, the (find (\<lambda>p. st_project_id t = Some (sp_id p)) (sol_projects db))),
                      find (\<lambda>a. st_assignee_id t = Some (a_id a)) (sol_assignees db)))
             (filter (\<lambda>t. \<exists>p\<in>set (sol_projects db). st_project_id t = Some (sp_id p)) (sol_tasks db))"
proof -
  have "sol_tasks_joined db =
          left_join (\<lambda>x a. sql_eq (st_assignee_id (fst x)) (Some (a_id a)))
            (inner_join (\<lambda>t p. sql_eq (st_project_id t) (Some (sp_id p))) (sol_tasks db) (sol_projects db))
            (sol_assignees db)"
    by (simp add: sol_tasks_joined_def split_def)
  then show ?thesis
    by (simp only: left_join_find [OF assms(2)] inner_join_find [OF assms(1)] map_map comp_def fst_conv)
qed

text \<open>
  C7, as amended. The lists of the modules that have a client: \<^verbatim>\<open>GET /api/tasks\<close> of
  the task list answers, on a connected store, all rows of the table in the order the
  store scans them, with no \<^verbatim>\<open>ORDER BY\<close>; \<^verbatim>\<open>getAllAssignees\<close> of the controller
  and \<^verbatim>\<open>GET /api/assignees\<close>, \<^verbatim>\<open>GET /api/projects\<close> and \<^verbatim>\<open>GET /api/tasks\<close> of the
  solution document answer all rows of their table newest first by \<^verbatim>\<open>created_at\<close>, each
  once: a project with the count of its tasks, a task with the name of its project and
  the name and email of its assignee (a task whose \<^verbatim>\<open>project_id\<close> is no project's id
  is left out by the inner join). Each of them takes no filter and fails, with status
  500, exactly when the store is not connected.
\<close>

theorem lists_newest_first:
  fixes tl :: tl_store and pm :: pm_store and db :: sol_store
  assumes "distinct (map sp_id (sol_projects db))" and "distinct (map a_id (sol_assignees db))"
  shows
    "(tl_get_tasks tl =
       (if tl_connected tl then ok_json 200 None (Some (Many (map tl_row (tl_tasks tl))))
        else database_error (Pg ConnectionFailure))) \<and>
     (if pm_connected pm
     then \<exists>as. getAllAssignees pm = ok_json 200 None (Some (Many (map assignee_row as))) \<and>
            mset as = mset (pm_assignees pm) \<and>
            sorted_wrt (\<lambda>x y. a_created_at y \<le> a_created_at x) as
     else getAllAssignees pm = database_error (Pg ConnectionFailure)) \<and>
     (if sol_connected db
     then \<exists>as. assignees_get db = ok_json 200 None (Some (Many (map assignee_row as))) \<and>
            mset as = mset (sol_assignees db) \<and>
            sorted_wrt (\<lambda>x y. a_created_at y \<le> a_created_at x) as
     else assignees_get db = fail_json 500 ''Error fetching assignees'') \<and>
     (if sol_connected db
     then \<exists>ps. projects_get db =
              ok_json 200 None (Some (Many (map
                (\<lambda>p. sol_project_row p @
                     [(''task_count'',
                       SText (show_nat (length (filter (\<lambda>t. st_project_id t = Some (sp_id p))
                                                  (sol_tasks db)))))]) ps))) \<and>
            mset ps = mset (sol_projects db) \<and>
            sorted_wrt (\<lambda>x y. sp_created_at y \<le> sp_created_at x) ps
     else projects_get db = fail_json 500 ''Error fetching projects'') \<and>
     (if sol_connected db
     then \<exists>js. tasks_get db =
              ok_json 200 None (Some (Many (map
                (\<lambda>(t, p, a). sol_task_row t @
                     [(''project_name'', SText (sp_name p)),
                      (''assignee_name'', sql_opt SText (map_option a_name a)),
                      (''assignee_email'', sql_opt SText (map_option a_email a))]) js))) \<and>
            (\<forall>(t, p, a)\<in>set js.
               p \<in> set (sol_projects db) \<and> st_project_id t = Some (sp_id p) \<and>
               a = find (\<lambda>a. st_assignee_id t = Some (a_id a)) (sol_assignees db)) \<and>
            mset (map fst js) =
              mset (filter (\<lambda>t. \<exists>p\<in>set (sol_projects db). st_project_id t = Some (sp_id p))
                      (sol_tasks db)) \<and>
            sorted_wrt (\<lambda>x y. st_created_at (fst y) \<le> st_created_at (fst x)) js
     else tasks_get db = fail_json 500 ''Error fetching tasks'')"
    (is "?A \<and> ?B \<and> ?C \<and> ?D \<and> ?E")
proof (intro conjI)
  show ?A
    by (simp add: tl_get_tasks_def tl_select_tasks_def)
  show ?B
    using order_desc_sorted [of a_created_at "pm_assignees pm"]
    by (auto simp: getAllAssignees_def pm_select_assignees_def order_desc_mset
        intro!: exI [of _ "order_desc a_created_at (pm_assignees pm)"])
  show ?C
    using order_desc_sorted [of a_created_at "sol_assignees db"]
    by (auto simp: assignees_get_def sol_select_assignees_def order_desc_mset
        intro!: exI [of _ "order_desc a_created_at (sol_assignees db)"])
  show ?D
    using order_desc_sorted [of sp_created_at "sol_projects db"]
    by (auto simp: projects_get_def sol_select_projects_def order_desc_mset sql_eq_Some'
        intro!: exI [of _ "order_desc sp_created_at (sol_projects db)"])
  show ?E
  proof (cases "sol_connected db")
    case False
    then show ?thesis
      by (simp add: tasks_get_def sol_select_tasks_def)
  next
    case True
    define P where "P t = the (find (\<lambda>p. st_project_id t = Some (sp_id p)) (sol_projects db))" for t :: sol_task
    define A where "A t = find (\<lambda>a. st_assignee_id t = Some (a_id a)) (sol_assignees db)" for t :: sol_task
    define H where "H t \<longleftrightarrow> (\<exists>p\<in>set (sol_projects db). st_project_id t = Some (sp_id p))" for t :: sol_task
    define ts where "ts = order_desc st_created_at (filter H (sol_tasks db))"
    define js where "js = map (\<lambda>t. (t, P t, A t)) ts"
    have joined: "sol_tasks_joined db = map (\<lambda>t. ((t, P t), A t)) (filter H (sol_tasks db))"
      unfolding P_def A_def H_def by (rule sol_tasks_joined_find [OF assms])
    have rows: "tasks_get db =
              ok_json 200 None (Some (Many (map
                (\<lambda>(t, p, a). sol_task_row t @
                     [(''project_name'', SText (sp_name p)),
                      (''assignee_name'', sql_opt SText (map_option a_name a)),
                      (''assignee_email'', sql_opt SText (map_option a_email a))]) js)))"
      using True
      by (simp add: tasks_get_def sol_select_tasks_def joined order_desc_map js_def ts_def
          sol_task_joined_row_def comp_def)
    have pin: "\<forall>(t, p, a)\<in>set js.
               p \<in> set (sol_projects db) \<and> st_project_id t = Some (sp_id p) \<and>
               a = find (\<lambda>a. st_assignee_id t = Some (a_id a)) (sol_assignees db)"
    proof -
      have "P t \<in> set (sol_projects db) \<and> st_project_id t = Some (sp_id (P t))" if "H t" for t
      proof -
        from that have "find (\<lambda>p. st_project_id t = Some (sp_id p)) (sol_projects db) \<noteq> None"
          by (auto simp: H_def find_key_None)
        then obtain p where "find (\<lambda>p. st_project_id t = Some (sp_id p)) (sol_projects db) = Some p"
          by auto
        then show ?thesis
          using find_key_Some [of "st_project_id t" sp_id "sol_projects db" p]
          by (simp add: P_def)
      qed
      then show ?thesis
        by (auto simp: js_def ts_def set_order_desc A_def)
    qed
    have count: "mset (map fst js) = mset (filter H (sol_tasks db))"
      by (simp add: js_def ts_def comp_def order_desc_mset)
    have sorted: "sorted_wrt (\<lambda>x y. st_created_at (fst y) \<le> st_created_at (fst x)) js"
      using order_desc_sorted [of st_created_at "filter H (sol_tasks db)"]
      by (simp add: js_def ts_def sorted_wrt_map)
    from True rows pin count sorted show ?thesis
      unfolding H_def by (intro if_P [THEN iffD2] exI [of _ js]) auto
  qed
qed

theorem lists_newest_first_witness:
  "distinct (map sp_id (sol_projects sol_sample)) \<and>
   distinct (map a_id (sol_assignees sol_sample)) \<and>
   tl_get_tasks tl_sample =
       ok_json 200 None (Some (Many (map tl_row (tl_tasks tl_sample)))) \<and>
   (\<exists>as. getAllAssignees pm_sample = ok_json 200 None (Some (Many (map assignee_row as))) \<and>
            mset as = mset (pm_assignees pm_sample) \<and>
            sorted_wrt (\<lambda>x y. a_created_at y \<le> a_created_at x) as) \<and>
   (\<exists>as. assignees_get sol_sample = ok_json 200 None (Some (Many (map assignee_row as))) \<and>
            mset as = mset (sol_assignees sol_sample) \<and>
            sorted_wrt (\<lambda>x y. a_created_at y \<le> a_created_at x) as) \<and>
   (\<exists>ps. projects_get sol_sample =
              ok_json 200 None (Some (Many (map
                (\<lambda>p. sol_project_row p @
                     [(''task_count'',
                       SText (show_nat (length (filter (\<lambda>t. st_project_id t = Some (sp_id p))
                                                  (sol_tasks sol_sample)))))]) ps))) \<and>
            mset ps = mset (sol_projects sol_sample) \<and>
            sorted_wrt (\<lambda>x y. sp_created_at y \<le> sp_created_at x) ps) \<and>
   (\<exists>js. tasks_get sol_sample =
              ok_json 200 None (Some (Many (map
                (\<lambda>(t, p, a). sol_task_row t @
                     [(''project_name'', SText (sp_name p)),
                      (''assignee_name'', sql_opt SText (map_option a_name a)),
                      (''assignee_email'', sql_opt SText (map_option a_email a))]) js))) \<and>
            (\<forall>(t, p, a)\<in>set js.
               p \<in> set (sol_projects sol_sample) \<and> st_project_id t = Some (sp_id p) \<and>
               a = find (\<lambda>a. st_assignee_id t = Some (a_id a)) (sol_assignees sol_sample)) \<and>
            mset (map fst js) =
              mset (filter (\<lambda>t. \<exists>p\<in>set (sol_projects sol_sample). st_project_id t = Some (sp_id p))
                      (sol_tasks sol_sample)) \<and>
            sorted_wrt (\<lambda>x y. st_created_at (fst y) \<le> st_created_at (fst x)) js)"
proof -
  have d: "distinct (map sp_id (sol_projects sol_sample))"
    "distinct (map a_id (sol_assignees sol_sample))"
    by (simp_all add: sol_sample_def)
  have c: "tl_connected tl_sample" "pm_connected pm_sample" "sol_connected sol_sample"
    by (simp_all add: tl_sample_def pm_sample_def sol_sample_def)
  from lists_newest_first [OF d, of tl_sample pm_sample] c d show ?thesis
    by simp
qed

text \<open>
  The task list after one create at tick 9 on rows of tick 0: \<^verbatim>\<open>GET /api/tasks\<close> of
  \<^verbatim>\<open>index.js\<close> answers the new row last.
\<close>

theorem task_list_counterexample:
  "tl_get_tasks tl_after_post = ok_json 200 None (Some (Many (map tl_row (tl_tasks tl_after_post)))) \<and>
   map tl_created_at (tl_tasks tl_after_post) = [0, 0, 0, 9] \<and>
   \<not> sorted_wrt (\<lambda>x y. tl_created_at y \<le> tl_created_at x) (tl_tasks tl_after_post)"
proof -
  have eq: "tl_after_post = tl_sample\<lparr>tl_tasks_id_seq := 5,
      tl_tasks := tl_tasks tl_sample @
        [\<lparr>tl_id = 4, tl_title = ''Learn MongoDB'', tl_description = None,
          tl_completed = Some False, tl_created_at = 9, tl_updated_at = 9\<rparr>]\<rparr>"
    by (simp add: tl_after_post_def tl_post_task_def tl_insert_task_def tl_sample_def no_body_def
        bind_param_def textin_def varchar_def and_then_def is_continuation_def Let_def)
  have "tl_get_tasks tl_after_post =
      ok_json 200 None (Some (Many (map tl_row (tl_tasks tl_after_post))))"
    and "map tl_created_at (tl_tasks tl_after_post) = [0, 0, 0, 9]"
    by (simp_all add: eq tl_get_tasks_def tl_select_tasks_def tl_sample_def)
  moreover from this(2) have
    "\<not> sorted_wrt (\<lambda>x y. tl_created_at y \<le> tl_created_at x) (tl_tasks tl_after_post)"
    using sorted_wrt_map [of "\<lambda>x y. y \<le> x" tl_created_at "tl_tasks tl_after_post"] by simp
  ultimately show ?thesis
    by blast
qed

section \<open>Relationship queries\<close>

lemma filter_key_parent:
  "filter (\<lambda>p. sql_eq (Some (k p)) (Some i)) ps \<noteq> [] \<longleftrightarrow> (\<exists>y\<in>set ps. k y = i)"
  by (auto simp: filter_empty_conv sql_eq_def)

lemma hd_filter_key_parent:
  assumes "\<exists>y\<in>set ps. k y = i"
  shows "hd (filter (\<lambda>p. sql_eq (Some (k p)) (Some i)) ps) \<in> set ps \<and>
         k (hd (filter (\<lambda>p. sql_eq (Some (k p)) (Some i)) ps)) = i"
proof -
  from assms have ne: "filter (\<lambda>p. sql_eq (Some (k p)) (Some i)) ps \<noteq> []"
    by (simp add: filter_key_parent)
  then have "hd (filter (\<lambda>p. sql_eq (Some (k p)) (Some i)) ps) \<in>
             set (filter (\<lambda>p. sql_eq (Some (k p)) (Some i)) ps)"
    by (rule hd_in_set)
  then show ?thesis
    by (auto simp: sql_eq_def)
qed

lemma projects_get_tasks_rows:
  assumes "sol_connected db" and "bind_param int4in (JStr ident) = Inr (Some i)"
    and "distinct (map a_id (sol_assignees db))"
  shows
   "if \<exists>y\<in>set (sol_projects db). sp_id y = i
    then \<exists>y js. y \<in> set (sol_projects db) \<and> sp_id y = i \<and>
           projects_get_tasks db ident =
             (ok_json 200 None (Some (Many (map
                (\<lambda>(t, a). sol_task_row t @
                     [(''assignee_name'', sql_opt SText (map_option a_name a)),
                      (''assignee_email'', sql_opt SText (map_option a_email a))]) js))))
             \<lparr>extra := [(''project'', SText (sp_name y))]\<rparr> \<and>
           (\<forall>(t, a)\<in>set js. a = find (\<lambda>a. st_assignee_id t = Some (a_id a)) (sol_assignees db)) \<and>
           mset (map fst js) = mset (filter (\<lambda>t. st_project_id t = Some i) (sol_tasks db)) \<and>
           sorted_wrt (\<lambda>x y. st_created_at (fst y) \<le> st_created_at (fst x)) js
    else projects_get_tasks db ident = fail_json 404 ''Project not found''"
proof (cases "\<exists>y\<in>set (sol_projects db). sp_id y = i")
  case False
  then have "filter (\<lambda>p. sql_eq (Some (sp_id p)) (Some i)) (sol_projects db) = []"
    using filter_key_parent [of sp_id i "sol_projects db"] by blast
  with False assms(1,2) show ?thesis
    by (simp add: projects_get_tasks_def sol_find_project_def)
next
  case True
  define y where "y = hd (filter (\<lambda>p. sql_eq (Some (sp_id p)) (Some i)) (sol_projects db))"
  define js where "js = order_desc (\<lambda>e. st_created_at (fst e))
      (filter (\<lambda>e. sql_eq (st_project_id (fst e)) (Some i))
        (left_join (\<lambda>t a. sql_eq (st_assignee_id t) (Some (a_id a))) (sol_tasks db) (sol_assignees db)))"
  from True have ne: "filter (\<lambda>p. sql_eq (Some (sp_id p)) (Some i)) (sol_projects db) \<noteq> []"
    by (simp add: filter_key_parent)
  from hd_filter_key_parent [OF True] have y: "y \<in> set (sol_projects db)" "sp_id y = i"
    by (simp_all add: y_def)
  have res: "projects_get_tasks db ident =
             (ok_json 200 None (Some (Many (map
                (\<lambda>(t, a). sol_task_row t @
                     [(''assignee_name'', sql_opt SText (map_option a_name a)),
                      (''assignee_email'', sql_opt SText (map_option a_email a))]) js))))
             \<lparr>extra := [(''project'', SText (sp_name y))]\<rparr>"
    using assms(1,2) ne
    by (simp add: projects_get_tasks_def sol_find_project_def sol_select_project_tasks_def
        js_def y_def split_def)
  from left_join_listing [OF assms(3), where c = st_created_at and w = st_project_id and i = i and f = st_assignee_id and xs = "sol_tasks db", folded js_def]
    y res True
  show ?thesis
    by (intro if_P [THEN iffD2] exI [of _ y] exI [of _ js]) auto
qed

lemma projects_get_assignees_rows:
  assumes "sol_connected db" and "bind_param int4in (JStr ident) = Inr (Some i)"
    and "distinct (map a_id (sol_assignees db))"
  shows
   "if \<exists>y\<in>set (sol_projects db). sp_id y = i
    then \<exists>y js. y \<in> set (sol_projects db) \<and> sp_id y = i \<and>
           projects_get_assignees db ident =
             (ok_json 200 None (Some (Many (map
                (\<lambda>(a, m). assignee_row a @
                     [(''role_in_project'', sql_opt SText (m_role_in_project m)),
                      (''assigned_at'', STime (m_assigned_at m))]) js))))
             \<lparr>extra := [(''project'', SText (sp_name y))]\<rparr> \<and>
           (\<forall>(a, m)\<in>set js. a \<in> set (sol_assignees db) \<and> m_assignee_id m = Some (a_id a)) \<and>
           mset (map snd js) =
             mset (filter (\<lambda>m. m_project_id m = Some i \<and>
                               (\<exists>a\<in>set (sol_assignees db). m_assignee_id m = Some (a_id a)))
                     (sol_project_assignees db)) \<and>
           sorted_wrt (\<lambda>x y. m_assigned_at (snd y) \<le> m_assigned_at (snd x)) js
    else projects_get_assignees db ident = fail_json 404 ''Project not found''"
proof (cases "\<exists>y\<in>set (sol_projects db). sp_id y = i")
  case False
  then have "filter (\<lambda>p. sql_eq (Some (sp_id p)) (Some i)) (sol_projects db) = []"
    using filter_key_parent [of sp_id i "sol_projects db"] by blast
  with False assms(1,2) show ?thesis
    by (simp add: projects_get_assignees_def sol_find_project_def)
next
  case True
  define y where "y = hd (filter (\<lambda>p. sql_eq (Some (sp_id p)) (Some i)) (sol_projects db))"
  define js where "js = order_desc (\<lambda>e. m_assigned_at (snd e))
      (filter (\<lambda>e. sql_eq (m_project_id (snd e)) (Some i))
        (inner_join (\<lambda>a m. sql_eq (Some (a_id a)) (m_assignee_id m))
           (sol_assignees db) (sol_project_assignees db)))"
  from True have ne: "filter (\<lambda>p. sql_eq (Some (sp_id p)) (Some i)) (sol_projects db) \<noteq> []"
    by (simp add: filter_key_parent)
  from hd_filter_key_parent [OF True] have y: "y \<in> set (sol_projects db)" "sp_id y = i"
    by (simp_all add: y_def)
  have res: "projects_get_assignees db ident =
             (ok_json 200 None (Some (Many (map
                (\<lambda>(a, m). assignee_row a @
                     [(''role_in_project'', sql_opt SText (m_role_in_project m)),
                      (''assigned_at'', STime (m_assigned_at m))]) js))))
             \<lparr>extra := [(''project'', SText (sp_name y))]\<rparr>"
    using assms(1,2) ne
    by (simp add: projects_get_assignees_def sol_find_project_def sol_select_project_assignees_def
        js_def y_def split_def)
  from junction_listing [OF assms(3), where c = m_assigned_at and w = m_project_id and i = i and g = m_assignee_id and ys = "sol_project_assignees db", folded js_def]
    y res True
  show ?thesis
    by (intro if_P [THEN iffD2] exI [of _ y] exI [of _ js]) auto
qed

lemma assignees_get_tasks_rows:
  assumes "sol_connected db" and "bind_param int4in (JStr ident) = Inr (Some i)"
    and "distinct (map sp_id (sol_projects db))"
  shows
   "if \<exists>y\<in>set (sol_assignees db). a_id y = i
    then \<exists>y js. y \<in> set (sol_assignees db) \<and> a_id y = i \<and>
           assignees_get_tasks db ident =
             (ok_json 200 None (Some (Many (map
                (\<lambda>(t, p). sol_task_row t @ [(''project_name'', SText (sp_name p))]) js))))
             \<lparr>extra := [(''assignee'', SText (a_name y))]\<rparr> \<and>
           (\<forall>(t, p)\<in>set js. p \<in> set (sol_projects db) \<and> st_project_id t = Some (sp_id p)) \<and>
           mset (map fst js) =
             mset (filter (\<lambda>t. st_assignee_id t = Some i \<and>
                               (\<exists>p\<in>set (sol_projects db). st_project_id t = Some (sp_id p)))
                     (sol_tasks db)) \<and>
           sorted_wrt (\<lambda>x y. st_created_at (fst y) \<le> st_created_at (fst x)) js
    else assignees_get_tasks db ident = fail_json 404 ''Assignee not found''"
proof (cases "\<exists>y\<in>set (sol_assignees db). a_id y = i")
  case False
  then have "filter (\<lambda>p. sql_eq (Some (a_id p)) (Some i)) (sol_assignees db) = []"
    using filter_key_parent [of a_id i "sol_assignees db"] by blast
  with False assms(1,2) show ?thesis
    by (simp add: assignees_get_tasks_def sol_find_assignee_def)
next
  case True
  define y where "y = hd (filter (\<lambda>p. sql_eq (Some (a_id p)) (Some i)) (sol_assignees db))"
  define js where "js = order_desc (\<lambda>e. st_created_at (fst e))
      (filter (\<lambda>e. sql_eq (st_assignee_id (fst e)) (Some i))
        (inner_join (\<lambda>t p. sql_eq (st_project_id t) (Some (sp_id p))) (sol_tasks db) (sol_projects db)))"
  from True have ne: "filter (\<lambda>p. sql_eq (Some (a_id p)) (Some i)) (sol_assignees db) \<noteq> []"
    by (simp add: filter_key_parent)
  from hd_filter_key_parent [OF True] have y: "y \<in> set (sol_assignees db)" "a_id y = i"
    by (simp_all add: y_def)
  have res: "assignees_get_tasks db ident =
             (ok_json 200 None (Some (Many (map
                (\<lambda>(t, p). sol_task_row t @ [(''project_name'', SText (sp_name p))]) js))))
             \<lparr>extra := [(''assignee'', SText (a_name y))]\<rparr>"
    using assms(1,2) ne
    by (simp add: assignees_get_tasks_def sol_find_assignee_def sol_select_assignee_tasks_def
        js_def y_def split_def)
  from inner_join_listing [OF assms(3), where c = st_created_at and w = st_assignee_id and i = i and f = st_project_id and xs = "sol_tasks db", folded js_def]
    y res True
  show ?thesis
    by (intro if_P [THEN iffD2] exI [of _ y] exI [of _ js]) auto
qed

lemma assignees_get_projects_rows:
  assumes "sol_connected db" and "bind_param int4in (JStr ident) = Inr (Some i)"
    and "distinct (map sp_id (sol_projects db))"
  shows
   "if \<exists>y\<in>set (sol_assignees db). a_id y = i
    then \<exists>y js. y \<in> set (sol_assignees db) \<and> a_id y = i \<and>
           assignees_get_projects db ident =
             (ok_json 200 None (Some (Many (map
                (\<lambda>(p, m). sol_project_row p @
                     [(''role_in_project'', sql_opt SText (m_role_in_project m)),
                      (''assigned_at'', STime (m_assigned_at m))]) js))))
             \<lparr>extra := [(''assignee'', SText (a_name y))]\<rparr> \<and>
           (\<forall>(p, m)\<in>set js. p \<in> set (sol_projects db) \<and> m_project_id m = Some (sp_id p)) \<and>
           mset (map snd js) =
             mset (filter (\<lambda>m. m_assignee_id m = Some i \<and>
                               (\<exists>p\<in>set (sol_projects db). m_project_id m = Some (sp_id p)))
                     (sol_project_assignees db)) \<and>
           sorted_wrt (\<lambda>x y. m_assigned_at (snd y) \<le> m_assigned_at (snd x)) js
    else assignees_get_projects db ident = fail_json 404 ''Assignee not found''"
proof (cases "\<exists>y\<in>set (sol_assignees db). a_id y = i")
  case False
  then have "filter (\<lambda>p. sql_eq (Some (a_id p)) (Some i)) (sol_assignees db) = []"
    using filter_key_parent [of a_id i "sol_assignees db"] by blast
  with False assms(1,2) show ?thesis
    by (simp add: assignees_get_projects_def sol_find_assignee_def)
next
  case True
  define y where "y = hd (filter (\<lambda>p. sql_eq (Some (a_id p)) (Some i)) (sol_assignees db))"
  define js where "js = order_desc (\<lambda>e. m_assigned_at (snd e))
      (filter (\<lambda>e. sql_eq (m_assignee_id (snd e)) (Some i))
        (inner_join (\<lambda>p m. sql_eq (Some (sp_id p)) (m_project_id m))
           (sol_projects db) (sol_project_assignees db)))"
  from True have ne: "filter (\<lambda>p. sql_eq (Some (a_id p)) (Some i)) (sol_assignees db) \<noteq> []"
    by (simp add: filter_key_parent)
  from hd_filter_key_parent [OF True] have y: "y \<in> set (sol_assignees db)" "a_id y = i"
    by (simp_all add: y_def)
  have res: "assignees_get_projects db ident =
             (ok_json 200 None (Some (Many (map
                (\<lambda>(p, m). sol_project_row p @
                     [(''role_in_project'', sql_opt SText (m_role_in_project m)),
                      (''assigned_at'', STime (m_assigned_at m))]) js))))
             \<lparr>extra := [(''assignee'', SText (a_name y))]\<rparr>"
    using assms(1,2) ne
    by (simp add: assignees_get_projects_def sol_find_assignee_def sol_select_assignee_projects_def
        js_def y_def split_def)
  from junction_listing [OF assms(3), where c = m_assigned_at and w = m_assignee_id and i = i and g = m_project_id and ys = "sol_project_assignees db", folded js_def]
    y res True
  show ?thesis
    by (intro if_P [THEN iffD2] exI [of _ y] exI [of _ js]) auto
qed

lemma app_get_project_tasks_rows:
  assumes "pm_connected pm" and "bind_param int4in (JStr ident) = Inr (Some i)"
    and "distinct (map a_id (pm_assignees pm))"
  shows
   "\<exists>js. app_get_project_tasks pm ident =
             ok_json 200 None (Some (Many (map
                (\<lambda>(t, a). pm_task_row t @ [(''assigned_to_name'', sql_opt SText (map_option a_name a))]) js))) \<and>
           (\<forall>(t, a)\<in>set js. a = find (\<lambda>a. t_assigned_to t = Some (a_id a)) (pm_assignees pm)) \<and>
           mset (map fst js) = mset (filter (\<lambda>t. t_project_id t = Some i) (pm_tasks pm)) \<and>
           sorted_wrt (\<lambda>x y. t_created_at (fst y) \<le> t_created_at (fst x)) js"
proof -
  define js where "js = order_desc (\<lambda>e. t_created_at (fst e))
      (filter (\<lambda>e. sql_eq (t_project_id (fst e)) (Some i))
        (left_join (\<lambda>t a. sql_eq (t_assigned_to t) (Some (a_id a))) (pm_tasks pm) (pm_assignees pm)))"
  have res: "app_get_project_tasks pm ident =
             ok_json 200 None (Some (Many (map
                (\<lambda>(t, a). pm_task_row t @ [(''assigned_to_name'', sql_opt SText (map_option a_name a))]) js)))"
    using assms(1,2)
    by (simp add: app_get_project_tasks_def pm_select_project_tasks_def js_def split_def)
  from left_join_listing [OF assms(3), where c = t_created_at and w = t_project_id and i = i and f = t_assigned_to and xs = "pm_tasks pm", folded js_def]
    res
  show ?thesis
    by (intro exI [of _ js]) auto
qed

lemma app_get_assignee_tasks_rows:
  assumes "pm_connected pm" and "bind_param int4in (JStr ident) = Inr (Some i)"
    and "distinct (map p_id (pm_projects pm))"
  shows
   "\<exists>js. app_get_assignee_tasks pm ident =
             ok_json 200 None (Some (Many (map
                (\<lambda>(t, p). pm_task_row t @ [(''project_title'', sql_opt SText (map_option p_title p))]) js))) \<and>
           (\<forall>(t, p)\<in>set js. p = find (\<lambda>p. t_project_id t = Some (p_id p)) (pm_projects pm)) \<and>
           mset (map fst js) = mset (filter (\<lambda>t. t_assigned_to t = Some i) (pm_tasks pm)) \<and>
           sorted_wrt (\<lambda>x y. t_created_at (fst y) \<le> t_created_at (fst x)) js"
proof -
  define js where "js = order_desc (\<lambda>e. t_created_at (fst e))
      (filter (\<lambda>e. sql_eq (t_assigned_to (fst e)) (Some i))
        (left_join (\<lambda>t p. sql_eq (t_project_id t) (Some (p_id p))) (pm_tasks pm) (pm_projects pm)))"
  have res: "app_get_assignee_tasks pm ident =
             ok_json 200 None (Some (Many (map
                (\<lambda>(t, p). pm_task_row t @ [(''project_title'', sql_opt SText (map_option p_title p))]) js)))"
    using assms(1,2)
    by (simp add: app_get_assignee_tasks_def pm_select_assignee_tasks_def js_def split_def)
  from left_join_listing [OF assms(3), where c = t_created_at and w = t_assigned_to and i = i and f = t_project_id and xs = "pm_tasks pm", folded js_def]
    res
  show ?thesis
    by (intro exI [of _ js]) auto
qed

text \<open>
  C3, as amended. On a connected store and for an id that the store reads as an integer,
  each of the four relationship queries of the solution document,
  \<^verbatim>\<open>GET /api/projects/:id/tasks\<close>, \<^verbatim>\<open>GET /api/projects/:id/assignees\<close>,
  \<^verbatim>\<open>GET /api/assignees/:id/tasks\<close> and \<^verbatim>\<open>GET /api/assignees/:id/projects\<close>, answers 404
  when no row of the parent table has that id, and else 200 with the parent's name and
  the joined rows: the tasks of the project, each once and with the name and email of
  its assignee; the junction rows of the project, each once and with its assignee; the
  tasks of the assignee that have a project, each once and with the name of that project;
  the junction rows of the assignee, each once and with its project; newest first.
  \<^verbatim>\<open>GET /api/projects/:id/tasks\<close> and \<^verbatim>\<open>GET /api/assignees/:id/tasks\<close> of \<^verbatim>\<open>index.js\<close>
  do not look the parent up: they answer 200 with the tasks that carry the id, joined
  and newest first, whether or not a row of the parent table has it.
\<close>

theorem relationship_queries_parent_check:
  fixes db :: sol_store and pm :: pm_store
  assumes "sol_connected db" and "pm_connected pm"
    and "bind_param int4in (JStr ident) = Inr (Some i)"
    and "distinct (map sp_id (sol_projects db))" and "distinct (map a_id (sol_assignees db))"
    and "distinct (map p_id (pm_projects pm))" and "distinct (map a_id (pm_assignees pm))"
  shows
   "(if \<exists>y\<in>set (sol_projects db). sp_id y = i
    then \<exists>y js. y \<in> set (sol_projects db) \<and> sp_id y = i \<and>
           projects_get_tasks db ident =
             (ok_json 200 None (Some (Many (map
                (\<lambda>(t, a). sol_task_row t @
                     [(''assignee_name'', sql_opt SText (map_option a_name a)),
                      (''assignee_email'', sql_opt SText (map_option a_email a))]) js))))
             \<lparr>extra := [(''project'', SText (sp_name y))]\<rparr> \<and>
           (\<forall>(t, a)\<in>set js. a = find (\<lambda>a. st_assignee_id t = Some (a_id a)) (sol_assignees db)) \<and>
           mset (map fst js) = mset (filter (\<lambda>t. st_project_id t = Some i) (sol_tasks db)) \<and>
           sorted_wrt (\<lambda>x y. st_created_at (fst y) \<le> st_created_at (fst x)) js
    else projects_get_tasks db ident = fail_json 404 ''Project not found'') \<and>
    (if \<exists>y\<in>set (sol_projects db). sp_id y = i
    then \<exists>y js. y \<in> set (sol_projects db) \<and> sp_id y = i \<and>
           projects_get_assignees db ident =
             (ok_json 200 None (Some (Many (map
                (\<lambda>(a, m). assignee_row a @
                     [(''role_in_project'', sql_opt SText (m_role_in_project m)),
                      (''assigned_at'', STime (m_assigned_at m))]) js))))
             \<lparr>extra := [(''project'', SText (sp_name y))]\<rparr> \<and>
           (\<forall>(a, m)\<in>set js. a \<in> set (sol_assignees db) \<and> m_assignee_id m = Some (a_id a)) \<and>
           mset (map snd js) =
             mset (filter (\<lambda>m. m_project_id m = Some i \<and>
                               (\<exists>a\<in>set (sol_assignees db). m_assignee_id m = Some (a_id a)))
                     (sol_project_assignees db)) \<and>
           sorted_wrt (\<lambda>x y. m_assigned_at (snd y) \<le> m_assigned_at (snd x)) js
    else projects_get_assignees db ident = fail_json 404 ''Project not found'') \<and>
    (if \<exists>y\<in>set (sol_assignees db). a_id y = i
    then \<exists>y js. y \<in> set (sol_assignees db) \<and> a_id y = i \<and>
           assignees_get_tasks db ident =
             (ok_json 200 None (Some (Many (map
                (\<lambda>(t, p). sol_task_row t @ [(''project_name'', SText (sp_name p))]) js))))
             \<lparr>extra := [(''assignee'', SText (a_name y))]\<rparr> \<and>
           (\<forall>(t, p)\<in>set js. p \<in> set (sol_projects db) \<and> st_project_id t = Some (sp_id p)) \<and>
           mset (map fst js) =
             mset (filter (\<lambda>t. st_assignee_id t = Some i \<and>
                               (\<exists>p\<in>set (sol_projects db). st_project_id t = Some (sp_id p)))
                     (sol_tasks db)) \<and>
           sorted_wrt (\<lambda>x y. st_created_at (fst y) \<le> st_created_at (fst x)) js
    else assignees_get_tasks db ident = fail_json 404 ''Assignee not found'') \<and>
    (if \<exists>y\<in>set (sol_assignees db). a_id y = i
    then \<exists>y js. y \<in> set (sol_assignees db) \<and> a_id y = i \<and>
           assignees_get_projects db ident =
             (ok_json 200 None (Some (Many (map
                (\<lambda>(p, m). sol_project_row p @
                     [(''role_in_project'', sql_opt SText (m_role_in_project m)),
                      (''assigned_at'', STime (m_assigned_at m))]) js))))
             \<lparr>extra := [(''assignee'', SText (a_name y))]\<rparr> \<and>
           (\<forall>(p, m)\<in>set js. p \<in> set (sol_projects db) \<and> m_project_id m = Some (sp_id p)) \<and>
           mset (map snd js) =
             mset (filter (\<lambda>m. m_assignee_id m = Some i \<and>
                               (\<exists>p\<in>set (sol_projects db). m_project_id m = Some (sp_id p)))
                     (sol_project_assignees db)) \<and>
           sorted_wrt (\<lambda>x y. m_assigned_at (snd y) \<le> m_assigned_at (snd x)) js
    else assignees_get_projects db ident = fail_json 404 ''Assignee not found'') \<and>
    (\<exists>js. app_get_project_tasks pm ident =
             ok_json 200 None (Some (Many (map
                (\<lambda>(t, a). pm_task_row t @ [(''assigned_to_name'', sql_opt SText (map_option a_name a))]) js))) \<and>
           (\<forall>(t, a)\<in>set js. a = find (\<lambda>a. t_assigned_to t = Some (a_id a)) (pm_assignees pm)) \<and>
           mset (map fst js) = mset (filter (\<lambda>t. t_project_id t = Some i) (pm_tasks pm)) \<and>
           sorted_wrt (\<lambda>x y. t_created_at (fst y) \<le> t_created_at (fst x)) js) \<and>
    (\<exists>js. app_get_assignee_tasks pm ident =
             ok_json 200 None (Some (Many (map
                (\<lambda>(t, p). pm_task_row t @ [(''project_title'', sql_opt SText (map_option p_title p))]) js))) \<and>
           (\<forall>(t, p)\<in>set js. p = find (\<lambda>p. t_project_id t = Some (p_id p)) (pm_projects pm)) \<and>
           mset (map fst js) = mset (filter (\<lambda>t. t_assigned_to t = Some i) (pm_tasks pm)) \<and>
           sorted_wrt (\<lambda>x y. t_created_at (fst y) \<le> t_created_at (fst x)) js)"
  using projects_get_tasks_rows [OF assms(1,3,5)] projects_get_assignees_rows [OF assms(1,3,5)]
    assignees_get_tasks_rows [OF assms(1,3,4)] assignees_get_projects_rows [OF assms(1,3,4)]
    app_get_project_tasks_rows [OF assms(2,3,7)] app_get_assignee_tasks_rows [OF assms(2,3,6)]
  by (intro conjI)

theorem relationship_queries_parent_check_witness:
  "sol_connected sol_sample \<and> pm_connected pm_sample \<and>
   bind_param int4in (JStr ''1'') = Inr (Some 1) \<and>
   distinct (map sp_id (sol_projects sol_sample)) \<and>
   distinct (map a_id (sol_assignees sol_sample)) \<and>
   distinct (map p_id (pm_projects pm_sample)) \<and>
   distinct (map a_id (pm_assignees pm_sample)) \<and>
   (\<exists>y\<in>set (sol_projects sol_sample). sp_id y = 1) \<and>
   (\<exists>y\<in>set (sol_assignees sol_sample). a_id y = 1) \<and>
   http_status (projects_get_tasks sol_sample ''1'') = 200 \<and>
   http_status (projects_get_assignees sol_sample ''1'') = 200 \<and>
   http_status (assignees_get_tasks sol_sample ''1'') = 200 \<and>
   http_status (assignees_get_projects sol_sample ''1'') = 200 \<and>
   http_status (app_get_project_tasks pm_sample ''1'') = 200 \<and>
   http_status (app_get_assignee_tasks pm_sample ''1'') = 200"
proof -
  have c: "sol_connected sol_sample" "pm_connected pm_sample"
    by (simp_all add: sol_sample_def pm_sample_def)
  have d: "distinct (map sp_id (sol_projects sol_sample))"
    "distinct (map a_id (sol_assignees sol_sample))"
    "distinct (map p_id (pm_projects pm_sample))"
    "distinct (map a_id (pm_assignees pm_sample))"
    by (simp_all add: sol_sample_def pm_sample_def)
  have p: "\<exists>y\<in>set (sol_projects sol_sample). sp_id y = 1"
    "\<exists>y\<in>set (sol_assignees sol_sample). a_id y = 1"
    by (simp_all add: sol_sample_def)
  from relationship_queries_parent_check [OF c bind_int4in_1 d] p
  have "http_status (projects_get_tasks sol_sample ''1'') = 200"
    "http_status (projects_get_assignees sol_sample ''1'') = 200"
    "http_status (assignees_get_tasks sol_sample ''1'') = 200"
    "http_status (assignees_get_projects sol_sample ''1'') = 200"
    "http_status (app_get_project_tasks pm_sample ''1'') = 200"
    "http_status (app_get_assignee_tasks pm_sample ''1'') = 200"
    by (auto simp: ok_json_def)
  with c d p bind_int4in_1 show ?thesis
    by simp
qed

text \<open>
  The sample data of \<^verbatim>\<open>src/db/index.js\<close> has no project 99 and no assignee 99:
  \<^verbatim>\<open>GET /api/projects/99/tasks\<close> and \<^verbatim>\<open>GET /api/assignees/99/tasks\<close> of \<^verbatim>\<open>index.js\<close>
  answer 200 with an empty array.
\<close>

theorem project_tasks_no_parent_check:
  "pm_connected pm_sample \<and>
   list_all (\<lambda>p. p_id p \<noteq> 99) (pm_projects pm_sample) \<and>
   list_all (\<lambda>a. a_id a \<noteq> 99) (pm_assignees pm_sample) \<and>
   app_get_project_tasks pm_sample ''99'' = ok_json 200 None (Some (Many [])) \<and>
   app_get_assignee_tasks pm_sample ''99'' = ok_json 200 None (Some (Many []))"
proof -
  have c: "pm_connected pm_sample"
    by (simp add: pm_sample_def)
  have d: "distinct (map p_id (pm_projects pm_sample))" "distinct (map a_id (pm_assignees pm_sample))"
    by (simp_all add: pm_sample_def)
  have none: "filter (\<lambda>t. t_project_id t = Some 99) (pm_tasks pm_sample) = []"
    "filter (\<lambda>t. t_assigned_to t = Some 99) (pm_tasks pm_sample) = []"
    by (simp_all add: pm_sample_def)
  from app_get_project_tasks_rows [OF c bind_int4in_99 d(2)]
  have "app_get_project_tasks pm_sample ''99'' = ok_json 200 None (Some (Many []))"
    unfolding none by auto
  moreover from app_get_assignee_tasks_rows [OF c bind_int4in_99 d(1)]
  have "app_get_assignee_tasks pm_sample ''99'' = ok_json 200 None (Some (Many []))"
    unfolding none by auto
  moreover have "list_all (\<lambda>p. p_id p \<noteq> 99) (pm_projects pm_sample)"
    "list_all (\<lambda>a. a_id a \<noteq> 99) (pm_assignees pm_sample)"
    by (simp_all add: pm_sample_def)
  ultimately show ?thesis
    using c by simp
qed

section \<open>Creating an assignee\<close>

lemma string_trim_Nil: "string_trim [] = []"
  by (simp add: string_trim_def)

lemma js_length_Nil: "js_length [] = 0"
  by (simp add: js_length_def)

lemma varchar_Some: "varchar n (Some s) = Inr x \<Longrightarrow> \<exists>s'. x = Some s'"
  by (auto simp: varchar_def Let_def split: if_splits)

lemma bind_textin_JStr: "bind_param textin (JStr s) = Inr x \<Longrightarrow> x = Some s"
  by (auto simp: bind_param_def textin_def split: if_splits)

lemma assignees_post_no_leak: "leak (fst (assignees_post db now b)) = None"
  by (auto simp: assignees_post_def Let_def fail_json_def ok_json_def
      split: sum.splits option.splits prod.splits)

lemma sol_insert_assignee_rows:
  "sol_insert_assignee db now name email role = (Inl e, db') \<Longrightarrow>
     sol_assignees db' = sol_assignees db"
  by (auto simp: sol_insert_assignee_def Let_def split: sum.splits option.splits if_splits prod.splits)

lemma assignees_post_rows:
  "http_status (fst (assignees_post db now b)) \<noteq> 201 \<Longrightarrow>
     sol_assignees (snd (assignees_post db now b)) = sol_assignees db"
  by (auto simp: assignees_post_def Let_def ok_json_def dest: sol_insert_assignee_rows
      split: sum.splits option.splits prod.splits)

lemma assignees_post_duplicate:
  assumes "sol_connected db"
    and "b ''name'' = JStr n" and "2 \<le> js_length (string_trim n)"
    and "bind_param textin (JStr (string_trim n)) = Inr n1" and "varchar 255 n1 = Inr n2"
    and "b ''email'' = JStr e" and "CHR ''@'' \<in> set e"
    and "bind_param textin (JStr (string_trim e)) = Inr e1"
    and "varchar 255 e1 = Inr (Some (a_email a))" and "a \<in> set (sol_assignees db)"
    and "bind_param textin (dflt (JStr ''Developer'') (b ''role'')) = Inr r"
    and "varchar 100 r = Inr r'"
    and "sol_assignees_id_seq db \<le> 2147483647"
  shows "assignees_post db now b =
           (fail_json 409 ''Email already exists'',
            db\<lparr>sol_assignees_id_seq := sol_assignees_id_seq db + 1\<rparr>)"
proof -
  from assms(3) have n: "n \<noteq> []"
    by (auto simp: string_trim_Nil js_length_Nil)
  from assms(7) have e: "e \<noteq> []"
    by auto
  have valid: "validateAssignee (JStr n) (JStr e) = Inr None"
    using n e assms(3,7)
    by (simp add: validateAssignee_def js_trim_def js_includes_def and_then_def)
  from assms(4) have n1: "n1 = Some (string_trim n)"
    by (rule bind_textin_JStr)
  with assms(5) obtain nm where n2: "n2 = Some nm"
    by (auto dest: varchar_Some)
  have dup: "filter (\<lambda>x. a_id x = k \<or> a_email x = a_email a) (sol_assignees db) \<noteq> []" for k
    using assms(10) by (auto simp: filter_empty_conv)
  have ins: "sol_insert_assignee db now (JStr (string_trim n)) (JStr (string_trim e))
               (dflt (JStr ''Developer'') (b ''role'')) =
             (Inl (Pg UniqueViolation), db\<lparr>sol_assignees_id_seq := sol_assignees_id_seq db + 1\<rparr>)"
    using assms(1,4,5,8,9,11,12,13) dup
    by (simp add: sol_insert_assignee_def and_then_def n2 Let_def)
  show ?thesis
    by (simp add: assignees_post_def Let_def assms(2,6) valid js_trim_def and_then_def ins)
qed

lemma createAssignee_duplicate:
  assumes "pm_connected pm"
    and "truthy (b ''name'')" and "truthy (b ''email'')"
    and "bind_param textin (b ''name'') = Inr n1" and "varchar 255 n1 = Inr n2"
    and "bind_param textin (b ''email'') = Inr e1"
    and "varchar 255 e1 = Inr (Some (a_email a))" and "a \<in> set (pm_assignees pm)"
    and "bind_param textin (dflt (JStr ''member'') (b ''role'')) = Inr r"
    and "varchar 50 r = Inr r'"
    and "pm_assignees_id_seq pm \<le> 2147483647"
  shows "createAssignee pm now b =
           (database_error (Pg UniqueViolation),
            pm\<lparr>pm_assignees_id_seq := pm_assignees_id_seq pm + 1\<rparr>)"
proof -
  from assms(2,4) obtain s where "n1 = Some s"
    by (cases "b ''name''") (auto simp: bind_param_def textin_def split: if_splits)
  with assms(5) obtain nm where n2: "n2 = Some nm"
    by (auto dest: varchar_Some)
  have dup: "filter (\<lambda>x. a_id x = k \<or> a_email x = a_email a) (pm_assignees pm) \<noteq> []" for k
    using assms(8) by (auto simp: filter_empty_conv)
  have ins: "pm_insert_assignee pm now (b ''name'') (b ''email'') (dflt (JStr ''member'') (b ''role'')) =
             (Inl (Pg UniqueViolation), pm\<lparr>pm_assignees_id_seq := pm_assignees_id_seq pm + 1\<rparr>)"
    using assms(1,4,5,6,7,9,10,11) dup
    by (simp add: pm_insert_assignee_def and_then_def n2 Let_def)
  show ?thesis
    using assms(2,3) by (simp add: createAssignee_def Let_def ins)
qed

text \<open>
  C2, as amended. In \<^verbatim>\<open>routes/assignees.js\<close> of the solution document, on a connected
  store whose id sequence is not exhausted, a Create of an Assignee is answered 409
  \<^verbatim>\<open>Email already exists\<close> when its name is a string of at least two code units after
  trimming, its email is a string with an \<^verbatim>\<open>@\<close> that, trimmed, the store reads as the
  email of a stored assignee, and the store can take its values: no byte 0 in name,
  email and role, name and email within 255 characters, role absent, null or within
  100. No row is created then: the store is as before but for one id of the sequence.
  No response of that handler carries the store's error, and only a response 201 comes
  with a change of the rows. \<^verbatim>\<open>createAssignee\<close> of the controller answers a Create
  with a name, and with an email that the store reads as the email of a stored
  assignee, under the same conditions on the store and the values (role within 50
  characters), with 500 \<^verbatim>\<open>Database error\<close> and the store's unique violation in the
  body; it creates no row either.
\<close>

theorem assignee_duplicate_email_conflict:
  fixes db :: sol_store and pm :: pm_store
  assumes "sol_connected db"
    and "b ''name'' = JStr n" and "2 \<le> js_length (string_trim n)"
    and "bind_param textin (JStr (string_trim n)) = Inr n1" and "varchar 255 n1 = Inr n2"
    and "b ''email'' = JStr e" and "CHR ''@'' \<in> set e"
    and "bind_param textin (JStr (string_trim e)) = Inr e1"
    and "varchar 255 e1 = Inr (Some (a_email a))" and "a \<in> set (sol_assignees db)"
    and "bind_param textin (dflt (JStr ''Developer'') (b ''role'')) = Inr r"
    and "varchar 100 r = Inr r'"
    and "sol_assignees_id_seq db \<le> 2147483647"
    and "pm_connected pm"
    and "truthy (c ''name'')" and "truthy (c ''email'')"
    and "bind_param textin (c ''name'') = Inr m1" and "varchar 255 m1 = Inr m2"
    and "bind_param textin (c ''email'') = Inr f1"
    and "varchar 255 f1 = Inr (Some (a_email a'))" and "a' \<in> set (pm_assignees pm)"
    and "bind_param textin (dflt (JStr ''member'') (c ''role'')) = Inr q"
    and "varchar 50 q = Inr q'"
    and "pm_assignees_id_seq pm \<le> 2147483647"
  shows "assignees_post db now b =
           (fail_json 409 ''Email already exists'',
            db\<lparr>sol_assignees_id_seq := sol_assignees_id_seq db + 1\<rparr>) \<and>
         (\<forall>db2 now2 b2. leak (fst (assignees_post db2 now2 b2)) = None) \<and>
         (\<forall>db2 now2 b2. http_status (fst (assignees_post db2 now2 b2)) \<noteq> 201 \<longrightarrow>
            sol_assignees (snd (assignees_post db2 now2 b2)) = sol_assignees db2) \<and>
         createAssignee pm now c =
           (database_error (Pg UniqueViolation),
            pm\<lparr>pm_assignees_id_seq := pm_assignees_id_seq pm + 1\<rparr>)"
  using assignees_post_duplicate [OF assms(1-13)] createAssignee_duplicate [OF assms(14-24)]
    assignees_post_no_leak assignees_post_rows
  by simp

lemmas string_eval = string_trim_def is_white_space_def white_space_def is_continuation_def
  js_length_def code_units_def varchar_def bind_param_def textin_def

theorem assignee_duplicate_email_conflict_witness:
  "sol_connected sol_sample \<and> pm_connected pm_sample \<and>
   john_body ''name'' = JStr ''Johnny'' \<and> 2 \<le> js_length (string_trim ''Johnny'') \<and>
   john_body ''email'' = JStr ''john@example.com'' \<and>
   a_email (hd (sol_assignees sol_sample)) = ''john@example.com'' \<and>
   a_email (hd (pm_assignees pm_sample)) = ''john@example.com'' \<and>
   assignees_post sol_sample 9 john_body =
     (fail_json 409 ''Email already exists'', sol_sample\<lparr>sol_assignees_id_seq := 6\<rparr>) \<and>
   createAssignee pm_sample 9 john_body =
     (database_error (Pg UniqueViolation), pm_sample\<lparr>pm_assignees_id_seq := 5\<rparr>)"
proof -
  have s: "sol_connected sol_sample" "hd (sol_assignees sol_sample) \<in> set (sol_assignees sol_sample)"
    "a_email (hd (sol_assignees sol_sample)) = ''john@example.com''"
    "sol_assignees_id_seq sol_sample \<le> 2147483647" "sol_assignees_id_seq sol_sample + 1 = 6"
    by (simp_all add: sol_sample_def)
  have p: "pm_connected pm_sample" "hd (pm_assignees pm_sample) \<in> set (pm_assignees pm_sample)"
    "a_email (hd (pm_assignees pm_sample)) = ''john@example.com''"
    "pm_assignees_id_seq pm_sample \<le> 2147483647" "pm_assignees_id_seq pm_sample + 1 = 5"
    by (simp_all add: pm_sample_def)
  have b: "john_body ''name'' = JStr ''Johnny''" "john_body ''email'' = JStr ''john@example.com''"
    "dflt (JStr ''Developer'') (john_body ''role'') = JStr ''Developer''"
    "dflt (JStr ''member'') (john_body ''role'') = JStr ''member''"
    by (simp_all add: john_body_def no_body_def dflt_def)
  have t: "string_trim ''Johnny'' = ''Johnny''" "string_trim ''john@example.com'' = ''john@example.com''"
    by (simp_all add: string_eval)
  have l: "2 \<le> js_length (string_trim ''Johnny'')" "2 \<le> js_length ''Johnny''"
    "\<not> js_length ''Johnny'' < 2"
    by (simp_all add: string_eval)
  have v: "bind_param textin (JStr ''Johnny'') = Inr (Some ''Johnny'')"
    "varchar 255 (Some ''Johnny'') = Inr (Some ''Johnny'')"
    "bind_param textin (JStr ''john@example.com'') = Inr (Some ''john@example.com'')"
    "varchar 255 (Some ''john@example.com'') = Inr (Some ''john@example.com'')"
    "bind_param textin (JStr ''Developer'') = Inr (Some ''Developer'')"
    "varchar 100 (Some ''Developer'') = Inr (Some ''Developer'')"
    "bind_param textin (JStr ''member'') = Inr (Some ''member'')"
    "varchar 50 (Some ''member'') = Inr (Some ''member'')"
    by (simp_all add: string_eval)
  have "assignees_post sol_sample 9 john_body =
           (fail_json 409 ''Email already exists'',
            sol_sample\<lparr>sol_assignees_id_seq := sol_assignees_id_seq sol_sample + 1\<rparr>) \<and>
        createAssignee pm_sample 9 john_body =
           (database_error (Pg UniqueViolation),
            pm_sample\<lparr>pm_assignees_id_seq := pm_assignees_id_seq pm_sample + 1\<rparr>)"
    using assignee_duplicate_email_conflict [of sol_sample john_body "''Johnny''" "Some ''Johnny''"
        "Some ''Johnny''" "''john@example.com''" "Some ''john@example.com''"
        "hd (sol_assignees sol_sample)" "Some ''Developer''" "Some ''Developer''"
        pm_sample john_body "Some ''Johnny''" "Some ''Johnny''" "Some ''john@example.com''"
        "hd (pm_assignees pm_sample)" "Some ''member''" "Some ''member''" 9]
    by (simp add: s p b t l v)
  with s p b l(1) show ?thesis
    by simp
qed

text \<open>
  On the sample data, whose first assignee has the email \<^verbatim>\<open>john@example.com\<close>:
  \<^verbatim>\<open>createAssignee\<close> answers a Create with that email with 500 and the store's error in
  the body, and the handler of the solution document answers it with 500 when the
  role has 101 characters.
\<close>

theorem assignee_duplicate_email_500:
  "createAssignee pm_sample 9 john_body =
     (database_error (Pg UniqueViolation), pm_sample\<lparr>pm_assignees_id_seq := 5\<rparr>) \<and>
   leak (fst (createAssignee pm_sample 9 john_body)) = Some (Pg UniqueViolation) \<and>
   assignees_post sol_sample 9 (john_body(''role'' := JStr (replicate 101 CHR ''x''))) =
     (fail_json 500 ''Error creating assignee'', sol_sample)"
proof -
  have p: "pm_connected pm_sample" "hd (pm_assignees pm_sample) \<in> set (pm_assignees pm_sample)"
    "a_email (hd (pm_assignees pm_sample)) = ''john@example.com''"
    "pm_assignees_id_seq pm_sample \<le> 2147483647" "pm_assignees_id_seq pm_sample + 1 = 5"
    by (simp_all add: pm_sample_def)
  have b: "john_body ''name'' = JStr ''Johnny''" "john_body ''email'' = JStr ''john@example.com''"
    "dflt (JStr ''member'') (john_body ''role'') = JStr ''member''"
    by (simp_all add: john_body_def no_body_def dflt_def)
  have v: "bind_param textin (JStr ''Johnny'') = Inr (Some ''Johnny'')"
    "varchar 255 (Some ''Johnny'') = Inr (Some ''Johnny'')"
    "bind_param textin (JStr ''john@example.com'') = Inr (Some ''john@example.com'')"
    "varchar 255 (Some ''john@example.com'') = Inr (Some ''john@example.com'')"
    "bind_param textin (JStr ''member'') = Inr (Some ''member'')"
    "varchar 50 (Some ''member'') = Inr (Some ''member'')"
    by (simp_all add: string_eval)
  have one: "createAssignee pm_sample 9 john_body =
     (database_error (Pg UniqueViolation), pm_sample\<lparr>pm_assignees_id_seq := 5\<rparr>)"
    using createAssignee_duplicate [of pm_sample john_body "Some ''Johnny''" "Some ''Johnny''"
        "Some ''john@example.com''" "hd (pm_assignees pm_sample)" "Some ''member''" "Some ''member''" 9]
    by (simp add: p b v)
  have t: "string_trim ''Johnny'' = ''Johnny''" "string_trim ''john@example.com'' = ''john@example.com''"
    by (simp_all add: string_eval)
  have l: "2 \<le> js_length (string_trim ''Johnny'')" "2 \<le> js_length ''Johnny''"
    "\<not> js_length ''Johnny'' < 2"
    by (simp_all add: string_eval)
  have long: "varchar 100 (Some (replicate 101 CHR ''x'')) = Inl StringDataRightTruncation"
  proof -
    have "utf8_chars (replicate 101 CHR ''x'') = map (\<lambda>c. [c]) (replicate 101 CHR ''x'')"
      by (rule utf8_chars_ascii) (simp add: list_all_iff)
    then show ?thesis
      by (simp add: varchar_def Let_def drop_map list_all_iff)
  qed
  have nul: "bind_param textin (JStr (replicate 101 CHR ''x'')) = Inr (Some (replicate 101 CHR ''x''))"
    by (simp add: bind_param_def textin_def)
  have two: "assignees_post sol_sample 9 (john_body(''role'' := JStr (replicate 101 CHR ''x''))) =
     (fail_json 500 ''Error creating assignee'', sol_sample)"
    using long nul
    by (simp add: assignees_post_def validateAssignee_def Let_def b js_trim_def js_includes_def
        and_then_def t l v dflt_def sol_insert_assignee_def)
  from one two show ?thesis
    by (simp add: database_error_def)
qed

section \<open>The junction table\<close>

lemma pairs_unique_filter: "pairs_unique ms \<Longrightarrow> pairs_unique (filter P ms)"
proof -
  assume "pairs_unique ms"
  then have "distinct (map (\<lambda>m. (m_project_id m, m_assignee_id m))
      (filter P (filter (\<lambda>m. m_project_id m \<noteq> None \<and> m_assignee_id m \<noteq> None) ms)))"
    unfolding pairs_unique_def by (rule distinct_map_filter)
  then show ?thesis
    by (simp add: pairs_unique_def conj_commute)
qed

lemma sol_insert_membership_unique:
  assumes "pairs_unique (sol_project_assignees db)"
  shows "pairs_unique (sol_project_assignees (snd (sol_insert_membership db now p a r)))"
  using assms
  by (auto simp: sol_insert_membership_def pairs_unique_def and_then_def Let_def sql_eq_def
      filter_empty_conv split: sum.splits prod.splits if_splits)

lemma sol_delete_membership_unique:
  assumes "pairs_unique (sol_project_assignees db)"
  shows "pairs_unique (sol_project_assignees (snd (sol_delete_membership db swap x y)))"
  using assms
  by (auto simp: sol_delete_membership_def Let_def and_then_def pairs_unique_filter
      split: sum.splits prod.splits)

lemma sol_delete_project_unique:
  assumes "pairs_unique (sol_project_assignees db)"
  shows "pairs_unique (sol_project_assignees (snd (sol_delete_project db ident)))"
  using assms
  by (auto simp: sol_delete_project_def Let_def pairs_unique_filter split: sum.splits)

lemma sol_delete_assignee_unique:
  assumes "pairs_unique (sol_project_assignees db)"
  shows "pairs_unique (sol_project_assignees (snd (sol_delete_assignee db ident)))"
  using assms
  by (auto simp: sol_delete_assignee_def Let_def pairs_unique_filter split: sum.splits)

lemma sol_insert_assignee_junction:
  "sol_project_assignees (snd (sol_insert_assignee db now n e r)) = sol_project_assignees db"
  by (simp add: sol_insert_assignee_def Let_def split: sum.splits prod.splits option.splits)

lemma sol_update_assignee_junction:
  "sol_project_assignees (snd (sol_update_assignee db now sets ident)) = sol_project_assignees db"
  by (simp add: sol_update_assignee_def split: sum.splits prod.splits)

lemma sol_insert_project_junction:
  "sol_project_assignees (snd (sol_insert_project db now n d s)) = sol_project_assignees db"
  by (simp add: sol_insert_project_def Let_def split: sum.splits prod.splits option.splits)

lemma sol_update_project_junction:
  "sol_project_assignees (snd (sol_update_project db now sets ident)) = sol_project_assignees db"
  by (simp add: sol_update_project_def split: sum.splits prod.splits)

lemma sol_insert_task_junction:
  "sol_project_assignees (snd (sol_insert_task db now t d s p dd pid aid)) = sol_project_assignees db"
  by (simp add: sol_insert_task_def Let_def split: sum.splits prod.splits option.splits)

lemma sol_update_task_junction:
  "sol_project_assignees (snd (sol_update_task db now sets ident)) = sol_project_assignees db"
  by (simp add: sol_update_task_def split: sum.splits prod.splits)

lemma sol_delete_task_junction:
  "sol_project_assignees (snd (sol_delete_task db ident)) = sol_project_assignees db"
  by (simp add: sol_delete_task_def split: sum.splits)

lemma junction_untouched:
  "sol_project_assignees (snd (assignees_post db now b)) = sol_project_assignees db"
  "sol_project_assignees (snd (assignees_patch db now ident b)) = sol_project_assignees db"
  "sol_project_assignees (snd (projects_post db now b)) = sol_project_assignees db"
  "sol_project_assignees (snd (projects_patch db now ident b)) = sol_project_assignees db"
  "sol_project_assignees (snd (tasks_post db now b)) = sol_project_assignees db"
  "sol_project_assignees (snd (tasks_patch db now ident b)) = sol_project_assignees db"
  "sol_project_assignees (snd (tasks_delete db ident)) = sol_project_assignees db"
proof -
  show "sol_project_assignees (snd (assignees_post db now b)) = sol_project_assignees db"
    by (simp add: assignees_post_def Let_def case_prod_beta sol_insert_assignee_junction
        split: sum.splits option.splits)
  show "sol_project_assignees (snd (assignees_patch db now ident b)) = sol_project_assignees db"
    by (simp add: assignees_patch_def Let_def case_prod_beta sol_update_assignee_junction
        split: sum.splits step.splits)
  show "sol_project_assignees (snd (projects_post db now b)) = sol_project_assignees db"
    by (simp add: projects_post_def Let_def case_prod_beta sol_insert_project_junction
        split: sum.splits option.splits)
  show "sol_project_assignees (snd (projects_patch db now ident b)) = sol_project_assignees db"
    by (simp add: projects_patch_def Let_def case_prod_beta sol_update_project_junction
        split: sum.splits step.splits)
  show "sol_project_assignees (snd (tasks_post db now b)) = sol_project_assignees db"
    by (simp add: tasks_post_def Let_def case_prod_beta sol_insert_task_junction
        split: sum.splits option.splits)
  show "sol_project_assignees (snd (tasks_patch db now ident b)) = sol_project_assignees db"
    by (simp add: tasks_patch_def Let_def case_prod_beta sol_update_task_junction
        split: sum.splits step.splits)
  show "sol_project_assignees (snd (tasks_delete db ident)) = sol_project_assignees db"
    by (simp add: tasks_delete_def Let_def case_prod_beta sol_delete_task_junction
        split: sum.splits)
qed

lemma junction_kept:
  assumes "pairs_unique (sol_project_assignees db)"
  shows "pairs_unique (sol_project_assignees (snd (assignees_post_projects db now ident b)))"
    "pairs_unique (sol_project_assignees (snd (projects_post_assignees db now ident b)))"
    "pairs_unique (sol_project_assignees (snd (assignees_delete_projects db ident ident')))"
    "pairs_unique (sol_project_assignees (snd (projects_delete_assignees db ident ident')))"
    "pairs_unique (sol_project_assignees (snd (assignees_delete db ident)))"
    "pairs_unique (sol_project_assignees (snd (projects_delete db ident)))"
proof -
  show "pairs_unique (sol_project_assignees (snd (assignees_post_projects db now ident b)))"
    using assms sol_insert_membership_unique [OF assms]
    by (simp add: assignees_post_projects_def Let_def case_prod_beta split: sum.splits)
  show "pairs_unique (sol_project_assignees (snd (projects_post_assignees db now ident b)))"
    using assms sol_insert_membership_unique [OF assms]
    by (simp add: projects_post_assignees_def Let_def case_prod_beta split: sum.splits)
  show "pairs_unique (sol_project_assignees (snd (assignees_delete_projects db ident ident')))"
    using assms sol_delete_membership_unique [OF assms]
    by (simp add: assignees_delete_projects_def Let_def case_prod_beta split: sum.splits)
  show "pairs_unique (sol_project_assignees (snd (projects_delete_assignees db ident ident')))"
    using assms sol_delete_membership_unique [OF assms]
    by (simp add: projects_delete_assignees_def Let_def case_prod_beta split: sum.splits)
  show "pairs_unique (sol_project_assignees (snd (assignees_delete db ident)))"
    using assms sol_delete_assignee_unique [OF assms]
    by (simp add: assignees_delete_def Let_def case_prod_beta split: sum.splits)
  show "pairs_unique (sol_project_assignees (snd (projects_delete db ident)))"
    using assms sol_delete_project_unique [OF assms]
    by (simp add: projects_delete_def Let_def case_prod_beta split: sum.splits)
qed

lemma assign_twice:
  assumes "sol_connected db"
    and "m \<in> set (sol_project_assignees db)"
    and "m_project_id m = Some p" and "m_assignee_id m = Some a"
    and "bind_param int4in pv = Inr (Some p)" and "bind_param int4in av = Inr (Some a)"
    and "bind_param textin rv = Inr r" and "varchar 100 r = Inr r'"
    and "sol_project_assignees_id_seq db \<le> 2147483647"
  shows "sol_insert_membership db now pv av rv =
      (Inl (Pg UniqueViolation),
       db\<lparr>sol_project_assignees_id_seq := sol_project_assignees_id_seq db + 1\<rparr>)"
proof -
  have ms: "filter (\<lambda>m. m_id m = sol_project_assignees_id_seq db \<or>
                    sql_eq (m_project_id m) (Some p) \<and> sql_eq (m_assignee_id m) (Some a))
              (sol_project_assignees db) \<noteq> []"
    using assms(2-4) by (auto simp: filter_empty_conv sql_eq_def)
  show ?thesis
    using assms(1,5-9) ms
    by (simp add: sol_insert_membership_def and_then_def Let_def)
qed

lemma junction_pairs_unique:
  assumes "pairs_unique (sol_project_assignees db0)"
  shows "pairs_unique (sol_project_assignees (snd (assignees_post db0 t q))) \<and>
         pairs_unique (sol_project_assignees (snd (assignees_patch db0 t i q))) \<and>
         pairs_unique (sol_project_assignees (snd (assignees_delete db0 i))) \<and>
         pairs_unique (sol_project_assignees (snd (assignees_post_projects db0 t i q))) \<and>
         pairs_unique (sol_project_assignees (snd (assignees_delete_projects db0 i j))) \<and>
         pairs_unique (sol_project_assignees (snd (projects_post db0 t q))) \<and>
         pairs_unique (sol_project_assignees (snd (projects_patch db0 t i q))) \<and>
         pairs_unique (sol_project_assignees (snd (projects_delete db0 i))) \<and>
         pairs_unique (sol_project_assignees (snd (projects_post_assignees db0 t i q))) \<and>
         pairs_unique (sol_project_assignees (snd (projects_delete_assignees db0 i j))) \<and>
         pairs_unique (sol_project_assignees (snd (tasks_post db0 t q))) \<and>
         pairs_unique (sol_project_assignees (snd (tasks_patch db0 t i q))) \<and>
         pairs_unique (sol_project_assignees (snd (tasks_delete db0 i)))"
  using assms junction_kept [OF assms]
  by (simp add: junction_untouched)

text \<open>
  C6, as amended. In the solution document, on a connected store whose sequence of
  \<^verbatim>\<open>project_assignees\<close> is not exhausted, an attempt to assign a pair (project,
  assignee) that a row of the table already holds, with both rows of the pair present
  and a \<^verbatim>\<open>role_in_project\<close> that the column can take (absent, null, or text without a
  byte 0 and within 100 characters), answers 409 and inserts no row, through
  \<^verbatim>\<open>POST /api/assignees/:id/projects\<close> and through \<^verbatim>\<open>POST /api/projects/:id/assignees\<close>
  alike; the store is as before but for one id of the sequence. After every request to
  a handler of the document that writes to the store, each pair still occurs at most
  once in the table.
\<close>

theorem duplicate_assignment_conflict:
  assumes "sol_connected db"
    and "m \<in> set (sol_project_assignees db)"
    and "m_project_id m = Some p" and "m_assignee_id m = Some a"
    and "x \<in> set (sol_assignees db)" and "a_id x = a"
    and "y \<in> set (sol_projects db)" and "sp_id y = p"
    and "sol_project_assignees_id_seq db \<le> 2147483647"
    and "bind_param int4in (JStr ident) = Inr (Some a)"
    and "truthy (b ''project_id'')" and "bind_param int4in (b ''project_id'') = Inr (Some p)"
    and "bind_param textin (dflt (JStr ''Team Member'') (b ''role_in_project'')) = Inr r"
    and "varchar 100 r = Inr r'"
    and "bind_param int4in (JStr ident2) = Inr (Some p)"
    and "truthy (c ''assignee_id'')" and "bind_param int4in (c ''assignee_id'') = Inr (Some a)"
    and "bind_param textin (dflt (JStr ''Team Member'') (c ''role_in_project'')) = Inr s"
    and "varchar 100 s = Inr s'"
  shows "assignees_post_projects db now ident b =
           (fail_json 409 ''Assignee is already assigned to this project'',
            db\<lparr>sol_project_assignees_id_seq := sol_project_assignees_id_seq db + 1\<rparr>) \<and>
         projects_post_assignees db now ident2 c =
           (fail_json 409 ''Assignee is already assigned to this project'',
            db\<lparr>sol_project_assignees_id_seq := sol_project_assignees_id_seq db + 1\<rparr>) \<and>
         (\<forall>db0 t i j q.
            pairs_unique (sol_project_assignees db0) \<longrightarrow>
              pairs_unique (sol_project_assignees (snd (assignees_post db0 t q))) \<and>
              pairs_unique (sol_project_assignees (snd (assignees_patch db0 t i q))) \<and>
              pairs_unique (sol_project_assignees (snd (assignees_delete db0 i))) \<and>
              pairs_unique (sol_project_assignees (snd (assignees_post_projects db0 t i q))) \<and>
              pairs_unique (sol_project_assignees (snd (assignees_delete_projects db0 i j))) \<and>
              pairs_unique (sol_project_assignees (snd (projects_post db0 t q))) \<and>
              pairs_unique (sol_project_assignees (snd (projects_patch db0 t i q))) \<and>
              pairs_unique (sol_project_assignees (snd (projects_delete db0 i))) \<and>
              pairs_unique (sol_project_assignees (snd (projects_post_assignees db0 t i q))) \<and>
              pairs_unique (sol_project_assignees (snd (projects_delete_assignees db0 i j))) \<and>
              pairs_unique (sol_project_assignees (snd (tasks_post db0 t q))) \<and>
              pairs_unique (sol_project_assignees (snd (tasks_patch db0 t i q))) \<and>
              pairs_unique (sol_project_assignees (snd (tasks_delete db0 i))))"
proof -
  have xs: "filter (\<lambda>x. sql_eq (Some (a_id x)) (Some a)) (sol_assignees db) \<noteq> []"
    using assms(5,6) by (auto simp: filter_empty_conv sql_eq_def)
  have ys: "filter (\<lambda>y. sql_eq (Some (sp_id y)) (Some p)) (sol_projects db) \<noteq> []"
    using assms(7,8) by (auto simp: filter_empty_conv sql_eq_def)
  have "assignees_post_projects db now ident b =
           (fail_json 409 ''Assignee is already assigned to this project'',
            db\<lparr>sol_project_assignees_id_seq := sol_project_assignees_id_seq db + 1\<rparr>)"
    using assms(1,10,11,12) xs ys
    by (simp add: assignees_post_projects_def Let_def sol_find_assignee_def sol_find_project_def
        assign_twice [OF assms(1-4) assms(12) assms(10) assms(13,14,9)])
  moreover have "projects_post_assignees db now ident2 c =
           (fail_json 409 ''Assignee is already assigned to this project'',
            db\<lparr>sol_project_assignees_id_seq := sol_project_assignees_id_seq db + 1\<rparr>)"
    using assms(1,15,16,17) xs ys
    by (simp add: projects_post_assignees_def Let_def sol_find_assignee_def sol_find_project_def
        assign_twice [OF assms(1-4) assms(15) assms(17) assms(18,19,9)])
  ultimately show ?thesis
    using junction_pairs_unique by blast
qed

theorem duplicate_assignment_conflict_witness:
  "sol_connected sol_sample \<and>
   m_project_id (hd (sol_project_assignees sol_sample)) = Some 1 \<and>
   m_assignee_id (hd (sol_project_assignees sol_sample)) = Some 1 \<and>
   pairs_unique (sol_project_assignees sol_sample) \<and>
   assignees_post_projects sol_sample 3 ''1'' assign_body =
     (fail_json 409 ''Assignee is already assigned to this project'',
      sol_sample\<lparr>sol_project_assignees_id_seq := 7\<rparr>) \<and>
   projects_post_assignees sol_sample 3 ''1'' assignee_body =
     (fail_json 409 ''Assignee is already assigned to this project'',
      sol_sample\<lparr>sol_project_assignees_id_seq := 7\<rparr>) \<and>
   pairs_unique (sol_project_assignees (snd (assignees_post_projects sol_sample 3 ''1'' assign_body)))"
proof -
  have c: "sol_connected sol_sample" and q: "sol_project_assignees_id_seq sol_sample \<le> 2147483647"
    and m: "hd (sol_project_assignees sol_sample) \<in> set (sol_project_assignees sol_sample)"
      "m_project_id (hd (sol_project_assignees sol_sample)) = Some 1"
      "m_assignee_id (hd (sol_project_assignees sol_sample)) = Some 1"
    and x: "hd (sol_assignees sol_sample) \<in> set (sol_assignees sol_sample)"
      "a_id (hd (sol_assignees sol_sample)) = 1"
    and y: "hd (sol_projects sol_sample) \<in> set (sol_projects sol_sample)"
      "sp_id (hd (sol_projects sol_sample)) = 1"
    and u: "pairs_unique (sol_project_assignees sol_sample)"
    and n: "sol_project_assignees_id_seq sol_sample + 1 = 7"
    by (simp_all add: sol_sample_def pairs_unique_def)
  have t: "truthy (assign_body ''project_id'')" "truthy (assignee_body ''assignee_id'')"
    by (simp_all add: assign_body_def assignee_body_def)
  have p: "bind_param int4in (assign_body ''project_id'') = Inr (Some 1)"
    "bind_param int4in (assignee_body ''assignee_id'') = Inr (Some 1)"
    by (simp_all add: assign_body_def assignee_body_def bind_int4in_JNum_1)
  have r: "bind_param textin (dflt (JStr ''Team Member'') (assign_body ''role_in_project'')) =
      Inr (Some ''Team Member'')"
    "bind_param textin (dflt (JStr ''Team Member'') (assignee_body ''role_in_project'')) =
      Inr (Some ''Team Member'')"
    "varchar 100 (Some ''Team Member'') = Inr (Some ''Team Member'')"
    by (simp_all add: assign_body_def assignee_body_def no_body_def dflt_def string_eval)
  from duplicate_assignment_conflict [OF c m x y q bind_int4in_1 t(1) p(1) r(1,3) bind_int4in_1
      t(2) p(2) r(2,3), of 3] u n c m(2,3)
  show ?thesis
    by simp
qed

text \<open>
  The sample data assigns assignee 1 to project 1. Assigning the pair again with a
  \<^verbatim>\<open>role_in_project\<close> of 101 characters is answered 500, not 409.
\<close>

theorem duplicate_assignment_500:
  "m_project_id (hd (sol_project_assignees sol_sample)) = Some 1 \<and>
   m_assignee_id (hd (sol_project_assignees sol_sample)) = Some 1 \<and>
   assignees_post_projects sol_sample 3 ''1''
       (assign_body(''role_in_project'' := JStr (replicate 101 CHR ''x''))) =
     (fail_json 500 ''Error assigning assignee to project'', sol_sample)"
proof -
  have m: "m_project_id (hd (sol_project_assignees sol_sample)) = Some 1"
      "m_assignee_id (hd (sol_project_assignees sol_sample)) = Some 1"
    and c: "sol_connected sol_sample"
    and x: "filter (\<lambda>x. sql_eq (Some (a_id x)) (Some 1)) (sol_assignees sol_sample) \<noteq> []"
    and y: "filter (\<lambda>y. sql_eq (Some (sp_id y)) (Some 1)) (sol_projects sol_sample) \<noteq> []"
    by (simp_all add: sol_sample_def sql_eq_def)
  have "sol_insert_membership sol_sample 3 (JNum 1) (JStr ''1'') (JStr (replicate 101 CHR ''x'')) =
      (Inl (Pg StringDataRightTruncation), sol_sample)"
    using c
    by (simp add: sol_insert_membership_def and_then_def bind_int4in_JNum_1 bind_int4in_1
        bind_textin_long varchar_long)
  then have "assignees_post_projects sol_sample 3 ''1''
       (assign_body(''role_in_project'' := JStr (replicate 101 CHR ''x''))) =
     (fail_json 500 ''Error assigning assignee to project'', sol_sample)"
    using c x y
    by (simp add: assignees_post_projects_def Let_def assign_body_def dflt_def
        sol_find_assignee_def sol_find_project_def bind_int4in_JNum_1 bind_int4in_1)
  with m show ?thesis
    by simp
qed


end
